theory Spec2Isabelle
  imports Complex_Main
begin

section \<open>Wire values and validated values\<close>

text \<open>
  The repository is a set of schema declarations: \<^verbatim>\<open>pydantic.BaseModel\<close> classes
  (\<^verbatim>\<open>types/response.py\<close>, \<^verbatim>\<open>types/schemas.py\<close>) and \<^verbatim>\<open>TypedDict\<close> classes
  (\<^verbatim>\<open>types/params.py\<close>, \<^verbatim>\<open>types/tools.py\<close>, \<^verbatim>\<open>types/reasoning.py\<close>).
  Decoding a request or a response is the validation of a JSON value against such a
  declaration. A JSON value as it arrives on the wire follows; an object is the list of
  its entries, a key is looked up with \<open>map_of\<close>, and a number with a fraction is
  carried as a real (no arithmetic is done on it).
\<close>

datatype json =
    JNull
  | JBool bool
  | JInt int
  | JFloat real
  | JStr string
  | JArr "json list"
  | JObj "(string \<times> json) list"

text \<open>
  A validated value. A \<^verbatim>\<open>BaseModel\<close> instance carries its class name, the value of
  every declared field in declaration order, and the names of the fields that were set
  from the input (\<^verbatim>\<open>model_fields_set\<close>). A validated \<^verbatim>\<open>TypedDict\<close> or
  \<^verbatim>\<open>Dict\<close> is a dictionary. A value of declared type \<^verbatim>\<open>object\<close> is kept as it was
  received. A field declared \<^verbatim>\<open>Iterable[T]\<close> holds a lazy iterator over the items as
  received: its items are validated when the iterator is consumed, not when the
  enclosing value is decoded.
\<close>

datatype val =
    VNone
  | VBool bool
  | VInt int
  | VFloat real
  | VStr string
  | VList "val list"
  | VDict "(string \<times> val) list"
  | VModel string "(string \<times> val) list" "string list"
  | VRaw json
  | VIter "json list"

section \<open>Schema declarations\<close>

text \<open>
  A field is \<^verbatim>\<open>Required\<close> (a model field without default, or \<^verbatim>\<open>Required[...]\<close>
  in a \<^verbatim>\<open>TypedDict\<close>), \<^verbatim>\<open>NotRequired\<close> (a plain key of a
  \<^verbatim>\<open>TypedDict\<close> declared with \<^verbatim>\<open>total=False\<close>: it may be absent and then stays
  absent) or has a default value (a model field with \<^verbatim>\<open>= None\<close> or
  \<^verbatim>\<open>pydantic.Field(default=...)\<close>).
\<close>

datatype presence = Required | NotRequired | Default val

text \<open>
  The type annotations that occur in the source. \<open>TOptional t\<close> is \<^verbatim>\<open>Optional[t]\<close>,
  \<open>TDict t\<close> is \<^verbatim>\<open>Dict[str, t]\<close>, \<open>TObject\<close> is the annotation \<^verbatim>\<open>object\<close>,
  \<open>TAnnotated t d\<close> is \<^verbatim>\<open>Annotated[t, PropertyInfo(discriminator=d)]\<close>.
  A field has an attribute name and a wire key; they differ only where the source gives
  an alias (\<^verbatim>\<open>pydantic.Field(alias="schema")\<close>).
\<close>

datatype ty =
    TStr
  | TInt
  | TFloat
  | TBool
  | TLiteral "string list"
  | TObject
  | TOptional ty
  | TList ty
  | TIterable ty
  | TDict ty
  | TUnion "ty list"
  | TAnnotated ty string
  | TModel string "field list"
  | TTypedDict string "field list"
and field = Field (fname: string) (fkey: string) (fty: ty) (fpres: presence)

abbreviation fld :: "string \<Rightarrow> ty \<Rightarrow> presence \<Rightarrow> field" where
  "fld n \<equiv> Field n n"

section \<open>Validation\<close>

text \<open>
  A validation error has a location (the path of keys, list positions and union member
  labels leading to the offending value), a kind, and the offending input. The kinds
  carry the names of the validation library's error types.
\<close>

datatype loc = Key string | Idx nat | Tag string

datatype err_kind =
    missing
  | string_type
  | int_type
  | float_type
  | bool_type
  | literal_error
  | list_type
  | iterable_type
  | dict_type
  | model_type

datatype verr = VErr "loc list" err_kind json

fun at_loc :: "loc \<Rightarrow> verr \<Rightarrow> verr" where
  "at_loc l (VErr p k j) = VErr (l # p) k j"

text \<open>
  The label under which a union reports the errors of one of its members. For a member
  that is a class it is the name of the class, as \<^verbatim>\<open>pydantic\<close> prints it. For a
  member that is not a class \<^verbatim>\<open>pydantic\<close> prints the annotation in full (a literal
  with its values, a list with its item type); the label here names only its kind. The
  statements on type tags below read the label of classes only.
\<close>

fun type_label :: "ty \<Rightarrow> string" where
  "type_label TStr = ''str''"
| "type_label TInt = ''int''"
| "type_label TFloat = ''float''"
| "type_label TBool = ''bool''"
| "type_label (TLiteral ls) = ''literal''"
| "type_label TObject = ''any''"
| "type_label (TOptional t) = ''nullable''"
| "type_label (TList t) = ''list''"
| "type_label (TIterable t) = ''generator''"
| "type_label (TDict t) = ''dict''"
| "type_label (TUnion ts) = ''union''"
| "type_label (TAnnotated t d) = type_label t"
| "type_label (TModel n fs) = n"
| "type_label (TTypedDict n fs) = n"

text \<open>
  The outcome of one field: its errors, or its attribute name with the validated value and
  whether the value came from the input, or nothing (an absent key of a
  \<^verbatim>\<open>TypedDict\<close> that is not required).
\<close>

type_synonym outcome = "verr list + (string \<times> val \<times> bool) option"

fun outcome_errors :: "outcome \<Rightarrow> verr list" where
  "outcome_errors (Inl es) = es"
| "outcome_errors (Inr _) = []"

fun outcome_values :: "outcome \<Rightarrow> (string \<times> val \<times> bool) list" where
  "outcome_values (Inr (Some x)) = [x]"
| "outcome_values _ = []"

text \<open>A missing key: an error for a required field, the default for a field that has one.\<close>

fun absent :: "json \<Rightarrow> field \<Rightarrow> outcome" where
  "absent j (Field n k t Required) = Inl [VErr [Key k] missing j]"
| "absent j (Field n k t NotRequired) = Inr None"
| "absent j (Field n k t (Default d)) = Inr (Some (n, d, False))"

fun present :: "field \<Rightarrow> verr list + val \<Rightarrow> outcome" where
  "present f (Inl es) = Inl (map (at_loc (Key (fkey f))) es)"
| "present f (Inr v) = Inr (Some (fname f, v, True))"

text \<open>
  When a field fails, all errors of all fields are reported; otherwise the model instance
  (or the dictionary of a \<^verbatim>\<open>TypedDict\<close>) is built.
\<close>

definition build_model :: "string \<Rightarrow> outcome list \<Rightarrow> verr list + val" where
  "build_model n os =
     (if list_ex isl os then Inl (concat (map outcome_errors os))
      else let vs = concat (map outcome_values os)
           in Inr (VModel n (map (\<lambda>(k, v, s). (k, v)) vs)
                     (map fst (filter (\<lambda>(k, v, s). s) vs))))"

definition build_dict :: "outcome list \<Rightarrow> verr list + val" where
  "build_dict os =
     (if list_ex isl os then Inl (concat (map outcome_errors os))
      else Inr (VDict (map (\<lambda>(k, v, s). (k, v)) (concat (map outcome_values os)))))"

text \<open>The items of a list, with the position of each error.\<close>

fun item_errors :: "nat \<Rightarrow> (verr list + val) list \<Rightarrow> verr list" where
  "item_errors i [] = []"
| "item_errors i (Inl es # rs) = map (at_loc (Idx i)) es @ item_errors (Suc i) rs"
| "item_errors i (Inr v # rs) = item_errors (Suc i) rs"

fun item_values :: "(verr list + val) list \<Rightarrow> val list" where
  "item_values [] = []"
| "item_values (Inl es # rs) = item_values rs"
| "item_values (Inr v # rs) = v # item_values rs"

definition build_list :: "(verr list + val) list \<Rightarrow> verr list + val" where
  "build_list rs =
     (if list_ex isl rs then Inl (item_errors 0 rs) else Inr (VList (item_values rs)))"

text \<open>The entries of a \<^verbatim>\<open>Dict[str, t]\<close>.\<close>

fun entry_errors :: "(string \<times> (verr list + val)) list \<Rightarrow> verr list" where
  "entry_errors [] = []"
| "entry_errors ((k, Inl es) # rs) = map (at_loc (Key k)) es @ entry_errors rs"
| "entry_errors ((k, Inr v) # rs) = entry_errors rs"

fun entry_values :: "(string \<times> (verr list + val)) list \<Rightarrow> (string \<times> val) list" where
  "entry_values [] = []"
| "entry_values ((k, Inl es) # rs) = entry_values rs"
| "entry_values ((k, Inr v) # rs) = (k, v) # entry_values rs"

definition build_entries :: "(string \<times> (verr list + val)) list \<Rightarrow> verr list + val" where
  "build_entries rs =
     (if list_ex (\<lambda>(k, r). isl r) rs then Inl (entry_errors rs)
      else Inr (VDict (entry_values rs)))"

text \<open>
  A union takes the first member that validates the input. When no member does, the
  errors of every member are reported, each under the label of its member. (Where several
  members validate an input, pydantic ranks them by how exactly the input matches and by
  the number of fields set; the ranking is not modelled. The members of the tagged unions
  have disjoint tags, so at most one of them validates an input: see
  \<open>tagged_members_exclusive\<close> below.)
\<close>

fun first_success :: "(string \<times> (verr list + val)) list \<Rightarrow> verr list + val" where
  "first_success [] = Inl []"
| "first_success ((l, Inr v) # rs) = Inr v"
| "first_success ((l, Inl es) # rs) =
     (case first_success rs of
        Inr v \<Rightarrow> Inr v
      | Inl es' \<Rightarrow> Inl (map (at_loc (Tag l)) es @ es'))"

text \<open>
  The validator: what \<^verbatim>\<open>pydantic\<close> does with a JSON value at a declared type. A
  scalar is accepted at its own JSON type, and an integer where a float is declared. A
  literal accepts exactly its listed strings. \<^verbatim>\<open>object\<close> accepts everything and
  keeps it. \<^verbatim>\<open>Optional[t]\<close> accepts \<^verbatim>\<open>null\<close> and what \<open>t\<close> accepts. A list
  validates every item; an \<^verbatim>\<open>Iterable\<close> only checks that it is given an array. A
  model or \<^verbatim>\<open>TypedDict\<close> reads its declared keys from an object and ignores every
  other key; an object is a list of entries, and a key written twice is read at its first
  entry. The \<^verbatim>\<open>PropertyInfo\<close> annotation (\<^verbatim>\<open>types/transform.py\<close>, not among
  the sources) is metadata that \<^verbatim>\<open>pydantic\<close> does not read: an annotated union
  validates as the union it annotates.

  Not modelled: the conversions of \<^verbatim>\<open>pydantic\<close>'s lax mode from a value of another
  JSON type (a numeric string or an integral float where an integer is declared, 0 and 1
  where a boolean is); the model reports a type error there. No statement below rests on
  such an error: the failures they state come from a missing key or from a literal, which
  no conversion repairs, and the inputs they decode are of the declared JSON types.
\<close>

function validate :: "ty \<Rightarrow> json \<Rightarrow> verr list + val" where
  "validate TStr j = (case j of JStr s \<Rightarrow> Inr (VStr s) | _ \<Rightarrow> Inl [VErr [] string_type j])"
| "validate TInt j = (case j of JInt i \<Rightarrow> Inr (VInt i) | _ \<Rightarrow> Inl [VErr [] int_type j])"
| "validate TFloat j =
     (case j of JFloat r \<Rightarrow> Inr (VFloat r) | JInt i \<Rightarrow> Inr (VFloat (of_int i))
      | _ \<Rightarrow> Inl [VErr [] float_type j])"
| "validate TBool j = (case j of JBool b \<Rightarrow> Inr (VBool b) | _ \<Rightarrow> Inl [VErr [] bool_type j])"
| "validate (TLiteral ls) j =
     (case j of JStr s \<Rightarrow> if s \<in> set ls then Inr (VStr s) else Inl [VErr [] literal_error j]
      | _ \<Rightarrow> Inl [VErr [] literal_error j])"
| "validate TObject j = Inr (VRaw j)"
| "validate (TOptional t) j = (case j of JNull \<Rightarrow> Inr VNone | _ \<Rightarrow> validate t j)"
| "validate (TList t) j =
     (case j of JArr xs \<Rightarrow> build_list (map (validate t) xs) | _ \<Rightarrow> Inl [VErr [] list_type j])"
| "validate (TIterable t) j =
     (case j of JArr xs \<Rightarrow> Inr (VIter xs) | _ \<Rightarrow> Inl [VErr [] iterable_type j])"
| "validate (TDict t) j =
     (case j of JObj kv \<Rightarrow> build_entries (map (\<lambda>(k, v). (k, validate t v)) kv)
      | _ \<Rightarrow> Inl [VErr [] dict_type j])"
| "validate (TUnion ts) j = first_success (map (\<lambda>t. (type_label t, validate t j)) ts)"
| "validate (TAnnotated t d) j = validate t j"
| "validate (TModel n fs) j =
     (case j of
        JObj kv \<Rightarrow>
          build_model n (map (\<lambda>f. case map_of kv (fkey f) of
                                      None \<Rightarrow> absent j f
                                    | Some v \<Rightarrow> present f (validate (fty f) v)) fs)
      | _ \<Rightarrow> Inl [VErr [] model_type j])"
| "validate (TTypedDict n fs) j =
     (case j of
        JObj kv \<Rightarrow>
          build_dict (map (\<lambda>f. case map_of kv (fkey f) of
                                  None \<Rightarrow> absent j f
                                | Some v \<Rightarrow> present f (validate (fty f) v)) fs)
      | _ \<Rightarrow> Inl [VErr [] dict_type j])"
  by pat_completeness auto

text \<open>
  Every recursive call is on a type annotation that is part of the one being validated.
\<close>

termination
proof -
  have field_smaller: "size (fty f) < Suc (size_list size fs)"
    if "f \<in> set fs" for f :: field and fs
  proof -
    have "size (fty f) < size f" by (cases f) simp
    also from that have "size f \<le> size_list size fs"
      by (rule size_list_estimation') simp
    finally show ?thesis by simp
  qed
  have member_smaller: "size t < Suc (size_list size ts)"
    if "t \<in> set ts" for t :: ty and ts
  proof -
    from that have "size t \<le> size_list size ts"
      by (rule size_list_estimation') simp
    then show ?thesis by simp
  qed
  show ?thesis
    by (relation "measure (\<lambda>(t, j). size t)") (auto simp: field_smaller member_smaller)
qed

section \<open>The declarations of \<^verbatim>\<open>types/response.py\<close>\<close>

text \<open>
  Every class of the module, in the order of the source, with its fields in declaration
  order. A field written \<^verbatim>\<open>x: Optional[T] = None\<close> has the default \<open>VNone\<close>.
\<close>

definition ResponseError :: ty where
  "ResponseError = TModel ''ResponseError''
     [fld ''code'' (TLiteral
        [''server_error'', ''rate_limit_exceeded'', ''invalid_prompt'',
         ''vector_store_timeout'', ''invalid_image'', ''invalid_image_format'',
         ''invalid_base64_image'', ''invalid_image_url'', ''image_too_large'',
         ''image_too_small'', ''image_parse_error'', ''image_content_policy_violation'',
         ''invalid_image_mode'', ''image_file_too_large'', ''unsupported_image_media_type'',
         ''empty_image_file'', ''failed_to_download_image'', ''image_file_not_found'']) Required,
      fld ''message'' TStr Required]"

definition IncompleteDetails :: ty where
  "IncompleteDetails = TModel ''IncompleteDetails''
     [fld ''reason'' (TOptional (TLiteral [''max_output_tokens'', ''content_filter'']))
        (Default VNone)]"

definition AnnotationFileCitation :: ty where
  "AnnotationFileCitation = TModel ''AnnotationFileCitation''
     [fld ''file_id'' TStr Required,
      fld ''index'' TInt Required,
      fld ''type'' (TLiteral [''file_citation'']) Required]"

definition AnnotationURLCitation :: ty where
  "AnnotationURLCitation = TModel ''AnnotationURLCitation''
     [fld ''end_index'' TInt Required,
      fld ''start_index'' TInt Required,
      fld ''title'' TStr Required,
      fld ''type'' (TLiteral [''url_citation'']) Required,
      fld ''url'' TStr Required]"

definition AnnotationFilePath :: ty where
  "AnnotationFilePath = TModel ''AnnotationFilePath''
     [fld ''file_id'' TStr Required,
      fld ''index'' TInt Required,
      fld ''type'' (TLiteral [''file_path'']) Required]"

definition Annotation :: ty where
  "Annotation = TAnnotated
     (TUnion [AnnotationFileCitation, AnnotationURLCitation, AnnotationFilePath]) ''type''"

definition ResponseOutputText :: ty where
  "ResponseOutputText = TModel ''ResponseOutputText''
     [fld ''annotations'' (TList Annotation) Required,
      fld ''text'' TStr Required,
      fld ''type'' (TLiteral [''output_text'']) Required]"

definition ResponseOutputRefusal :: ty where
  "ResponseOutputRefusal = TModel ''ResponseOutputRefusal''
     [fld ''refusal'' TStr Required,
      fld ''type'' (TLiteral [''refusal'']) Required]"

definition Content :: ty where
  "Content = TAnnotated (TUnion [ResponseOutputText, ResponseOutputRefusal]) ''type''"

definition ResponseOutputMessage :: ty where
  "ResponseOutputMessage = TModel ''ResponseOutputMessage''
     [fld ''id'' TStr Required,
      fld ''content'' (TList Content) Required,
      fld ''role'' (TLiteral [''assistant'']) Required,
      fld ''status'' (TLiteral [''in_progress'', ''completed'', ''incomplete'']) Required,
      fld ''type'' (TLiteral [''message'']) Required]"

definition Result :: ty where
  "Result = TModel ''Result''
     [fld ''attributes'' (TOptional (TDict (TUnion [TStr, TFloat, TBool]))) (Default VNone),
      fld ''file_id'' (TOptional TStr) (Default VNone),
      fld ''filename'' (TOptional TStr) (Default VNone),
      fld ''score'' (TOptional TFloat) (Default VNone),
      fld ''text'' (TOptional TStr) (Default VNone)]"

definition ResponseFileSearchToolCall :: ty where
  "ResponseFileSearchToolCall = TModel ''ResponseFileSearchToolCall''
     [fld ''id'' TStr Required,
      fld ''queries'' (TList TStr) Required,
      fld ''status'' (TLiteral [''in_progress'', ''searching'', ''completed'', ''incomplete'',
                                ''failed'']) Required,
      fld ''type'' (TLiteral [''file_search_call'']) Required,
      fld ''results'' (TOptional (TList Result)) (Default VNone)]"

definition ResponseFunctionToolCall :: ty where
  "ResponseFunctionToolCall = TModel ''ResponseFunctionToolCall''
     [fld ''arguments'' TStr Required,
      fld ''call_id'' TStr Required,
      fld ''name'' TStr Required,
      fld ''type'' (TLiteral [''function_call'']) Required,
      fld ''id'' (TOptional TStr) (Default VNone),
      fld ''status'' (TOptional (TLiteral [''in_progress'', ''completed'', ''incomplete'']))
        (Default VNone)]"

definition ResponseFunctionWebSearch :: ty where
  "ResponseFunctionWebSearch = TModel ''ResponseFunctionWebSearch''
     [fld ''id'' TStr Required,
      fld ''status'' (TLiteral [''in_progress'', ''searching'', ''completed'', ''failed''])
        Required,
      fld ''type'' (TLiteral [''web_search_call'']) Required]"

definition ActionClick :: ty where
  "ActionClick = TModel ''ActionClick''
     [fld ''button'' (TLiteral [''left'', ''right'', ''wheel'', ''back'', ''forward'']) Required,
      fld ''type'' (TLiteral [''click'']) Required,
      fld ''x'' TInt Required,
      fld ''y'' TInt Required]"

definition ActionDoubleClick :: ty where
  "ActionDoubleClick = TModel ''ActionDoubleClick''
     [fld ''type'' (TLiteral [''double_click'']) Required,
      fld ''x'' TInt Required,
      fld ''y'' TInt Required]"

definition ActionDragPath :: ty where
  "ActionDragPath = TModel ''ActionDragPath''
     [fld ''x'' TInt Required,
      fld ''y'' TInt Required]"

definition ActionDrag :: ty where
  "ActionDrag = TModel ''ActionDrag''
     [fld ''path'' (TList ActionDragPath) Required,
      fld ''type'' (TLiteral [''drag'']) Required]"

definition ActionKeypress :: ty where
  "ActionKeypress = TModel ''ActionKeypress''
     [fld ''keys'' (TList TStr) Required,
      fld ''type'' (TLiteral [''keypress'']) Required]"

definition ActionMove :: ty where
  "ActionMove = TModel ''ActionMove''
     [fld ''type'' (TLiteral [''move'']) Required,
      fld ''x'' TInt Required,
      fld ''y'' TInt Required]"

definition ActionScreenshot :: ty where
  "ActionScreenshot = TModel ''ActionScreenshot''
     [fld ''type'' (TLiteral [''screenshot'']) Required]"

definition ActionScroll :: ty where
  "ActionScroll = TModel ''ActionScroll''
     [fld ''scroll_x'' TInt Required,
      fld ''scroll_y'' TInt Required,
      fld ''type'' (TLiteral [''scroll'']) Required,
      fld ''x'' TInt Required,
      fld ''y'' TInt Required]"

definition ActionType :: ty where
  "ActionType = TModel ''ActionType''
     [fld ''text'' TStr Required,
      fld ''type'' (TLiteral [''type'']) Required]"

definition ActionWait :: ty where
  "ActionWait = TModel ''ActionWait''
     [fld ''type'' (TLiteral [''wait'']) Required]"

definition Action :: ty where
  "Action = TAnnotated
     (TUnion [ActionClick, ActionDoubleClick, ActionDrag, ActionKeypress, ActionMove,
              ActionScreenshot, ActionScroll, ActionType, ActionWait]) ''type''"

definition PendingSafetyCheck :: ty where
  "PendingSafetyCheck = TModel ''PendingSafetyCheck''
     [fld ''id'' TStr Required,
      fld ''code'' TStr Required,
      fld ''message'' TStr Required]"

definition ResponseComputerToolCall :: ty where
  "ResponseComputerToolCall = TModel ''ResponseComputerToolCall''
     [fld ''id'' TStr Required,
      fld ''action'' Action Required,
      fld ''call_id'' TStr Required,
      fld ''pending_safety_checks'' (TList PendingSafetyCheck) Required,
      fld ''status'' (TLiteral [''in_progress'', ''completed'', ''incomplete'']) Required,
      fld ''type'' (TLiteral [''computer_call'']) Required]"

definition Summary :: ty where
  "Summary = TModel ''Summary''
     [fld ''text'' TStr Required,
      fld ''type'' (TLiteral [''summary_text'']) Required]"

definition ResponseReasoningItem :: ty where
  "ResponseReasoningItem = TModel ''ResponseReasoningItem''
     [fld ''id'' TStr Required,
      fld ''summary'' (TList Summary) Required,
      fld ''type'' (TLiteral [''reasoning'']) Required,
      fld ''status'' (TOptional (TLiteral [''in_progress'', ''completed'', ''incomplete'']))
        (Default VNone)]"

definition ResponseOutputItem :: ty where
  "ResponseOutputItem = TAnnotated
     (TUnion [ResponseOutputMessage, ResponseFileSearchToolCall, ResponseFunctionToolCall,
              ResponseFunctionWebSearch, ResponseComputerToolCall, ResponseReasoningItem])
     ''type''"

text \<open>\<^verbatim>\<open>ToolChoiceOptions\<close> is declared in \<^verbatim>\<open>types/tools.py\<close>.\<close>

definition ToolChoiceOptions :: ty where
  "ToolChoiceOptions = TLiteral [''none'', ''auto'', ''required'']"

definition ToolChoiceFunction :: ty where
  "ToolChoiceFunction = TModel ''ToolChoiceFunction''
     [fld ''name'' TStr Required,
      fld ''type'' (TLiteral [''function'']) Required]"

definition ToolChoice :: ty where
  "ToolChoice = TUnion [ToolChoiceOptions, ToolChoiceFunction]"

definition ComparisonFilter :: ty where
  "ComparisonFilter = TModel ''ComparisonFilter''
     [fld ''key'' TStr Required,
      fld ''type'' (TLiteral [''eq'', ''ne'', ''gt'', ''gte'', ''lt'', ''lte'']) Required,
      fld ''value'' (TUnion [TStr, TFloat, TBool]) Required]"

text \<open>
  The elements of \<^verbatim>\<open>CompoundFilter.filters\<close> are declared
  \<^verbatim>\<open>Union[ComparisonFilter, object]\<close>.
\<close>

definition CompoundFilter :: ty where
  "CompoundFilter = TModel ''CompoundFilter''
     [fld ''filters'' (TList (TUnion [ComparisonFilter, TObject])) Required,
      fld ''type'' (TLiteral [''and'', ''or'']) Required]"

definition RankingOptions :: ty where
  "RankingOptions = TModel ''RankingOptions''
     [fld ''ranker'' (TOptional (TLiteral [''auto'', ''default-2024-11-15''])) (Default VNone),
      fld ''score_threshold'' (TOptional TFloat) (Default VNone)]"

definition FileSearchTool :: ty where
  "FileSearchTool = TModel ''FileSearchTool''
     [fld ''type'' (TLiteral [''file_search'']) Required,
      fld ''vector_store_ids'' (TList TStr) Required,
      fld ''filters'' (TOptional (TUnion [ComparisonFilter, CompoundFilter])) (Default VNone),
      fld ''max_num_results'' (TOptional TInt) (Default VNone),
      fld ''ranking_options'' (TOptional RankingOptions) (Default VNone)]"

definition FunctionTool :: ty where
  "FunctionTool = TModel ''FunctionTool''
     [fld ''name'' TStr Required,
      fld ''parameters'' (TDict TObject) Required,
      fld ''strict'' TBool Required,
      fld ''type'' (TLiteral [''function'']) Required,
      fld ''description'' (TOptional TStr) (Default VNone)]"

definition ComputerTool :: ty where
  "ComputerTool = TModel ''ComputerTool''
     [fld ''display_height'' TFloat Required,
      fld ''display_width'' TFloat Required,
      fld ''environment'' (TLiteral [''mac'', ''windows'', ''ubuntu'', ''browser'']) Required,
      fld ''type'' (TLiteral [''computer_use_preview'']) Required]"

definition UserLocation :: ty where
  "UserLocation = TModel ''UserLocation''
     [fld ''type'' (TLiteral [''approximate'']) Required,
      fld ''city'' (TOptional TStr) (Default VNone),
      fld ''country'' (TOptional TStr) (Default VNone),
      fld ''region'' (TOptional TStr) (Default VNone),
      fld ''timezone'' (TOptional TStr) (Default VNone)]"

definition WebSearchTool :: ty where
  "WebSearchTool = TModel ''WebSearchTool''
     [fld ''type'' (TLiteral [''web_search_preview'', ''web_search_preview_2025_03_11''])
        Required,
      fld ''search_context_size'' (TOptional (TLiteral [''low'', ''medium'', ''high'']))
        (Default VNone),
      fld ''user_location'' (TOptional UserLocation) (Default VNone)]"

definition Tool :: ty where
  "Tool = TAnnotated
     (TUnion [FileSearchTool, FunctionTool, ComputerTool, WebSearchTool]) ''type''"

text \<open>
  The module has a model class \<^verbatim>\<open>Reasoning\<close> of its own; \<^verbatim>\<open>types/schemas.py\<close>
  imports the \<^verbatim>\<open>TypedDict\<close> of \<^verbatim>\<open>types/reasoning.py\<close> instead.
\<close>

definition Reasoning_model :: ty where
  "Reasoning_model = TModel ''Reasoning''
     [fld ''effort'' (TOptional (TOptional (TLiteral [''low'', ''medium'', ''high''])))
        (Default VNone),
      fld ''generate_summary'' (TOptional (TLiteral [''concise'', ''detailed'']))
        (Default VNone)]"

definition ResponseFormatText :: ty where
  "ResponseFormatText = TModel ''ResponseFormatText''
     [fld ''type'' (TLiteral [''text'']) Required]"

definition ResponseFormatTextJSONSchemaConfig :: ty where
  "ResponseFormatTextJSONSchemaConfig = TModel ''ResponseFormatTextJSONSchemaConfig''
     [Field ''schema_'' ''schema'' (TDict TObject) Required,
      fld ''type'' (TLiteral [''json_schema'']) Required,
      fld ''description'' (TOptional TStr) (Default VNone),
      fld ''name'' (TOptional TStr) (Default VNone),
      fld ''strict'' (TOptional TBool) (Default VNone)]"

definition ResponseFormatJSONObject :: ty where
  "ResponseFormatJSONObject = TModel ''ResponseFormatJSONObject''
     [fld ''type'' (TLiteral [''json_object'']) Required]"

definition ResponseFormatTextConfig :: ty where
  "ResponseFormatTextConfig = TAnnotated
     (TUnion [ResponseFormatText, ResponseFormatTextJSONSchemaConfig,
              ResponseFormatJSONObject]) ''type''"

definition ResponseTextConfig :: ty where
  "ResponseTextConfig = TModel ''ResponseTextConfig''
     [fld ''format'' (TOptional ResponseFormatTextConfig) (Default VNone)]"

definition InputTokensDetails :: ty where
  "InputTokensDetails = TModel ''InputTokensDetails''
     [fld ''cached_tokens'' TInt Required]"

definition OutputTokensDetails :: ty where
  "OutputTokensDetails = TModel ''OutputTokensDetails''
     [fld ''reasoning_tokens'' TInt Required]"

definition ResponseUsage :: ty where
  "ResponseUsage = TModel ''ResponseUsage''
     [fld ''input_tokens'' TInt Required,
      fld ''input_tokens_details'' InputTokensDetails Required,
      fld ''output_tokens'' TInt Required,
      fld ''output_tokens_details'' OutputTokensDetails Required,
      fld ''total_tokens'' TInt Required]"

section \<open>The declarations of \<^verbatim>\<open>types/params.py\<close>\<close>

text \<open>
  The module declares \<^verbatim>\<open>TypedDict\<close> classes with \<^verbatim>\<open>total=False\<close>: a key is
  required only where it is written \<^verbatim>\<open>Required[...]\<close>. A class whose name the module
  shares with \<^verbatim>\<open>types/response.py\<close> has the suffix \<open>_param\<close> here.
\<close>

definition ResponseInputTextParam :: ty where
  "ResponseInputTextParam = TTypedDict ''ResponseInputTextParam''
     [fld ''text'' TStr Required,
      fld ''type'' (TLiteral [''input_text'']) Required]"

definition ResponseInputImageParam :: ty where
  "ResponseInputImageParam = TTypedDict ''ResponseInputImageParam''
     [fld ''detail'' (TLiteral [''high'', ''low'', ''auto'']) Required,
      fld ''type'' (TLiteral [''input_image'']) Required,
      fld ''file_id'' (TOptional TStr) NotRequired,
      fld ''image_url'' (TOptional TStr) NotRequired]"

definition ResponseInputFileParam :: ty where
  "ResponseInputFileParam = TTypedDict ''ResponseInputFileParam''
     [fld ''type'' (TLiteral [''input_file'']) Required,
      fld ''file_data'' TStr NotRequired,
      fld ''file_id'' TStr NotRequired,
      fld ''filename'' TStr NotRequired]"

definition ResponseInputContentParam :: ty where
  "ResponseInputContentParam =
     TUnion [ResponseInputTextParam, ResponseInputImageParam, ResponseInputFileParam]"

definition ResponseInputMessageContentListParam :: ty where
  "ResponseInputMessageContentListParam = TList ResponseInputContentParam"

definition EasyInputMessageParam :: ty where
  "EasyInputMessageParam = TTypedDict ''EasyInputMessageParam''
     [fld ''content'' (TUnion [TStr, ResponseInputMessageContentListParam]) Required,
      fld ''role'' (TLiteral [''user'', ''assistant'', ''system'', ''developer'']) Required,
      fld ''type'' (TLiteral [''message'']) NotRequired]"

definition Message :: ty where
  "Message = TTypedDict ''Message''
     [fld ''content'' ResponseInputMessageContentListParam Required,
      fld ''role'' (TLiteral [''user'', ''system'', ''developer'']) Required,
      fld ''status'' (TLiteral [''in_progress'', ''completed'', ''incomplete'']) NotRequired,
      fld ''type'' (TLiteral [''message'']) NotRequired]"

definition AnnotationFileCitation_param :: ty where
  "AnnotationFileCitation_param = TTypedDict ''AnnotationFileCitation''
     [fld ''file_id'' TStr Required,
      fld ''index'' TInt Required,
      fld ''type'' (TLiteral [''file_citation'']) Required]"

definition AnnotationURLCitation_param :: ty where
  "AnnotationURLCitation_param = TTypedDict ''AnnotationURLCitation''
     [fld ''end_index'' TInt Required,
      fld ''start_index'' TInt Required,
      fld ''title'' TStr Required,
      fld ''type'' (TLiteral [''url_citation'']) Required,
      fld ''url'' TStr Required]"

definition AnnotationFilePath_param :: ty where
  "AnnotationFilePath_param = TTypedDict ''AnnotationFilePath''
     [fld ''file_id'' TStr Required,
      fld ''index'' TInt Required,
      fld ''type'' (TLiteral [''file_path'']) Required]"

definition Annotation_param :: ty where
  "Annotation_param =
     TUnion [AnnotationFileCitation_param, AnnotationURLCitation_param, AnnotationFilePath_param]"

definition ResponseOutputTextParam :: ty where
  "ResponseOutputTextParam = TTypedDict ''ResponseOutputTextParam''
     [fld ''annotations'' (TIterable Annotation_param) Required,
      fld ''text'' TStr Required,
      fld ''type'' (TLiteral [''output_text'']) Required]"

definition ResponseOutputRefusalParam :: ty where
  "ResponseOutputRefusalParam = TTypedDict ''ResponseOutputRefusalParam''
     [fld ''refusal'' TStr Required,
      fld ''type'' (TLiteral [''refusal'']) Required]"

definition Content_param :: ty where
  "Content_param = TUnion [ResponseOutputTextParam, ResponseOutputRefusalParam]"

definition ResponseOutputMessageParam :: ty where
  "ResponseOutputMessageParam = TTypedDict ''ResponseOutputMessageParam''
     [fld ''id'' TStr Required,
      fld ''content'' (TIterable Content_param) Required,
      fld ''role'' (TLiteral [''assistant'']) Required,
      fld ''status'' (TLiteral [''in_progress'', ''completed'', ''incomplete'']) Required,
      fld ''type'' (TLiteral [''message'']) Required]"

definition Result_param :: ty where
  "Result_param = TTypedDict ''Result''
     [fld ''attributes'' (TOptional (TDict (TUnion [TStr, TFloat, TBool]))) NotRequired,
      fld ''file_id'' TStr NotRequired,
      fld ''filename'' TStr NotRequired,
      fld ''score'' TFloat NotRequired,
      fld ''text'' TStr NotRequired]"

definition ResponseFileSearchToolCallParam :: ty where
  "ResponseFileSearchToolCallParam = TTypedDict ''ResponseFileSearchToolCallParam''
     [fld ''id'' TStr Required,
      fld ''queries'' (TList TStr) Required,
      fld ''status'' (TLiteral [''in_progress'', ''searching'', ''completed'', ''incomplete'', ''failed'']) Required,
      fld ''type'' (TLiteral [''file_search_call'']) Required,
      fld ''results'' (TOptional (TIterable Result_param)) NotRequired]"

definition ActionClick_param :: ty where
  "ActionClick_param = TTypedDict ''ActionClick''
     [fld ''button'' (TLiteral [''left'', ''right'', ''wheel'', ''back'', ''forward'']) Required,
      fld ''type'' (TLiteral [''click'']) Required,
      fld ''x'' TInt Required,
      fld ''y'' TInt Required]"

definition ActionDoubleClick_param :: ty where
  "ActionDoubleClick_param = TTypedDict ''ActionDoubleClick''
     [fld ''type'' (TLiteral [''double_click'']) Required,
      fld ''x'' TInt Required,
      fld ''y'' TInt Required]"

definition ActionDragPath_param :: ty where
  "ActionDragPath_param = TTypedDict ''ActionDragPath''
     [fld ''x'' TInt Required,
      fld ''y'' TInt Required]"

definition ActionDrag_param :: ty where
  "ActionDrag_param = TTypedDict ''ActionDrag''
     [fld ''path'' (TIterable ActionDragPath_param) Required,
      fld ''type'' (TLiteral [''drag'']) Required]"

definition ActionKeypress_param :: ty where
  "ActionKeypress_param = TTypedDict ''ActionKeypress''
     [fld ''keys'' (TList TStr) Required,
      fld ''type'' (TLiteral [''keypress'']) Required]"

definition ActionMove_param :: ty where
  "ActionMove_param = TTypedDict ''ActionMove''
     [fld ''type'' (TLiteral [''move'']) Required,
      fld ''x'' TInt Required,
      fld ''y'' TInt Required]"

definition ActionScreenshot_param :: ty where
  "ActionScreenshot_param = TTypedDict ''ActionScreenshot''
     [fld ''type'' (TLiteral [''screenshot'']) Required]"

definition ActionScroll_param :: ty where
  "ActionScroll_param = TTypedDict ''ActionScroll''
     [fld ''scroll_x'' TInt Required,
      fld ''scroll_y'' TInt Required,
      fld ''type'' (TLiteral [''scroll'']) Required,
      fld ''x'' TInt Required,
      fld ''y'' TInt Required]"

definition ActionType_param :: ty where
  "ActionType_param = TTypedDict ''ActionType''
     [fld ''text'' TStr Required,
      fld ''type'' (TLiteral [''type'']) Required]"

definition ActionWait_param :: ty where
  "ActionWait_param = TTypedDict ''ActionWait''
     [fld ''type'' (TLiteral [''wait'']) Required]"

definition Action_param :: ty where
  "Action_param =
     TUnion [ActionClick_param, ActionDoubleClick_param, ActionDrag_param, ActionKeypress_param,
             ActionMove_param, ActionScreenshot_param, ActionScroll_param, ActionType_param,
             ActionWait_param]"

definition PendingSafetyCheck_param :: ty where
  "PendingSafetyCheck_param = TTypedDict ''PendingSafetyCheck''
     [fld ''id'' TStr Required,
      fld ''code'' TStr Required,
      fld ''message'' TStr Required]"

definition ResponseComputerToolCallParam :: ty where
  "ResponseComputerToolCallParam = TTypedDict ''ResponseComputerToolCallParam''
     [fld ''id'' TStr Required,
      fld ''action'' Action_param Required,
      fld ''call_id'' TStr Required,
      fld ''pending_safety_checks'' (TIterable PendingSafetyCheck_param) Required,
      fld ''status'' (TLiteral [''in_progress'', ''completed'', ''incomplete'']) Required,
      fld ''type'' (TLiteral [''computer_call'']) Required]"

definition ResponseComputerToolCallOutputScreenshotParam :: ty where
  "ResponseComputerToolCallOutputScreenshotParam = TTypedDict ''ResponseComputerToolCallOutputScreenshotParam''
     [fld ''type'' (TLiteral [''computer_screenshot'']) Required,
      fld ''file_id'' TStr NotRequired,
      fld ''image_url'' TStr NotRequired]"

definition ComputerCallOutputAcknowledgedSafetyCheck :: ty where
  "ComputerCallOutputAcknowledgedSafetyCheck = TTypedDict ''ComputerCallOutputAcknowledgedSafetyCheck''
     [fld ''id'' TStr Required,
      fld ''code'' TStr Required,
      fld ''message'' TStr Required]"

definition ComputerCallOutput :: ty where
  "ComputerCallOutput = TTypedDict ''ComputerCallOutput''
     [fld ''call_id'' TStr Required,
      fld ''output'' ResponseComputerToolCallOutputScreenshotParam Required,
      fld ''type'' (TLiteral [''computer_call_output'']) Required,
      fld ''id'' TStr NotRequired,
      fld ''acknowledged_safety_checks'' (TIterable ComputerCallOutputAcknowledgedSafetyCheck) NotRequired,
      fld ''status'' (TLiteral [''in_progress'', ''completed'', ''incomplete'']) NotRequired]"

definition ResponseFunctionWebSearchParam :: ty where
  "ResponseFunctionWebSearchParam = TTypedDict ''ResponseFunctionWebSearchParam''
     [fld ''id'' TStr Required,
      fld ''status'' (TLiteral [''in_progress'', ''searching'', ''completed'', ''failed'']) Required,
      fld ''type'' (TLiteral [''web_search_call'']) Required]"

definition ResponseFunctionToolCallParam :: ty where
  "ResponseFunctionToolCallParam = TTypedDict ''ResponseFunctionToolCallParam''
     [fld ''arguments'' TStr Required,
      fld ''call_id'' TStr Required,
      fld ''name'' TStr Required,
      fld ''type'' (TLiteral [''function_call'']) Required,
      fld ''id'' TStr NotRequired,
      fld ''status'' (TLiteral [''in_progress'', ''completed'', ''incomplete'']) NotRequired]"

definition FunctionCallOutput :: ty where
  "FunctionCallOutput = TTypedDict ''FunctionCallOutput''
     [fld ''call_id'' TStr Required,
      fld ''output'' TStr Required,
      fld ''type'' (TLiteral [''function_call_output'']) Required,
      fld ''id'' TStr NotRequired,
      fld ''status'' (TLiteral [''in_progress'', ''completed'', ''incomplete'']) NotRequired]"

definition Summary_param :: ty where
  "Summary_param = TTypedDict ''Summary''
     [fld ''text'' TStr Required,
      fld ''type'' (TLiteral [''summary_text'']) Required]"

definition ResponseReasoningItemParam :: ty where
  "ResponseReasoningItemParam = TTypedDict ''ResponseReasoningItemParam''
     [fld ''id'' TStr Required,
      fld ''summary'' (TIterable Summary_param) Required,
      fld ''type'' (TLiteral [''reasoning'']) Required,
      fld ''status'' (TLiteral [''in_progress'', ''completed'', ''incomplete'']) NotRequired]"

definition ItemReference :: ty where
  "ItemReference = TTypedDict ''ItemReference''
     [fld ''id'' TStr Required,
      fld ''type'' (TLiteral [''item_reference'']) Required]"

definition ResponseInputItemParam :: ty where
  "ResponseInputItemParam =
     TUnion [EasyInputMessageParam, Message, ResponseOutputMessageParam,
             ResponseFileSearchToolCallParam, ResponseComputerToolCallParam, ComputerCallOutput,
             ResponseFunctionWebSearchParam, ResponseFunctionToolCallParam, FunctionCallOutput,
             ResponseReasoningItemParam, ItemReference]"

definition ResponseInputParam :: ty where
  "ResponseInputParam = TList ResponseInputItemParam"

section \<open>The declarations of \<^verbatim>\<open>types/tools.py\<close> and \<^verbatim>\<open>types/reasoning.py\<close>\<close>

definition ToolChoiceFunctionParam :: ty where
  "ToolChoiceFunctionParam = TTypedDict ''ToolChoiceFunctionParam''
     [fld ''name'' TStr Required,
      fld ''type'' (TLiteral [''function'']) Required]"

text \<open>
  The \<^verbatim>\<open>ToolChoice\<close> of this module; \<^verbatim>\<open>types/schemas.py\<close> imports the one of
  \<^verbatim>\<open>types/response.py\<close>.
\<close>

definition ToolChoice_param :: ty where
  "ToolChoice_param = TUnion [ToolChoiceOptions, ToolChoiceFunctionParam]"

definition ComparisonFilter_param :: ty where
  "ComparisonFilter_param = TTypedDict ''ComparisonFilter''
     [fld ''key'' TStr Required,
      fld ''type'' (TLiteral [''eq'', ''ne'', ''gt'', ''gte'', ''lt'', ''lte'']) Required,
      fld ''value'' (TUnion [TStr, TFloat, TBool]) Required]"

definition CompoundFilter_param :: ty where
  "CompoundFilter_param = TTypedDict ''CompoundFilter''
     [fld ''filters'' (TIterable (TUnion [ComparisonFilter_param, TObject])) Required,
      fld ''type'' (TLiteral [''and'', ''or'']) Required]"

definition RankingOptions_param :: ty where
  "RankingOptions_param = TTypedDict ''RankingOptions''
     [fld ''ranker'' (TLiteral [''auto'', ''default-2024-11-15'']) NotRequired,
      fld ''score_threshold'' TFloat NotRequired]"

definition FileSearchToolParam :: ty where
  "FileSearchToolParam = TTypedDict ''FileSearchToolParam''
     [fld ''type'' (TLiteral [''file_search'']) Required,
      fld ''vector_store_ids'' (TList TStr) Required,
      fld ''filters'' (TUnion [ComparisonFilter_param, CompoundFilter_param]) NotRequired,
      fld ''max_num_results'' TInt NotRequired,
      fld ''ranking_options'' RankingOptions_param NotRequired]"

definition FunctionToolParam :: ty where
  "FunctionToolParam = TTypedDict ''FunctionToolParam''
     [fld ''name'' TStr Required,
      fld ''parameters'' (TDict TObject) Required,
      fld ''strict'' TBool Required,
      fld ''type'' (TLiteral [''function'']) Required,
      fld ''description'' (TOptional TStr) NotRequired]"

definition ComputerToolParam :: ty where
  "ComputerToolParam = TTypedDict ''ComputerToolParam''
     [fld ''display_height'' TFloat Required,
      fld ''display_width'' TFloat Required,
      fld ''environment'' (TLiteral [''mac'', ''windows'', ''ubuntu'', ''browser'']) Required,
      fld ''type'' (TLiteral [''computer_use_preview'']) Required]"

definition UserLocation_param :: ty where
  "UserLocation_param = TTypedDict ''UserLocation''
     [fld ''type'' (TLiteral [''approximate'']) Required,
      fld ''city'' TStr NotRequired,
      fld ''country'' TStr NotRequired,
      fld ''region'' TStr NotRequired,
      fld ''timezone'' TStr NotRequired]"

definition WebSearchToolParam :: ty where
  "WebSearchToolParam = TTypedDict ''WebSearchToolParam''
     [fld ''type'' (TLiteral [''web_search_preview'', ''web_search_preview_2025_03_11'']) Required,
      fld ''search_context_size'' (TLiteral [''low'', ''medium'', ''high'']) NotRequired,
      fld ''user_location'' (TOptional UserLocation_param) NotRequired]"

definition ToolParam :: ty where
  "ToolParam =
     TUnion [FileSearchToolParam, FunctionToolParam, ComputerToolParam, WebSearchToolParam]"

definition ReasoningEffort :: ty where
  "ReasoningEffort = TOptional (TLiteral [''low'', ''medium'', ''high''])"

definition Reasoning :: ty where
  "Reasoning = TTypedDict ''Reasoning''
     [fld ''effort'' (TOptional ReasoningEffort) NotRequired,
      fld ''generate_summary'' (TOptional (TLiteral [''concise'', ''detailed''])) NotRequired]"

section \<open>The declarations of \<^verbatim>\<open>types/schemas.py\<close>\<close>

definition ResponseIncludable :: ty where
  "ResponseIncludable = TLiteral
     [''file_search_call.results'', ''message.input_image.image_url'',
      ''computer_call_output.output.image_url'']"

definition Metadata :: ty where
  "Metadata = TDict TStr"

text \<open>
  The body of a create request. \<^verbatim>\<open>ToolChoice\<close> is the union of
  \<^verbatim>\<open>types/response.py\<close>, \<^verbatim>\<open>Reasoning\<close> the class of
  \<^verbatim>\<open>types/reasoning.py\<close>, as the module imports them.
\<close>

definition ResponsesCreate :: ty where
  "ResponsesCreate = TModel ''ResponsesCreate''
     [fld ''input'' (TUnion [TStr, ResponseInputParam]) Required,
      fld ''model'' TStr Required,
      fld ''include'' (TOptional (TList ResponseIncludable)) (Default VNone),
      fld ''instructions'' (TOptional TStr) (Default VNone),
      fld ''max_output_tokens'' (TOptional TInt) (Default VNone),
      fld ''metadata'' (TOptional Metadata) (Default VNone),
      fld ''parallel_tool_calls'' (TOptional TBool) (Default (VBool True)),
      fld ''previous_response_id'' (TOptional TStr) (Default VNone),
      fld ''reasoning'' (TOptional Reasoning) (Default VNone),
      fld ''store'' (TOptional TBool) (Default (VBool True)),
      fld ''stream'' (TOptional TBool) (Default (VBool False)),
      fld ''temperature'' (TOptional TFloat) (Default VNone),
      fld ''text'' (TOptional (TDict TStr)) (Default VNone),
      fld ''tool_choice'' (TOptional ToolChoice) (Default VNone),
      fld ''tools'' (TOptional (TIterable ToolParam)) (Default VNone),
      fld ''top_p'' (TOptional TFloat) (Default (VFloat 1)),
      fld ''truncation'' (TOptional (TLiteral [''auto'', ''disabled'']))
        (Default (VStr ''disabled'')),
      fld ''user'' (TOptional TStr) (Default VNone)]"

definition Response :: ty where
  "Response = TModel ''Response''
     [fld ''created_at'' TFloat Required,
      fld ''error'' (TOptional ResponseError) (Default VNone),
      fld ''id'' TStr Required,
      fld ''incomplete_details'' (TOptional IncompleteDetails) (Default VNone),
      fld ''instructions'' (TOptional TStr) (Default VNone),
      fld ''max_output_tokens'' (TOptional TInt) (Default VNone),
      fld ''metadata'' (TOptional Metadata) (Default VNone),
      fld ''model'' TStr Required,
      fld ''object'' (TLiteral [''response'']) Required,
      fld ''output'' (TList ResponseOutputItem) Required,
      fld ''parallel_tool_calls'' TBool Required,
      fld ''previous_response_id'' (TOptional TStr) (Default VNone),
      fld ''reasoning'' (TOptional Reasoning) (Default VNone),
      fld ''status'' (TLiteral [''completed'', ''failed'', ''in_progress'', ''incomplete''])
        Required,
      fld ''temperature'' (TOptional TFloat) (Default VNone),
      fld ''text'' (TOptional ResponseTextConfig) (Default VNone),
      fld ''tool_choice'' ToolChoice Required,
      fld ''tools'' (TList Tool) Required,
      fld ''top_p'' (TOptional TFloat) (Default VNone),
      fld ''truncation'' (TOptional (TLiteral [''auto'', ''disabled'']))
        (Default (VStr ''disabled'')),
      fld ''usage'' (TOptional ResponseUsage) (Default VNone),
      fld ''user'' (TOptional TStr) (Default VNone)]"

section \<open>Notions used in the statements\<close>

text \<open>The outcome of one declared field on an object with the entries \<open>kv\<close>.\<close>

definition field_outcome :: "json \<Rightarrow> (string \<times> json) list \<Rightarrow> field \<Rightarrow> outcome" where
  "field_outcome j kv f =
     (case map_of kv (fkey f) of None \<Rightarrow> absent j f | Some v \<Rightarrow> present f (validate (fty f) v))"

text \<open>
  The type tag of a class: the literals of its required field \<^verbatim>\<open>type\<close>, when it has
  one. The members of a union, and the tags of all its members.
\<close>

fun tag_of_fields :: "field list \<Rightarrow> string list option" where
  "tag_of_fields [] = None"
| "tag_of_fields (Field n k (TLiteral ls) Required # fs) =
     (if k = ''type'' then Some ls else tag_of_fields fs)"
| "tag_of_fields (f # fs) = tag_of_fields fs"

fun tag_of :: "ty \<Rightarrow> string list option" where
  "tag_of (TModel n fs) = tag_of_fields fs"
| "tag_of (TTypedDict n fs) = tag_of_fields fs"
| "tag_of t = None"

fun members :: "ty \<Rightarrow> ty list" where
  "members (TUnion ts) = ts"
| "members (TAnnotated t d) = members t"
| "members t = []"

fun tag_values :: "ty \<Rightarrow> string list" where
  "tag_values U = concat (map (\<lambda>t. case tag_of t of None \<Rightarrow> [] | Some ls \<Rightarrow> ls) (members U))"

fun union_members_tagged :: "ty \<Rightarrow> bool" where
  "union_members_tagged (TUnion ts) = list_all (\<lambda>t. tag_of t \<noteq> None) ts"
| "union_members_tagged (TAnnotated t d) = union_members_tagged t"
| "union_members_tagged t = False"

definition tagged_unions :: "ty list" where
  "tagged_unions =
     [ResponseOutputItem, Content, Annotation, Action, Tool, ResponseFormatTextConfig,
      TUnion [ComparisonFilter, CompoundFilter],
      ResponseInputContentParam, Annotation_param, Content_param, Action_param, ToolParam,
      TUnion [ComparisonFilter_param, CompoundFilter_param]]"

text \<open>Reading an attribute of a model instance or a key of a dictionary.\<close>

fun field_value :: "val \<Rightarrow> string \<Rightarrow> val option" where
  "field_value (VModel n fs st) k = map_of fs k"
| "field_value (VDict fs) k = map_of fs k"
| "field_value v k = None"

text \<open>
  A filter nested \<open>n\<close> levels deep: \<open>n\<close> compound filters around a comparison.
\<close>

fun nested_filter :: "nat \<Rightarrow> json" where
  "nested_filter 0 = JObj [(''key'', JStr ''k''), (''type'', JStr ''eq''), (''value'', JStr ''v'')]"
| "nested_filter (Suc n) = JObj [(''type'', JStr ''and''), (''filters'', JArr [nested_filter n])]"

text \<open>
  Modelled from the spec: the serialiser of the wire codec (the call that turns a decoded
  value back into its wire form) is not under \<^verbatim>\<open>src/\<close>. The spec's section on
  external interfaces says that the core \<^emph>\<open>omits fields that are simply unset\<close> and
  emits \<^verbatim>\<open>null\<close> only for nullable fields, and its design notes say that
  \<^emph>\<open>encode never emits fields foreign to the variant's schema\<close>. So a model instance
  encodes to an object of the fields that were set from the input, in declaration order,
  each under its name; a dictionary encodes entry by entry; a value kept as received, and
  the items held by a lazy iterator, encode to themselves. The name of a field is its
  attribute name: the one alias of the declarations (\<^verbatim>\<open>schema_\<close>, read from the key
  \<^verbatim>\<open>schema\<close>) is not written back under its wire key.
\<close>

fun encode :: "val \<Rightarrow> json" where
  "encode VNone = JNull"
| "encode (VBool b) = JBool b"
| "encode (VInt i) = JInt i"
| "encode (VFloat r) = JFloat r"
| "encode (VStr s) = JStr s"
| "encode (VList vs) = JArr (map encode vs)"
| "encode (VDict kvs) = JObj (map (\<lambda>(k, v). (k, encode v)) kvs)"
| "encode (VModel n fs st) =
     JObj (map (\<lambda>(k, v). (k, encode v)) (filter (\<lambda>(k, v). k \<in> set st) fs))"
| "encode (VRaw j) = j"
| "encode (VIter xs) = JArr xs"

text \<open>
  Decoding \<open>j\<close> at the type \<open>t\<close> succeeds and encoding the result gives \<open>j\<close> back.
  Objects are compared as written: the instances below list their keys in declaration
  order, the order in which \<open>encode\<close> emits them.
\<close>

definition round_trips :: "ty \<Rightarrow> json \<Rightarrow> bool" where
  "round_trips t j = (case validate t j of Inl es \<Rightarrow> False | Inr v \<Rightarrow> encode v = j)"

text \<open>
  The literals of a field \<^verbatim>\<open>type\<close> whether or not the field is required
  (\<open>tag_of\<close> reads required fields only), and the two declarations of the tool choice.
\<close>

fun declared_tag_fields :: "field list \<Rightarrow> string list option" where
  "declared_tag_fields [] = None"
| "declared_tag_fields (Field n k (TLiteral ls) p # fs) =
     (if k = ''type'' then Some ls else declared_tag_fields fs)"
| "declared_tag_fields (f # fs) = declared_tag_fields fs"

fun declared_tag :: "ty \<Rightarrow> string list option" where
  "declared_tag (TModel n fs) = declared_tag_fields fs"
| "declared_tag (TTypedDict n fs) = declared_tag_fields fs"
| "declared_tag t = None"

fun declared_tag_values :: "ty \<Rightarrow> string list" where
  "declared_tag_values U =
     concat (map (\<lambda>t. case declared_tag t of None \<Rightarrow> [] | Some ls \<Rightarrow> ls) (members U))"

definition tool_choice_unions :: "ty list" where
  "tool_choice_unions = [ToolChoice, ToolChoice_param]"

section \<open>Facts about the validator\<close>

lemma validate_model:
  "validate (TModel n fs) (JObj kv) = build_model n (map (field_outcome (JObj kv) kv) fs)"
  by (simp add: field_outcome_def [abs_def])

lemma validate_typed_dict:
  "validate (TTypedDict n fs) (JObj kv) = build_dict (map (field_outcome (JObj kv) kv) fs)"
  by (simp add: field_outcome_def [abs_def])

lemma build_model_Inl:
  "e \<in> set (outcome_errors ou) \<Longrightarrow> ou \<in> set os \<Longrightarrow>
   \<exists>es. build_model n os = Inl es \<and> e \<in> set es"
proof -
  assume e: "e \<in> set (outcome_errors ou)" and ou: "ou \<in> set os"
  then have "e \<in> set (concat (map outcome_errors os))" by auto
  moreover from e have "isl ou" by (cases ou) auto
  with ou have "list_ex isl os" by (auto simp: list_ex_iff)
  ultimately show ?thesis by (simp add: build_model_def)
qed

lemma build_dict_Inl:
  "e \<in> set (outcome_errors ou) \<Longrightarrow> ou \<in> set os \<Longrightarrow>
   \<exists>es. build_dict os = Inl es \<and> e \<in> set es"
proof -
  assume e: "e \<in> set (outcome_errors ou)" and ou: "ou \<in> set os"
  then have "e \<in> set (concat (map outcome_errors os))" by auto
  moreover from e have "isl ou" by (cases ou) auto
  with ou have "list_ex isl os" by (auto simp: list_ex_iff)
  ultimately show ?thesis by (simp add: build_dict_def)
qed

lemma tag_of_fields_Some:
  "tag_of_fields fs = Some ls \<Longrightarrow> \<exists>n. Field n ''type'' (TLiteral ls) Required \<in> set fs"
  by (induction fs rule: tag_of_fields.induct) (auto split: if_splits)

lemma field_error_fails:
  assumes "f \<in> set fs" and "e \<in> set (outcome_errors (field_outcome (JObj kv) kv f))"
  shows "\<exists>es. validate (TModel n fs) (JObj kv) = Inl es \<and> e \<in> set es"
    and "\<exists>es. validate (TTypedDict n fs) (JObj kv) = Inl es \<and> e \<in> set es"
proof -
  have "field_outcome (JObj kv) kv f \<in> set (map (field_outcome (JObj kv) kv) fs)"
    using assms(1) by simp
  from build_model_Inl [OF assms(2) this] build_dict_Inl [OF assms(2) this]
  show "\<exists>es. validate (TModel n fs) (JObj kv) = Inl es \<and> e \<in> set es"
    and "\<exists>es. validate (TTypedDict n fs) (JObj kv) = Inl es \<and> e \<in> set es"
    by (simp_all only: validate_model validate_typed_dict)
qed

lemma tagged_missing:
  assumes "tag_of t = Some ls" and "map_of kv ''type'' = None"
  shows "\<exists>es. validate t (JObj kv) = Inl es \<and> VErr [Key ''type''] missing (JObj kv) \<in> set es"
proof -
  from assms(1) obtain n fs where t: "t = TModel n fs \<or> t = TTypedDict n fs"
    and tg: "tag_of_fields fs = Some ls"
    by (cases t) auto
  from tag_of_fields_Some [OF tg] obtain a where f: "Field a ''type'' (TLiteral ls) Required \<in> set fs" ..
  have "VErr [Key ''type''] missing (JObj kv)
          \<in> set (outcome_errors (field_outcome (JObj kv) kv (Field a ''type'' (TLiteral ls) Required)))"
    using assms(2) by (simp add: field_outcome_def)
  from field_error_fails [OF f this] t show ?thesis by blast
qed

lemma tagged_unknown:
  assumes "tag_of t = Some ls" and "map_of kv ''type'' = Some v" and "v \<notin> JStr ` set ls"
  shows "\<exists>es. validate t (JObj kv) = Inl es \<and> VErr [Key ''type''] literal_error v \<in> set es"
proof -
  from assms(1) obtain n fs where t: "t = TModel n fs \<or> t = TTypedDict n fs"
    and tg: "tag_of_fields fs = Some ls"
    by (cases t) auto
  from tag_of_fields_Some [OF tg] obtain a where f: "Field a ''type'' (TLiteral ls) Required \<in> set fs" ..
  have "validate (TLiteral ls) v = Inl [VErr [] literal_error v]"
    using assms(3) by (cases v) auto
  then have "VErr [Key ''type''] literal_error v
          \<in> set (outcome_errors (field_outcome (JObj kv) kv (Field a ''type'' (TLiteral ls) Required)))"
    using assms(2) by (simp add: field_outcome_def)
  from field_error_fails [OF f this] t show ?thesis by blast
qed

lemma first_success_all_fail:
  assumes "\<forall>r \<in> set rs. \<exists>es. snd r = Inl es \<and> e \<in> set es"
  shows "\<exists>es. first_success rs = Inl es \<and> (\<forall>r \<in> set rs. at_loc (Tag (fst r)) e \<in> set es)"
  using assms
proof (induction rs)
  case Nil
  then show ?case by simp
next
  case (Cons r rs)
  obtain l x where r: "r = (l, x)" by (cases r)
  from Cons.prems r obtain es where x: "x = Inl es" and e: "e \<in> set es" by auto
  from Cons.IH Cons.prems obtain es' where
    es': "first_success rs = Inl es'" "\<forall>r \<in> set rs. at_loc (Tag (fst r)) e \<in> set es'" by auto
  show ?case using r x e es' by auto
qed

lemma union_all_fail:
  assumes "\<forall>t \<in> set ts. \<exists>es. validate t j = Inl es \<and> e \<in> set es"
  shows "\<exists>es. validate (TUnion ts) j = Inl es
           \<and> (\<forall>t \<in> set ts. at_loc (Tag (type_label t)) e \<in> set es)"
proof -
  have "\<forall>r \<in> set (map (\<lambda>t. (type_label t, validate t j)) ts). \<exists>es. snd r = Inl es \<and> e \<in> set es"
    using assms by auto
  from first_success_all_fail [OF this] show ?thesis by auto
qed

lemma tagged_union_missing:
  assumes "union_members_tagged U" and "map_of kv ''type'' = None"
  shows "\<exists>es. validate U (JObj kv) = Inl es \<and>
           (\<forall>t \<in> set (members U). VErr [Tag (type_label t), Key ''type''] missing (JObj kv) \<in> set es)"
  using assms
proof (induction U rule: union_members_tagged.induct)
  case (1 ts)
  have "\<forall>t \<in> set ts. \<exists>es. validate t (JObj kv) = Inl es \<and> VErr [Key ''type''] missing (JObj kv) \<in> set es"
  proof
    fix t assume "t \<in> set ts"
    with 1 obtain ls where "tag_of t = Some ls" by (auto simp: list_all_iff)
    from tagged_missing [OF this "1.prems"(2)] show "\<exists>es. validate t (JObj kv) = Inl es \<and> VErr [Key ''type''] missing (JObj kv) \<in> set es" .
  qed
  from union_all_fail [OF this] show ?case by simp
qed simp_all

lemma tagged_union_unknown:
  assumes "union_members_tagged U" and "map_of kv ''type'' = Some v"
    and "v \<notin> JStr ` set (tag_values U)"
  shows "\<exists>es. validate U (JObj kv) = Inl es \<and>
           (\<forall>t \<in> set (members U). VErr [Tag (type_label t), Key ''type''] literal_error v \<in> set es)"
  using assms
proof (induction U rule: union_members_tagged.induct)
  case (1 ts)
  have "\<forall>t \<in> set ts. \<exists>es. validate t (JObj kv) = Inl es \<and> VErr [Key ''type''] literal_error v \<in> set es"
  proof
    fix t assume t: "t \<in> set ts"
    with 1 obtain ls where ls: "tag_of t = Some ls" by (auto simp: list_all_iff)
    with t "1.prems"(3) have "v \<notin> JStr ` set ls" by force
    from tagged_unknown [OF ls "1.prems"(2) this]
    show "\<exists>es. validate t (JObj kv) = Inl es \<and> VErr [Key ''type''] literal_error v \<in> set es" .
  qed
  from union_all_fail [OF this] show ?case by simp
qed simp_all

lemmas response_defs =
  ResponseError_def IncompleteDetails_def AnnotationFileCitation_def AnnotationURLCitation_def
  AnnotationFilePath_def Annotation_def ResponseOutputText_def ResponseOutputRefusal_def
  Content_def ResponseOutputMessage_def Result_def ResponseFileSearchToolCall_def
  ResponseFunctionToolCall_def ResponseFunctionWebSearch_def ActionClick_def
  ActionDoubleClick_def ActionDragPath_def ActionDrag_def ActionKeypress_def ActionMove_def
  ActionScreenshot_def ActionScroll_def ActionType_def ActionWait_def Action_def
  PendingSafetyCheck_def ResponseComputerToolCall_def Summary_def ResponseReasoningItem_def
  ResponseOutputItem_def ToolChoiceOptions_def ToolChoiceFunction_def ToolChoice_def
  ComparisonFilter_def CompoundFilter_def RankingOptions_def FileSearchTool_def
  FunctionTool_def ComputerTool_def UserLocation_def WebSearchTool_def Tool_def
  ResponseFormatText_def ResponseFormatTextJSONSchemaConfig_def ResponseFormatJSONObject_def
  ResponseFormatTextConfig_def ResponseTextConfig_def InputTokensDetails_def
  OutputTokensDetails_def ResponseUsage_def

lemmas param_defs =
  ResponseInputTextParam_def ResponseInputImageParam_def ResponseInputFileParam_def
  ResponseInputContentParam_def ResponseInputMessageContentListParam_def
  EasyInputMessageParam_def Message_def AnnotationFileCitation_param_def
  AnnotationURLCitation_param_def AnnotationFilePath_param_def Annotation_param_def
  ResponseOutputTextParam_def ResponseOutputRefusalParam_def Content_param_def
  ResponseOutputMessageParam_def Result_param_def ResponseFileSearchToolCallParam_def
  ActionClick_param_def ActionDoubleClick_param_def ActionDragPath_param_def
  ActionDrag_param_def ActionKeypress_param_def ActionMove_param_def
  ActionScreenshot_param_def ActionScroll_param_def ActionType_param_def ActionWait_param_def
  Action_param_def PendingSafetyCheck_param_def ResponseComputerToolCallParam_def
  ResponseComputerToolCallOutputScreenshotParam_def
  ComputerCallOutputAcknowledgedSafetyCheck_def ComputerCallOutput_def
  ResponseFunctionWebSearchParam_def ResponseFunctionToolCallParam_def FunctionCallOutput_def
  Summary_param_def ResponseReasoningItemParam_def ItemReference_def
  ResponseInputItemParam_def ResponseInputParam_def ToolChoiceFunctionParam_def
  ComparisonFilter_param_def CompoundFilter_param_def RankingOptions_param_def
  FileSearchToolParam_def FunctionToolParam_def ComputerToolParam_def UserLocation_param_def
  WebSearchToolParam_def ToolParam_def ReasoningEffort_def Reasoning_def

lemma tagged_unions_tagged: "list_all union_members_tagged tagged_unions"
  by (simp add: tagged_unions_def response_defs param_defs)

subsection \<open>At most one member of a tagged union validates\<close>

lemma tagged_success:
  assumes "tag_of t = Some ls" and "validate t x = Inr v"
  shows "\<exists>kv s. x = JObj kv \<and> map_of kv ''type'' = Some (JStr s) \<and> s \<in> set ls"
proof -
  from assms(1) obtain n fs where t: "t = TModel n fs \<or> t = TTypedDict n fs"
    by (cases t) auto
  with assms(2) obtain kv where x: "x = JObj kv" by (cases x) auto
  show ?thesis
  proof (cases "map_of kv ''type''")
    case None
    from tagged_missing [OF assms(1) None] assms(2) x show ?thesis by auto
  next
    case (Some j)
    have "j \<in> JStr ` set ls"
    proof (rule ccontr)
      assume "j \<notin> JStr ` set ls"
      from tagged_unknown [OF assms(1) Some this] assms(2) x show False by auto
    qed
    with Some x show ?thesis by auto
  qed
qed

lemma tagged_members_exclusive:
  assumes "tag_of t = Some ls" and "tag_of t' = Some ls'" and "set ls \<inter> set ls' = {}"
  shows "\<not> (\<exists>v w. validate t x = Inr v \<and> validate t' x = Inr w)"
proof
  assume "\<exists>v w. validate t x = Inr v \<and> validate t' x = Inr w"
  then obtain v w where v: "validate t x = Inr v" and w: "validate t' x = Inr w" by blast
  from tagged_success [OF assms(1) v] obtain kv s where
    a: "x = JObj kv" "map_of kv ''type'' = Some (JStr s)" "s \<in> set ls" by blast
  from tagged_success [OF assms(2) w] obtain kv' s' where
    b: "x = JObj kv'" "map_of kv' ''type'' = Some (JStr s')" "s' \<in> set ls'" by blast
  from a b have "s = s'" by simp
  with a(3) b(3) assms(3) show False by blast
qed

lemma tagged_unions_disjoint: "list_all (\<lambda>U. distinct (tag_values U)) tagged_unions"
  by (simp add: tagged_unions_def response_defs param_defs)

subsection \<open>The fields of a decoded model\<close>

lemma present_values_name:
  "(a, v, s) \<in> set (outcome_values (present f r)) \<Longrightarrow> a = fname f"
  by (cases r) auto

lemma absent_values_name:
  "(a, v, s) \<in> set (outcome_values (absent j f)) \<Longrightarrow> a = fname f"
  by (cases "(j, f)" rule: absent.cases) auto

lemma outcome_values_name:
  "(a, v, s) \<in> set (outcome_values (field_outcome j kv f)) \<Longrightarrow> a = fname f"
  by (auto simp: field_outcome_def split: option.splits
           dest: present_values_name absent_values_name)

lemma values_names_subset:
  "set (map fst (concat (map (\<lambda>f. outcome_values (field_outcome j kv f)) fs)))
     \<subseteq> fname ` set fs"
proof
  fix a
  assume "a \<in> set (map fst (concat (map (\<lambda>f. outcome_values (field_outcome j kv f)) fs)))"
  then obtain f v s where f: "f \<in> set fs"
    and x: "(a, v, s) \<in> set (outcome_values (field_outcome j kv f))"
    by auto
  from outcome_values_name [OF x] f show "a \<in> fname ` set fs" by simp
qed

lemma outcome_values_fst:
  "map fst (outcome_values (field_outcome j kv f)) = []
   \<or> map fst (outcome_values (field_outcome j kv f)) = [fname f]"
proof (cases "field_outcome j kv f" rule: outcome_values.cases)
  case (1 x)
  obtain a v s where x: "x = (a, v, s)" by (cases x)
  with 1 have "(a, v, s) \<in> set (outcome_values (field_outcome j kv f))" by simp
  from outcome_values_name [OF this] 1 x show ?thesis by simp
qed simp_all

lemma values_distinct:
  "distinct (map fname fs) \<Longrightarrow>
   distinct (map fst (concat (map (\<lambda>f. outcome_values (field_outcome j kv f)) fs)))"
proof (induction fs)
  case Nil
  then show ?case by simp
next
  case (Cons f fs)
  let ?rest = "map fst (concat (map (\<lambda>f. outcome_values (field_outcome j kv f)) fs))"
  from Cons have d: "distinct ?rest" by simp
  have "fname f \<notin> fname ` set fs" using Cons.prems by auto
  with values_names_subset [of j kv fs] have n: "fname f \<notin> set ?rest" by blast
  have split: "map fst (concat (map (\<lambda>f. outcome_values (field_outcome j kv f)) (f # fs)))
          = map fst (outcome_values (field_outcome j kv f)) @ ?rest"
    by simp
  from outcome_values_fst [of j kv f] show ?case
  proof
    assume "map fst (outcome_values (field_outcome j kv f)) = []"
    with d show ?thesis unfolding split by simp
  next
    assume "map fst (outcome_values (field_outcome j kv f)) = [fname f]"
    with d n show ?thesis unfolding split by simp
  qed
qed

lemma fst_drop_flag: "map fst (map (\<lambda>(k, v, s). (k, v)) xs) = map fst xs"
  by (induction xs) auto

lemma build_model_Inr:
  "build_model n os = Inr r \<Longrightarrow>
   \<not> list_ex isl os \<and>
   r = VModel n (map (\<lambda>(k, v, s). (k, v)) (concat (map outcome_values os)))
         (map fst (filter (\<lambda>(k, v, s). s) (concat (map outcome_values os))))"
  by (auto simp: build_model_def Let_def split: if_splits)

lemma model_field_value:
  assumes ok: "validate (TModel n fs) (JObj kv) = Inr r"
    and f: "f \<in> set fs"
    and d: "distinct (map fname fs)"
    and o: "field_outcome (JObj kv) kv f = Inr (Some (a, v, s))"
  shows "field_value r a = Some v"
proof -
  let ?vs = "concat (map (\<lambda>f. outcome_values (field_outcome (JObj kv) kv f)) fs)"
  have m: "concat (map outcome_values (map (field_outcome (JObj kv) kv) fs)) = ?vs"
    by (simp add: comp_def)
  from ok have "build_model n (map (field_outcome (JObj kv) kv) fs) = Inr r"
    by (simp only: validate_model)
  from build_model_Inr [OF this] have
    r: "r = VModel n (map (\<lambda>(k, v, s). (k, v)) ?vs)
                        (map fst (filter (\<lambda>(k, v, s). s) ?vs))"
    unfolding m by simp
  have "(a, v, s) \<in> set (outcome_values (field_outcome (JObj kv) kv f))"
    using o by simp
  with f have "(a, v, s) \<in> set ?vs" by auto
  then have "(\<lambda>(k, v, s). (k, v)) (a, v, s) \<in> set (map (\<lambda>(k, v, s). (k, v)) ?vs)"
    by (simp only: set_map) (rule imageI)
  then have "(a, v) \<in> set (map (\<lambda>(k, v, s). (k, v)) ?vs)" by simp
  moreover have "distinct (map fst (map (\<lambda>(k, v, s). (k, v)) ?vs))"
    unfolding fst_drop_flag by (rule values_distinct [OF d])
  ultimately have "map_of (map (\<lambda>(k, v, s). (k, v)) ?vs) a = Some v"
    by (rule map_of_is_SomeI [rotated])
  with r show ?thesis by simp
qed

lemma model_field_ok:
  assumes ok: "validate (TModel n fs) (JObj kv) = Inr r" and f: "f \<in> set fs"
  shows "\<not> isl (field_outcome (JObj kv) kv f)"
proof -
  from ok have "build_model n (map (field_outcome (JObj kv) kv) fs) = Inr r"
    by (simp only: validate_model)
  from build_model_Inr [OF this] have "\<not> list_ex isl (map (field_outcome (JObj kv) kv) fs)"
    by simp
  with f show ?thesis by (auto simp: list_ex_iff)
qed

lemma model_default:
  assumes "validate (TModel n fs) (JObj kv) = Inr r"
    and "Field a k t (Default d) \<in> set fs"
    and "distinct (map fname fs)"
    and "map_of kv k = None"
  shows "field_value r a = Some d"
proof -
  have "field_outcome (JObj kv) kv (Field a k t (Default d)) = Inr (Some (a, d, False))"
    using assms(4) by (simp add: field_outcome_def)
  from model_field_value [OF assms(1-3) this] show ?thesis .
qed

lemma model_literal:
  assumes "validate (TModel n fs) (JObj kv) = Inr r"
    and "Field a k (TLiteral ls) Required \<in> set fs"
    and "distinct (map fname fs)"
  shows "\<exists>s \<in> set ls. field_value r a = Some (VStr s)"
proof -
  let ?f = "Field a k (TLiteral ls) Required"
  from model_field_ok [OF assms(1,2)] have nl: "\<not> isl (field_outcome (JObj kv) kv ?f)" .
  then obtain j where j: "map_of kv k = Some j"
    by (cases "map_of kv k") (auto simp: field_outcome_def)
  with nl obtain s where s: "j = JStr s" "s \<in> set ls"
    by (cases j) (auto simp: field_outcome_def split: if_splits)
  with j have "field_outcome (JObj kv) kv ?f = Inr (Some (a, VStr s, True))"
    by (simp add: field_outcome_def)
  from model_field_value [OF assms(1,2,3) this] s show ?thesis by auto
qed

subsection \<open>Lists keep their order\<close>

lemma item_values_Inr: "\<not> list_ex isl rs \<Longrightarrow> rs = map Inr (item_values rs)"
  by (induction rs rule: item_values.induct) auto

lemma build_list_Inr:
  "build_list rs = Inr v \<Longrightarrow> \<exists>ys. v = VList ys \<and> rs = map Inr ys"
proof -
  assume "build_list rs = Inr v"
  then have n: "\<not> list_ex isl rs" and v: "v = VList (item_values rs)"
    by (auto simp: build_list_def split: if_splits)
  from item_values_Inr [OF n] v show ?thesis by blast
qed

lemma validate_list_order:
  assumes "validate (TList t) (JArr xs) = Inr v"
  shows "\<exists>ys. v = VList ys \<and> length ys = length xs
           \<and> (\<forall>i < length xs. validate t (xs ! i) = Inr (ys ! i))"
proof -
  from assms have "build_list (map (validate t) xs) = Inr v" by simp
  from build_list_Inr [OF this]
  obtain ys where ys: "v = VList ys" "map (validate t) xs = map Inr ys" by blast
  have "length (map (validate t) xs) = length (map Inr ys :: (verr list + val) list)"
    by (simp only: ys(2))
  then have l: "length ys = length xs" by simp
  have "\<forall>i < length xs. validate t (xs ! i) = Inr (ys ! i)"
  proof (intro allI impI)
    fix i assume i: "i < length xs"
    then have "validate t (xs ! i) = map (validate t) xs ! i" by simp
    also have "\<dots> = Inr (ys ! i)" using ys(2) i l by simp
    finally show "validate t (xs ! i) = Inr (ys ! i)" .
  qed
  with ys(1) l show ?thesis by blast
qed

subsection \<open>Overriding one key of an object\<close>

lemma isl_absent: "isl (absent j f) = isl (absent j' f)"
  by (cases "(j, f)" rule: absent.cases) auto

lemma isl_field_outcome:
  "map_of kv (fkey f) = map_of kv' (fkey f) \<Longrightarrow>
   isl (field_outcome j kv f) = isl (field_outcome j' kv' f)"
  by (cases "map_of kv' (fkey f)") (simp_all add: field_outcome_def isl_absent [of j f j'])

lemma build_model_ok: "\<not> list_ex isl os \<Longrightarrow> \<exists>r. build_model n os = Inr r"
  by (simp add: build_model_def Let_def)

lemma model_key_override:
  assumes ok: "validate (TModel n fs) (JObj kv) = Inr r"
    and new: "\<forall>f \<in> set fs. fkey f = k \<longrightarrow> \<not> isl (validate (fty f) x)"
  shows "\<exists>r'. validate (TModel n fs) (JObj ((k, x) # kv)) = Inr r'"
proof -
  let ?kv = "(k, x) # kv"
  have "\<not> isl (field_outcome (JObj ?kv) ?kv f)" if f: "f \<in> set fs" for f
  proof (cases "fkey f = k")
    case True
    with new f have "\<not> isl (validate (fty f) x)" by blast
    then obtain v where "validate (fty f) x = Inr v" by (cases "validate (fty f) x") auto
    with True show ?thesis by (simp add: field_outcome_def)
  next
    case False
    then have "map_of kv (fkey f) = map_of ?kv (fkey f)" by simp
    from isl_field_outcome [OF this, of "JObj kv" "JObj ?kv"] model_field_ok [OF ok f]
    show ?thesis by simp
  qed
  then have "\<not> list_ex isl (map (field_outcome (JObj ?kv) ?kv) fs)"
    by (auto simp: list_ex_iff)
  from build_model_ok [OF this] show ?thesis by (simp only: validate_model)
qed

lemma model_key_override_other:
  assumes ok: "validate (TModel n fs) (JObj kv) = Inr r"
    and ok': "validate (TModel n fs) (JObj ((k, x) # kv)) = Inr r'"
    and f: "Field a c t Required \<in> set fs" and c: "c \<noteq> k"
    and d: "distinct (map fname fs)"
  shows "field_value r' a = field_value r a"
proof -
  let ?f = "Field a c t Required"
  let ?kv = "(k, x) # kv"
  from model_field_ok [OF ok f] obtain j where j: "map_of kv c = Some j"
    by (cases "map_of kv c") (auto simp: field_outcome_def)
  with model_field_ok [OF ok f] obtain v where v: "validate t j = Inr v"
    by (cases "validate t j") (auto simp: field_outcome_def)
  from j v have "field_outcome (JObj kv) kv ?f = Inr (Some (a, v, True))"
    by (simp add: field_outcome_def)
  from model_field_value [OF ok f d this] have 1: "field_value r a = Some v" .
  from j v c have "field_outcome (JObj ?kv) ?kv ?f = Inr (Some (a, v, True))"
    by (simp add: field_outcome_def)
  from model_field_value [OF ok' f d this] have "field_value r' a = Some v" .
  with 1 show ?thesis by simp
qed

lemma model_key_override_self:
  assumes ok': "validate (TModel n fs) (JObj ((k, x) # kv)) = Inr r'"
    and f: "Field a k t p \<in> set fs" and d: "distinct (map fname fs)"
    and v: "validate t x = Inr v"
  shows "field_value r' a = Some v"
proof -
  let ?kv = "(k, x) # kv"
  from v have "field_outcome (JObj ?kv) ?kv (Field a k t p) = Inr (Some (a, v, True))"
    by (simp add: field_outcome_def)
  from model_field_value [OF ok' f d this] show ?thesis .
qed

subsection \<open>Unions with members that do not require a tag\<close>

lemma first_success_fail_some:
  assumes "\<forall>r \<in> set rs. isl (snd r)"
  shows "\<exists>es. first_success rs = Inl es
           \<and> (\<forall>r \<in> set rs. (\<exists>es'. snd r = Inl es' \<and> e \<in> set es')
                  \<longrightarrow> at_loc (Tag (fst r)) e \<in> set es)"
  using assms
proof (induction rs)
  case Nil
  then show ?case by simp
next
  case (Cons r rs)
  obtain l x where r: "r = (l, x)" by (cases r)
  from Cons.prems r obtain es0 where x: "x = Inl es0" by (cases x) auto
  from Cons.IH Cons.prems obtain es1 where
    es1: "first_success rs = Inl es1"
      "\<forall>r \<in> set rs. (\<exists>es'. snd r = Inl es' \<and> e \<in> set es')
          \<longrightarrow> at_loc (Tag (fst r)) e \<in> set es1"
    by auto
  have "first_success (r # rs) = Inl (map (at_loc (Tag l)) es0 @ es1)"
    using r x es1(1) by simp
  moreover have "\<forall>r' \<in> set (r # rs). (\<exists>es'. snd r' = Inl es' \<and> e \<in> set es')
          \<longrightarrow> at_loc (Tag (fst r')) e \<in> set (map (at_loc (Tag l)) es0 @ es1)"
    using r x es1(2) by auto
  ultimately show ?case by blast
qed

lemma union_fail_some:
  assumes "\<forall>t \<in> set ts. isl (validate t j)"
  shows "\<exists>es. validate (TUnion ts) j = Inl es
           \<and> (\<forall>t \<in> set ts. (\<exists>es'. validate t j = Inl es' \<and> e \<in> set es')
                  \<longrightarrow> at_loc (Tag (type_label t)) e \<in> set es)"
proof -
  have "\<forall>r \<in> set (map (\<lambda>t. (type_label t, validate t j)) ts). isl (snd r)"
    using assms by auto
  from first_success_fail_some [OF this, of e] show ?thesis by auto
qed

lemma union_missing_mixed:
  assumes u: "\<forall>t \<in> set ts. tag_of t = None \<longrightarrow> isl (validate t (JObj kv))"
    and m: "map_of kv ''type'' = None"
  shows "\<exists>es. validate (TUnion ts) (JObj kv) = Inl es
           \<and> (\<forall>t \<in> set ts. tag_of t \<noteq> None \<longrightarrow>
                 VErr [Tag (type_label t), Key ''type''] missing (JObj kv) \<in> set es)"
proof -
  have tagged: "\<exists>es'. validate t (JObj kv) = Inl es' \<and> VErr [Key ''type''] missing (JObj kv) \<in> set es'"
    if "tag_of t \<noteq> None" for t
  proof -
    from that obtain ls where "tag_of t = Some ls" by auto
    from tagged_missing [OF this m] show ?thesis .
  qed
  have "\<forall>t \<in> set ts. isl (validate t (JObj kv))"
  proof
    fix t assume t: "t \<in> set ts"
    show "isl (validate t (JObj kv))"
    proof (cases "tag_of t")
      case None
      with u t show ?thesis by blast
    next
      case (Some ls)
      with tagged [of t] show ?thesis by auto
    qed
  qed
  from union_fail_some [OF this, of "VErr [Key ''type''] missing (JObj kv)"] tagged
  show ?thesis by auto
qed

lemma declared_tag_fields_Some:
  "declared_tag_fields fs = Some ls \<Longrightarrow> \<exists>n p. Field n ''type'' (TLiteral ls) p \<in> set fs"
  by (induction fs rule: declared_tag_fields.induct) (auto split: if_splits)

lemma declared_unknown:
  assumes "declared_tag t = Some ls" and "map_of kv ''type'' = Some v" and "v \<notin> JStr ` set ls"
  shows "\<exists>es. validate t (JObj kv) = Inl es \<and> VErr [Key ''type''] literal_error v \<in> set es"
proof -
  from assms(1) obtain n fs where t: "t = TModel n fs \<or> t = TTypedDict n fs"
    and tg: "declared_tag_fields fs = Some ls"
    by (cases t) auto
  from declared_tag_fields_Some [OF tg] obtain a p where
    f: "Field a ''type'' (TLiteral ls) p \<in> set fs" by blast
  have "validate (TLiteral ls) v = Inl [VErr [] literal_error v]"
    using assms(3) by (cases v) auto
  then have "VErr [Key ''type''] literal_error v
          \<in> set (outcome_errors (field_outcome (JObj kv) kv (Field a ''type'' (TLiteral ls) p)))"
    using assms(2) by (simp add: field_outcome_def)
  from field_error_fails [OF f this] t show ?thesis by blast
qed

lemma union_unknown_mixed:
  assumes u: "\<forall>t \<in> set ts. declared_tag t = None \<longrightarrow> isl (validate t (JObj kv))"
    and m: "map_of kv ''type'' = Some v"
    and n: "v \<notin> JStr ` set (declared_tag_values (TUnion ts))"
  shows "\<exists>es. validate (TUnion ts) (JObj kv) = Inl es
           \<and> (\<forall>t \<in> set ts. declared_tag t \<noteq> None \<longrightarrow>
                 VErr [Tag (type_label t), Key ''type''] literal_error v \<in> set es)"
proof -
  have tagged: "\<exists>es'. validate t (JObj kv) = Inl es' \<and> VErr [Key ''type''] literal_error v \<in> set es'"
    if "declared_tag t \<noteq> None" and "t \<in> set ts" for t
  proof -
    from that obtain ls where ls: "declared_tag t = Some ls" by auto
    with that(2) n have "v \<notin> JStr ` set ls" by force
    from declared_unknown [OF ls m this] show ?thesis .
  qed
  have "\<forall>t \<in> set ts. isl (validate t (JObj kv))"
  proof
    fix t assume t: "t \<in> set ts"
    show "isl (validate t (JObj kv))"
    proof (cases "declared_tag t")
      case None
      with u t show ?thesis by blast
    next
      case (Some ls)
      with tagged [of t] t show ?thesis by auto
    qed
  qed
  from union_fail_some [OF this, of "VErr [Key ''type''] literal_error v"] tagged
  show ?thesis by auto
qed


lemma required_missing:
  assumes "Field a k t Required \<in> set fs" and "map_of kv k = None"
  shows "isl (validate (TTypedDict n fs) (JObj kv))" and "isl (validate (TModel n fs) (JObj kv))"
proof -
  have "VErr [Key k] missing (JObj kv)
          \<in> set (outcome_errors (field_outcome (JObj kv) kv (Field a k t Required)))"
    using assms(2) by (simp add: field_outcome_def)
  from field_error_fails [OF assms(1) this, of n]
  show "isl (validate (TTypedDict n fs) (JObj kv))" and "isl (validate (TModel n fs) (JObj kv))"
    by auto
qed

section \<open>Records without a type tag, and with an unknown one\<close>

lemma input_item_no_type:
  "validate ResponseInputItemParam (JObj [(''content'', JStr c), (''role'', JStr ''user'')])
     = Inr (VDict [(''content'', VStr c), (''role'', VStr ''user'')])"
  by (simp add: param_defs build_dict_def build_list_def)

lemma input_item_union: "ResponseInputItemParam = TUnion (members ResponseInputItemParam)"
  by (simp add: ResponseInputItemParam_def)

lemma input_item_all_declare:
  "\<forall>t \<in> set (members ResponseInputItemParam). declared_tag t \<noteq> None"
  by (simp add: param_defs)

lemma input_item_untagged:
  "\<forall>t \<in> set (members ResponseInputItemParam).
     tag_of t = None \<longrightarrow> t = EasyInputMessageParam \<or> t = Message"
  by (simp add: param_defs)

lemma input_item_missing:
  assumes "map_of kv ''type'' = None"
    and "isl (validate EasyInputMessageParam (JObj kv))"
    and "isl (validate Message (JObj kv))"
  shows "\<exists>es. validate ResponseInputItemParam (JObj kv) = Inl es
           \<and> (\<forall>t \<in> set (members ResponseInputItemParam). tag_of t \<noteq> None \<longrightarrow>
                 VErr [Tag (type_label t), Key ''type''] missing (JObj kv) \<in> set es)"
proof -
  have "\<forall>t \<in> set (members ResponseInputItemParam).
          tag_of t = None \<longrightarrow> isl (validate t (JObj kv))"
    using input_item_untagged assms(2,3) by blast
  from union_missing_mixed [OF this assms(1)] show ?thesis
    by (simp only: input_item_union [symmetric])
qed

lemma input_item_unknown:
  assumes "map_of kv ''type'' = Some v"
    and "v \<notin> JStr ` set (declared_tag_values ResponseInputItemParam)"
  shows "\<exists>es. validate ResponseInputItemParam (JObj kv) = Inl es
           \<and> (\<forall>t \<in> set (members ResponseInputItemParam).
                 VErr [Tag (type_label t), Key ''type''] literal_error v \<in> set es)"
proof -
  have u: "\<forall>t \<in> set (members ResponseInputItemParam).
          declared_tag t = None \<longrightarrow> isl (validate t (JObj kv))"
    using input_item_all_declare by blast
  have n: "v \<notin> JStr ` set (declared_tag_values (TUnion (members ResponseInputItemParam)))"
    by (subst input_item_union [symmetric]) (rule assms(2))
  from union_unknown_mixed [OF u assms(1) n] input_item_all_declare show ?thesis
    by (simp only: input_item_union [symmetric]) blast
qed

lemma message_needs_role_and_content:
  assumes "map_of kv ''role'' = None \<or> map_of kv ''content'' = None"
  shows "isl (validate EasyInputMessageParam (JObj kv)) \<and> isl (validate Message (JObj kv))"
  using assms
proof
  assume r: "map_of kv ''role'' = None"
  have "isl (validate EasyInputMessageParam (JObj kv))"
    unfolding EasyInputMessageParam_def
    by (rule required_missing(1) [where a = "''role''" and k = "''role''", OF _ r]) simp
  moreover have "isl (validate Message (JObj kv))"
    unfolding Message_def
    by (rule required_missing(1) [where a = "''role''" and k = "''role''", OF _ r]) simp
  ultimately show ?thesis ..
next
  assume c: "map_of kv ''content'' = None"
  have "isl (validate EasyInputMessageParam (JObj kv))"
    unfolding EasyInputMessageParam_def
    by (rule required_missing(1) [where a = "''content''" and k = "''content''", OF _ c]) simp
  moreover have "isl (validate Message (JObj kv))"
    unfolding Message_def
    by (rule required_missing(1) [where a = "''content''" and k = "''content''", OF _ c]) simp
  ultimately show ?thesis ..
qed

lemma tool_choice_record:
  assumes "U = ToolChoice \<or> U = ToolChoice_param"
  shows "(map_of kv ''type'' = None \<longrightarrow>
           (\<exists>es. validate U (JObj kv) = Inl es \<and>
              (\<forall>t \<in> set (members U). tag_of t \<noteq> None \<longrightarrow>
                 VErr [Tag (type_label t), Key ''type''] missing (JObj kv) \<in> set es)))
       \<and> (\<forall>v. map_of kv ''type'' = Some v \<longrightarrow> v \<noteq> JStr ''function'' \<longrightarrow>
           (\<exists>es. validate U (JObj kv) = Inl es \<and>
              (\<forall>t \<in> set (members U). tag_of t \<noteq> None \<longrightarrow>
                 VErr [Tag (type_label t), Key ''type''] literal_error v \<in> set es)))"
proof -
  from assms obtain t where U: "U = TUnion [ToolChoiceOptions, t]"
    and t: "tag_of t = Some [''function'']" "declared_tag t = Some [''function'']"
    by (auto simp: ToolChoice_def ToolChoice_param_def ToolChoiceFunction_def
          ToolChoiceFunctionParam_def)
  have o: "isl (validate ToolChoiceOptions (JObj kv))" "tag_of ToolChoiceOptions = None"
    "declared_tag ToolChoiceOptions = None"
    by (simp_all add: ToolChoiceOptions_def)
  have a: "\<forall>x \<in> set [ToolChoiceOptions, t]. tag_of x = None \<longrightarrow> isl (validate x (JObj kv))"
    using o t by simp
  have b: "\<forall>x \<in> set [ToolChoiceOptions, t]. declared_tag x = None \<longrightarrow> isl (validate x (JObj kv))"
    using o t by simp
  have dv: "declared_tag_values (TUnion [ToolChoiceOptions, t]) = [''function'']"
    using o t by simp
  show ?thesis
  proof (intro conjI allI impI)
    assume "map_of kv ''type'' = None"
    from union_missing_mixed [OF a this]
    show "\<exists>es. validate U (JObj kv) = Inl es \<and>
              (\<forall>t \<in> set (members U). tag_of t \<noteq> None \<longrightarrow>
                 VErr [Tag (type_label t), Key ''type''] missing (JObj kv) \<in> set es)"
      by (simp only: U members.simps)
  next
    fix v
    assume m: "map_of kv ''type'' = Some v" and "v \<noteq> JStr ''function''"
    then have "v \<notin> JStr ` set (declared_tag_values (TUnion [ToolChoiceOptions, t]))"
      unfolding dv by auto
    from union_unknown_mixed [OF b m this] o t
    show "\<exists>es. validate U (JObj kv) = Inl es \<and>
              (\<forall>t \<in> set (members U). tag_of t \<noteq> None \<longrightarrow>
                 VErr [Tag (type_label t), Key ''type''] literal_error v \<in> set es)"
      unfolding U by auto
  qed
qed


text \<open>
  Claim C2, as the code has it. A record whose \<^verbatim>\<open>type\<close> is present and is none of
  the literals of the union fails to decode at every union of records: at the unions
  whose members all require \<^verbatim>\<open>type\<close> (\<open>tagged_unions\<close>), at the union of input
  items, and at the tool choice; every member class reports a \<open>literal_error\<close> at
  \<^verbatim>\<open>type\<close> that carries the offending value. A record without \<^verbatim>\<open>type\<close> fails to
  decode at the tagged unions and at the tool choice, and every member class that requires
  \<^verbatim>\<open>type\<close> reports the error \<open>missing\<close> at \<^verbatim>\<open>type\<close>. At the union of input
  items it fails in the same way unless it validates as a message, that is as
  \<^verbatim>\<open>EasyInputMessageParam\<close> or \<^verbatim>\<open>Message\<close>, the two classes that declare
  \<^verbatim>\<open>type\<close> without \<^verbatim>\<open>Required\<close>; it does not when \<^verbatim>\<open>role\<close> or \<^verbatim>\<open>content\<close>
  is absent. A record with a role and a content and no \<^verbatim>\<open>type\<close> decodes as a message:
  that is the one case where a variant is taken without a tag.
\<close>

theorem record_type_tag_enforced:
  assumes "U \<in> set tagged_unions" and "T \<in> set tool_choice_unions"
  shows "(map_of kv ''type'' = None \<longrightarrow>
           (\<exists>es. validate U (JObj kv) = Inl es \<and>
              (\<forall>t \<in> set (members U).
                 VErr [Tag (type_label t), Key ''type''] missing (JObj kv) \<in> set es)))
       \<and> (\<forall>v. map_of kv ''type'' = Some v \<longrightarrow> v \<notin> JStr ` set (tag_values U) \<longrightarrow>
           (\<exists>es. validate U (JObj kv) = Inl es \<and>
              (\<forall>t \<in> set (members U).
                 VErr [Tag (type_label t), Key ''type''] literal_error v \<in> set es)))
       \<and> (map_of kv ''type'' = None \<longrightarrow>
           (\<exists>es. validate T (JObj kv) = Inl es \<and>
              (\<forall>t \<in> set (members T). tag_of t \<noteq> None \<longrightarrow>
                 VErr [Tag (type_label t), Key ''type''] missing (JObj kv) \<in> set es)))
       \<and> (\<forall>v. map_of kv ''type'' = Some v \<longrightarrow> v \<noteq> JStr ''function'' \<longrightarrow>
           (\<exists>es. validate T (JObj kv) = Inl es \<and>
              (\<forall>t \<in> set (members T). tag_of t \<noteq> None \<longrightarrow>
                 VErr [Tag (type_label t), Key ''type''] literal_error v \<in> set es)))
       \<and> (\<forall>v. map_of kv ''type'' = Some v \<longrightarrow>
             v \<notin> JStr ` set (declared_tag_values ResponseInputItemParam) \<longrightarrow>
           (\<exists>es. validate ResponseInputItemParam (JObj kv) = Inl es \<and>
              (\<forall>t \<in> set (members ResponseInputItemParam).
                 VErr [Tag (type_label t), Key ''type''] literal_error v \<in> set es)))
       \<and> (map_of kv ''type'' = None \<longrightarrow>
             isl (validate EasyInputMessageParam (JObj kv)) \<longrightarrow>
             isl (validate Message (JObj kv)) \<longrightarrow>
           (\<exists>es. validate ResponseInputItemParam (JObj kv) = Inl es \<and>
              (\<forall>t \<in> set (members ResponseInputItemParam). tag_of t \<noteq> None \<longrightarrow>
                 VErr [Tag (type_label t), Key ''type''] missing (JObj kv) \<in> set es)))
       \<and> (map_of kv ''role'' = None \<or> map_of kv ''content'' = None \<longrightarrow>
             isl (validate EasyInputMessageParam (JObj kv))
             \<and> isl (validate Message (JObj kv)))
       \<and> validate ResponseInputItemParam (JObj [(''content'', JStr c), (''role'', JStr ''user'')])
           = Inr (VDict [(''content'', VStr c), (''role'', VStr ''user'')])"
proof -
  from assms(1) tagged_unions_tagged have tg: "union_members_tagged U"
    by (simp add: list_all_iff)
  from assms(2) have tc: "T = ToolChoice \<or> T = ToolChoice_param"
    by (simp add: tool_choice_unions_def)
  note a = tagged_union_missing [OF tg, of kv]
  note b = tagged_union_unknown [OF tg, of kv]
  note c = tool_choice_record [OF tc, of kv]
  note d = input_item_unknown [of kv]
  note e = input_item_missing [of kv]
  note f = message_needs_role_and_content [of kv]
  show ?thesis
    by (intro conjI allI impI)
       (rule a b d e f [THEN conjunct1] f [THEN conjunct2] input_item_no_type
          c [THEN conjunct1, rule_format] c [THEN conjunct2, rule_format]; assumption)+
qed


theorem record_type_tag_enforced_witness:
  "ResponseOutputItem \<in> set tagged_unions \<and> ToolChoice \<in> set tool_choice_unions
   \<and> (\<exists>es. validate ResponseOutputItem (JObj [(''id'', JStr ''x'')]) = Inl es
         \<and> VErr [Tag ''ResponseOutputMessage'', Key ''type''] missing
              (JObj [(''id'', JStr ''x'')]) \<in> set es)
   \<and> (\<exists>es. validate ResponseOutputItem (JObj [(''type'', JStr ''bogus'')]) = Inl es
         \<and> VErr [Tag ''ResponseReasoningItem'', Key ''type''] literal_error (JStr ''bogus'')
              \<in> set es)
   \<and> (\<exists>es. validate ToolChoice (JObj [(''id'', JStr ''x'')]) = Inl es
         \<and> VErr [Tag ''ToolChoiceFunction'', Key ''type''] missing
              (JObj [(''id'', JStr ''x'')]) \<in> set es)
   \<and> (\<exists>es. validate ToolChoice (JObj [(''type'', JStr ''bogus'')]) = Inl es
         \<and> VErr [Tag ''ToolChoiceFunction'', Key ''type''] literal_error (JStr ''bogus'')
              \<in> set es)
   \<and> (\<exists>es. validate ResponseInputItemParam (JObj [(''type'', JStr ''bogus'')]) = Inl es
         \<and> VErr [Tag ''EasyInputMessageParam'', Key ''type''] literal_error (JStr ''bogus'')
              \<in> set es
         \<and> VErr [Tag ''ItemReference'', Key ''type''] literal_error (JStr ''bogus'')
              \<in> set es)
   \<and> (\<exists>es. validate ResponseInputItemParam (JObj [(''id'', JStr ''x'')]) = Inl es
         \<and> VErr [Tag ''ItemReference'', Key ''type''] missing
              (JObj [(''id'', JStr ''x'')]) \<in> set es)"
proof -
  have u: "ResponseOutputItem \<in> set tagged_unions"
    by (simp add: tagged_unions_def)
  have tc: "ToolChoice \<in> set tool_choice_unions"
    by (simp add: tool_choice_unions_def)
  have m: "ResponseOutputMessage \<in> set (members ResponseOutputItem)"
      "type_label ResponseOutputMessage = ''ResponseOutputMessage''"
      "ResponseReasoningItem \<in> set (members ResponseOutputItem)"
      "type_label ResponseReasoningItem = ''ResponseReasoningItem''"
    by (simp_all add: ResponseOutputItem_def ResponseOutputMessage_def ResponseReasoningItem_def)
  have mt: "ToolChoiceFunction \<in> set (members ToolChoice)"
      "type_label ToolChoiceFunction = ''ToolChoiceFunction''"
      "tag_of ToolChoiceFunction \<noteq> None"
    by (simp_all add: ToolChoice_def ToolChoiceFunction_def)
  have mi: "EasyInputMessageParam \<in> set (members ResponseInputItemParam)"
      "type_label EasyInputMessageParam = ''EasyInputMessageParam''"
      "ItemReference \<in> set (members ResponseInputItemParam)"
      "type_label ItemReference = ''ItemReference''"
      "tag_of ItemReference \<noteq> None"
    by (simp_all add: ResponseInputItemParam_def EasyInputMessageParam_def ItemReference_def)
  have n: "JStr ''bogus'' \<notin> JStr ` set (tag_values ResponseOutputItem)"
    by (simp add: response_defs)
  have ni: "JStr ''bogus'' \<notin> JStr ` set (declared_tag_values ResponseInputItemParam)"
    by (simp add: param_defs)
  have nf: "JStr ''bogus'' \<noteq> JStr ''function''" by simp
  have a: "map_of [(''id'', JStr ''x'')] ''type'' = None"
    and r: "map_of [(''id'', JStr ''x'')] ''role'' = None"
    and b: "map_of [(''type'', JStr ''bogus'')] ''type'' = Some (JStr ''bogus'')"
    by simp_all
  note t1 = record_type_tag_enforced [OF u tc, of "[(''id'', JStr ''x'')]"]
  note t2 = record_type_tag_enforced [OF u tc, of "[(''type'', JStr ''bogus'')]"]
  from t1 a m have 1: "\<exists>es. validate ResponseOutputItem (JObj [(''id'', JStr ''x'')]) = Inl es
         \<and> VErr [Tag ''ResponseOutputMessage'', Key ''type''] missing
              (JObj [(''id'', JStr ''x'')]) \<in> set es"
    by metis
  from t2 b n m have 2: "\<exists>es. validate ResponseOutputItem (JObj [(''type'', JStr ''bogus'')]) = Inl es
         \<and> VErr [Tag ''ResponseReasoningItem'', Key ''type''] literal_error (JStr ''bogus'')
              \<in> set es"
    by metis
  from t1 a mt have 3: "\<exists>es. validate ToolChoice (JObj [(''id'', JStr ''x'')]) = Inl es
         \<and> VErr [Tag ''ToolChoiceFunction'', Key ''type''] missing
              (JObj [(''id'', JStr ''x'')]) \<in> set es"
    by metis
  from t2 b nf mt have 4: "\<exists>es. validate ToolChoice (JObj [(''type'', JStr ''bogus'')]) = Inl es
         \<and> VErr [Tag ''ToolChoiceFunction'', Key ''type''] literal_error (JStr ''bogus'')
              \<in> set es"
    by metis
  from t2 b ni mi have 5: "\<exists>es. validate ResponseInputItemParam (JObj [(''type'', JStr ''bogus'')])
           = Inl es
         \<and> VErr [Tag ''EasyInputMessageParam'', Key ''type''] literal_error (JStr ''bogus'')
              \<in> set es
         \<and> VErr [Tag ''ItemReference'', Key ''type''] literal_error (JStr ''bogus'')
              \<in> set es"
    by metis
  from t1 r have "isl (validate EasyInputMessageParam (JObj [(''id'', JStr ''x'')]))"
    and "isl (validate Message (JObj [(''id'', JStr ''x'')]))"
    by blast+
  with t1 a mi have 6: "\<exists>es. validate ResponseInputItemParam (JObj [(''id'', JStr ''x'')]) = Inl es
         \<and> VErr [Tag ''ItemReference'', Key ''type''] missing
              (JObj [(''id'', JStr ''x'')]) \<in> set es"
    by metis
  from u tc 1 2 3 4 5 6 show ?thesis by (intro conjI)
qed

text \<open>
  Claim C2 as stated fails at the input-item position: this record has no \<^verbatim>\<open>type\<close>
  and decodes.
\<close>

theorem input_item_without_type_accepted:
  "map_of [(''content'', JStr ''hi''), (''role'', JStr ''user'')] ''type'' = None
   \<and> validate ResponseInputItemParam (JObj [(''content'', JStr ''hi''), (''role'', JStr ''user'')])
       = Inr (VDict [(''content'', VStr ''hi''), (''role'', VStr ''user'')])"
  by (simp add: param_defs build_dict_def build_list_def)

section \<open>The defaults of a create request\<close>

lemma ResponsesCreate_fields:
  "\<exists>fs. ResponsesCreate = TModel ''ResponsesCreate'' fs \<and> distinct (map fname fs)
     \<and> fld ''input'' (TUnion [TStr, ResponseInputParam]) Required \<in> set fs
     \<and> fld ''instructions'' (TOptional TStr) (Default VNone) \<in> set fs
     \<and> fld ''max_output_tokens'' (TOptional TInt) (Default VNone) \<in> set fs
     \<and> fld ''metadata'' (TOptional Metadata) (Default VNone) \<in> set fs
     \<and> fld ''parallel_tool_calls'' (TOptional TBool) (Default (VBool True)) \<in> set fs
     \<and> fld ''store'' (TOptional TBool) (Default (VBool True)) \<in> set fs
     \<and> fld ''stream'' (TOptional TBool) (Default (VBool False)) \<in> set fs
     \<and> fld ''temperature'' (TOptional TFloat) (Default VNone) \<in> set fs
     \<and> fld ''tool_choice'' (TOptional ToolChoice) (Default VNone) \<in> set fs
     \<and> fld ''tools'' (TOptional (TIterable ToolParam)) (Default VNone) \<in> set fs
     \<and> fld ''top_p'' (TOptional TFloat) (Default (VFloat 1)) \<in> set fs
     \<and> fld ''truncation'' (TOptional (TLiteral [''auto'', ''disabled'']))
           (Default (VStr ''disabled'')) \<in> set fs"
  by (simp add: ResponsesCreate_def)

text \<open>
  Claim C10. When a create request decodes and omits the optional generation knobs, the
  decoded request has \<^verbatim>\<open>stream=False\<close>, \<^verbatim>\<open>store=True\<close>,
  \<^verbatim>\<open>parallel_tool_calls=True\<close>, \<^verbatim>\<open>truncation="disabled"\<close> and
  \<^verbatim>\<open>top_p=1.0\<close>, and \<^verbatim>\<open>temperature\<close>, \<^verbatim>\<open>max_output_tokens\<close>,
  \<^verbatim>\<open>tool_choice\<close>, \<^verbatim>\<open>tools\<close>, \<^verbatim>\<open>metadata\<close> and \<^verbatim>\<open>instructions\<close>
  are \<^verbatim>\<open>None\<close>.
\<close>

theorem create_request_defaults:
  assumes "validate ResponsesCreate (JObj kv) = Inr r"
    and "fst ` set kv \<inter> set [''stream'', ''store'', ''parallel_tool_calls'', ''truncation'',
           ''top_p'', ''temperature'', ''max_output_tokens'', ''tool_choice'', ''tools'',
           ''metadata'', ''instructions''] = {}"
  shows "field_value r ''stream'' = Some (VBool False)
       \<and> field_value r ''store'' = Some (VBool True)
       \<and> field_value r ''parallel_tool_calls'' = Some (VBool True)
       \<and> field_value r ''truncation'' = Some (VStr ''disabled'')
       \<and> field_value r ''top_p'' = Some (VFloat 1)
       \<and> field_value r ''temperature'' = Some VNone
       \<and> field_value r ''max_output_tokens'' = Some VNone
       \<and> field_value r ''tool_choice'' = Some VNone
       \<and> field_value r ''tools'' = Some VNone
       \<and> field_value r ''metadata'' = Some VNone
       \<and> field_value r ''instructions'' = Some VNone"
proof -
  from ResponsesCreate_fields obtain fs where
    fs: "ResponsesCreate = TModel ''ResponsesCreate'' fs" and d: "distinct (map fname fs)"
    and m: "fld ''instructions'' (TOptional TStr) (Default VNone) \<in> set fs"
      "fld ''max_output_tokens'' (TOptional TInt) (Default VNone) \<in> set fs"
      "fld ''metadata'' (TOptional Metadata) (Default VNone) \<in> set fs"
      "fld ''parallel_tool_calls'' (TOptional TBool) (Default (VBool True)) \<in> set fs"
      "fld ''store'' (TOptional TBool) (Default (VBool True)) \<in> set fs"
      "fld ''stream'' (TOptional TBool) (Default (VBool False)) \<in> set fs"
      "fld ''temperature'' (TOptional TFloat) (Default VNone) \<in> set fs"
      "fld ''tool_choice'' (TOptional ToolChoice) (Default VNone) \<in> set fs"
      "fld ''tools'' (TOptional (TIterable ToolParam)) (Default VNone) \<in> set fs"
      "fld ''top_p'' (TOptional TFloat) (Default (VFloat 1)) \<in> set fs"
      "fld ''truncation'' (TOptional (TLiteral [''auto'', ''disabled'']))
           (Default (VStr ''disabled'')) \<in> set fs"
    by blast
  from assms(1) have ok: "validate (TModel ''ResponsesCreate'' fs) (JObj kv) = Inr r"
    by (simp only: fs)
  have none: "\<And>k. k \<in> set [''stream'', ''store'', ''parallel_tool_calls'', ''truncation'',
           ''top_p'', ''temperature'', ''max_output_tokens'', ''tool_choice'', ''tools'',
           ''metadata'', ''instructions''] \<Longrightarrow> map_of kv k = None"
    using assms(2) by (auto simp only: map_of_eq_None_iff)
  note dflt = model_default [OF ok _ d none]
  show ?thesis
    by (intro conjI; rule dflt, rule m, simp)
qed

theorem create_request_defaults_witness:
  "validate ResponsesCreate (JObj [(''input'', JStr ''hello''), (''model'', JStr ''m'')])
     = Inr (VModel ''ResponsesCreate''
       [(''input'', VStr ''hello''), (''model'', VStr ''m''),
        (''include'', VNone), (''instructions'', VNone),
        (''max_output_tokens'', VNone), (''metadata'', VNone),
        (''parallel_tool_calls'', VBool True),
        (''previous_response_id'', VNone), (''reasoning'', VNone),
        (''store'', VBool True), (''stream'', VBool False),
        (''temperature'', VNone), (''text'', VNone),
        (''tool_choice'', VNone), (''tools'', VNone), (''top_p'', VFloat 1),
        (''truncation'', VStr ''disabled''), (''user'', VNone)]
       [''input'', ''model''])
   \<and> field_value (VModel ''ResponsesCreate''
       [(''input'', VStr ''hello''), (''model'', VStr ''m''),
        (''include'', VNone), (''instructions'', VNone),
        (''max_output_tokens'', VNone), (''metadata'', VNone),
        (''parallel_tool_calls'', VBool True),
        (''previous_response_id'', VNone), (''reasoning'', VNone),
        (''store'', VBool True), (''stream'', VBool False),
        (''temperature'', VNone), (''text'', VNone),
        (''tool_choice'', VNone), (''tools'', VNone), (''top_p'', VFloat 1),
        (''truncation'', VStr ''disabled''), (''user'', VNone)]
       [''input'', ''model'']) ''stream'' = Some (VBool False)"
proof -
  let ?kv = "[(''input'', JStr ''hello''), (''model'', JStr ''m'')]"
  have ok: "validate ResponsesCreate (JObj ?kv)
     = Inr (VModel ''ResponsesCreate''
       [(''input'', VStr ''hello''), (''model'', VStr ''m''),
        (''include'', VNone), (''instructions'', VNone),
        (''max_output_tokens'', VNone), (''metadata'', VNone),
        (''parallel_tool_calls'', VBool True),
        (''previous_response_id'', VNone), (''reasoning'', VNone),
        (''store'', VBool True), (''stream'', VBool False),
        (''temperature'', VNone), (''text'', VNone),
        (''tool_choice'', VNone), (''tools'', VNone), (''top_p'', VFloat 1),
        (''truncation'', VStr ''disabled''), (''user'', VNone)]
       [''input'', ''model''])"
    by (simp add: ResponsesCreate_def build_model_def)
  have no: "fst ` set ?kv \<inter> set [''stream'', ''store'', ''parallel_tool_calls'', ''truncation'',
           ''top_p'', ''temperature'', ''max_output_tokens'', ''tool_choice'', ''tools'',
           ''metadata'', ''instructions''] = {}"
    by simp
  from create_request_defaults [OF ok no] ok show ?thesis by blast
qed

section \<open>The input of a create request\<close>

lemma input_string:
  "validate ResponsesCreate (JObj [(''input'', JStr s), (''model'', JStr m)])
     = Inr (VModel ''ResponsesCreate''
         [(''input'', VStr s), (''model'', VStr m),
          (''include'', VNone), (''instructions'', VNone),
          (''max_output_tokens'', VNone), (''metadata'', VNone),
          (''parallel_tool_calls'', VBool True),
          (''previous_response_id'', VNone), (''reasoning'', VNone),
          (''store'', VBool True), (''stream'', VBool False),
          (''temperature'', VNone), (''text'', VNone),
          (''tool_choice'', VNone), (''tools'', VNone), (''top_p'', VFloat 1),
          (''truncation'', VStr ''disabled''), (''user'', VNone)]
         [''input'', ''model''])"
  by (simp add: ResponsesCreate_def build_model_def)

lemma input_items:
  assumes "validate ResponsesCreate (JObj [(''input'', JArr xs), (''model'', JStr m)]) = Inr r"
  shows "\<exists>ys. field_value r ''input'' = Some (VList ys) \<and> length ys = length xs
           \<and> (\<forall>i < length xs. validate ResponseInputItemParam (xs ! i) = Inr (ys ! i))"
proof -
  let ?kv = "[(''input'', JArr xs), (''model'', JStr m)]"
  let ?f = "fld ''input'' (TUnion [TStr, ResponseInputParam]) Required"
  from ResponsesCreate_fields obtain fs where
    fs: "ResponsesCreate = TModel ''ResponsesCreate'' fs" and d: "distinct (map fname fs)"
    and f: "?f \<in> set fs"
    by blast
  from assms have ok: "validate (TModel ''ResponsesCreate'' fs) (JObj ?kv) = Inr r"
    by (simp only: fs)
  have u: "validate (TUnion [TStr, ResponseInputParam]) (JArr xs)
          = (case validate (TList ResponseInputItemParam) (JArr xs) of
               Inr v \<Rightarrow> Inr v
             | Inl es \<Rightarrow> Inl (VErr [Tag ''str''] string_type (JArr xs)
                              # map (at_loc (Tag ''list'')) es))"
    by (simp add: ResponseInputParam_def split: sum.splits)
  have o: "field_outcome (JObj ?kv) ?kv ?f
          = present ?f (validate (TUnion [TStr, ResponseInputParam]) (JArr xs))"
    by (simp add: field_outcome_def)
  from model_field_ok [OF ok f] have "\<not> isl (field_outcome (JObj ?kv) ?kv ?f)" .
  then obtain v where
    v: "validate (TList ResponseInputItemParam) (JArr xs) = Inr v"
    unfolding o u by (cases "validate (TList ResponseInputItemParam) (JArr xs)") auto
  then have "field_outcome (JObj ?kv) ?kv ?f = Inr (Some (''input'', v, True))"
    unfolding o u by simp
  from model_field_value [OF ok f d this] have "field_value r ''input'' = Some v" .
  with validate_list_order [OF v] show ?thesis by auto
qed

text \<open>
  Claim C9, as the code has it. A bare string given as \<^verbatim>\<open>input\<close> stays that string:
  the \<^verbatim>\<open>str\<close> arm of \<^verbatim>\<open>Union[str, ResponseInputParam]\<close> accepts it, and nothing
  wraps it into a message item. A sequence of items decodes to a list of the same length
  whose element at each position is the decoding of the input element at that position.
\<close>

theorem input_kept_in_order:
  "(\<exists>r. validate ResponsesCreate (JObj [(''input'', JStr s), (''model'', JStr m)]) = Inr r
        \<and> field_value r ''input'' = Some (VStr s))
   \<and> (\<forall>r. validate ResponsesCreate (JObj [(''input'', JArr xs), (''model'', JStr m)]) = Inr r
        \<longrightarrow> (\<exists>ys. field_value r ''input'' = Some (VList ys) \<and> length ys = length xs
              \<and> (\<forall>i < length xs. validate ResponseInputItemParam (xs ! i) = Inr (ys ! i))))"
proof (intro conjI allI impI)
  show "\<exists>r. validate ResponsesCreate (JObj [(''input'', JStr s), (''model'', JStr m)]) = Inr r
        \<and> field_value r ''input'' = Some (VStr s)"
    by (simp add: input_string)
next
  fix r
  assume "validate ResponsesCreate (JObj [(''input'', JArr xs), (''model'', JStr m)]) = Inr r"
  from input_items [OF this]
  show "\<exists>ys. field_value r ''input'' = Some (VList ys) \<and> length ys = length xs
           \<and> (\<forall>i < length xs. validate ResponseInputItemParam (xs ! i) = Inr (ys ! i))" .
qed

lemma two_items:
  "validate ResponsesCreate
     (JObj [(''input'', JArr [JObj [(''content'', JStr ''a''), (''role'', JStr ''user'')],
                            JObj [(''id'', JStr ''i1''), (''type'', JStr ''item_reference'')]]),
            (''model'', JStr ''m'')])
   = Inr (VModel ''ResponsesCreate''
         [(''input'', VList [VDict [(''content'', VStr ''a''), (''role'', VStr ''user'')],
                            VDict [(''id'', VStr ''i1''), (''type'', VStr ''item_reference'')]]),
          (''model'', VStr ''m''),
          (''include'', VNone), (''instructions'', VNone),
          (''max_output_tokens'', VNone), (''metadata'', VNone),
          (''parallel_tool_calls'', VBool True),
          (''previous_response_id'', VNone), (''reasoning'', VNone),
          (''store'', VBool True), (''stream'', VBool False),
          (''temperature'', VNone), (''text'', VNone),
          (''tool_choice'', VNone), (''tools'', VNone), (''top_p'', VFloat 1),
          (''truncation'', VStr ''disabled''), (''user'', VNone)]
         [''input'', ''model''])"
  by (simp add: ResponsesCreate_def param_defs build_model_def build_dict_def build_list_def)

theorem input_kept_in_order_witness:
  "\<exists>ys. field_value (VModel ''ResponsesCreate''
         [(''input'', VList [VDict [(''content'', VStr ''a''), (''role'', VStr ''user'')],
                            VDict [(''id'', VStr ''i1''), (''type'', VStr ''item_reference'')]]),
          (''model'', VStr ''m''),
          (''include'', VNone), (''instructions'', VNone),
          (''max_output_tokens'', VNone), (''metadata'', VNone),
          (''parallel_tool_calls'', VBool True),
          (''previous_response_id'', VNone), (''reasoning'', VNone),
          (''store'', VBool True), (''stream'', VBool False),
          (''temperature'', VNone), (''text'', VNone),
          (''tool_choice'', VNone), (''tools'', VNone), (''top_p'', VFloat 1),
          (''truncation'', VStr ''disabled''), (''user'', VNone)]
         [''input'', ''model'']) ''input'' = Some (VList ys)
     \<and> length ys = 2
     \<and> validate ResponseInputItemParam
           (JObj [(''content'', JStr ''a''), (''role'', JStr ''user'')]) = Inr (ys ! 0)
     \<and> validate ResponseInputItemParam
           (JObj [(''id'', JStr ''i1''), (''type'', JStr ''item_reference'')]) = Inr (ys ! 1)"
proof -
  let ?xs = "[JObj [(''content'', JStr ''a''), (''role'', JStr ''user'')],
              JObj [(''id'', JStr ''i1''), (''type'', JStr ''item_reference'')]]"
  from input_kept_in_order [of _ "''m''" ?xs] two_items
  obtain ys where ys: "field_value (VModel ''ResponsesCreate''
         [(''input'', VList [VDict [(''content'', VStr ''a''), (''role'', VStr ''user'')],
                            VDict [(''id'', VStr ''i1''), (''type'', VStr ''item_reference'')]]),
          (''model'', VStr ''m''),
          (''include'', VNone), (''instructions'', VNone),
          (''max_output_tokens'', VNone), (''metadata'', VNone),
          (''parallel_tool_calls'', VBool True),
          (''previous_response_id'', VNone), (''reasoning'', VNone),
          (''store'', VBool True), (''stream'', VBool False),
          (''temperature'', VNone), (''text'', VNone),
          (''tool_choice'', VNone), (''tools'', VNone), (''top_p'', VFloat 1),
          (''truncation'', VStr ''disabled''), (''user'', VNone)]
         [''input'', ''model'']) ''input'' = Some (VList ys)"
     "length ys = length ?xs"
     "\<forall>i < length ?xs. validate ResponseInputItemParam (?xs ! i) = Inr (ys ! i)"
    by blast
  have "(0::nat) < length ?xs" and "(1::nat) < length ?xs" by simp_all
  with ys(3) have "validate ResponseInputItemParam (?xs ! 0) = Inr (ys ! 0)"
    and "validate ResponseInputItemParam (?xs ! 1) = Inr (ys ! 1)"
    by blast+
  with ys(1,2) show ?thesis by auto
qed

text \<open>
  Claim C9 as stated fails: decoding the input \<^verbatim>\<open>"hello"\<close> yields no list of items,
  hence no message item.
\<close>

theorem bare_string_not_wrapped:
  "\<not> (\<exists>r items. validate ResponsesCreate
           (JObj [(''input'', JStr ''hello''), (''model'', JStr ''m'')]) = Inr r
         \<and> field_value r ''input'' = Some (VList items))"
  by (simp add: input_string)

section \<open>Tool choice and the tool catalogue\<close>

lemma tools_override:
  assumes "validate ResponsesCreate (JObj kv) = Inr r"
  shows "\<exists>r'. validate ResponsesCreate (JObj ((''tools'', JArr ts) # kv)) = Inr r'"
proof -
  have "\<forall>f \<in> set [fld ''input'' (TUnion [TStr, ResponseInputParam]) Required,
      fld ''model'' TStr Required,
      fld ''include'' (TOptional (TList ResponseIncludable)) (Default VNone),
      fld ''instructions'' (TOptional TStr) (Default VNone),
      fld ''max_output_tokens'' (TOptional TInt) (Default VNone),
      fld ''metadata'' (TOptional Metadata) (Default VNone),
      fld ''parallel_tool_calls'' (TOptional TBool) (Default (VBool True)),
      fld ''previous_response_id'' (TOptional TStr) (Default VNone),
      fld ''reasoning'' (TOptional Reasoning) (Default VNone),
      fld ''store'' (TOptional TBool) (Default (VBool True)),
      fld ''stream'' (TOptional TBool) (Default (VBool False)),
      fld ''temperature'' (TOptional TFloat) (Default VNone),
      fld ''text'' (TOptional (TDict TStr)) (Default VNone),
      fld ''tool_choice'' (TOptional ToolChoice) (Default VNone),
      fld ''tools'' (TOptional (TIterable ToolParam)) (Default VNone),
      fld ''top_p'' (TOptional TFloat) (Default (VFloat 1)),
      fld ''truncation'' (TOptional (TLiteral [''auto'', ''disabled'']))
        (Default (VStr ''disabled'')),
      fld ''user'' (TOptional TStr) (Default VNone)].
      fkey f = ''tools'' \<longrightarrow> \<not> isl (validate (fty f) (JArr ts))"
    by simp
  from model_key_override [OF assms [unfolded ResponsesCreate_def] this]
  show ?thesis by (simp only: ResponsesCreate_def)
qed

text \<open>
  Claim C7, as the code has it. \<^verbatim>\<open>ResponsesCreate\<close> declares \<^verbatim>\<open>tool_choice\<close> and
  \<^verbatim>\<open>tools\<close> as two independent optional fields and has no validator that relates
  them. A request whose \<^verbatim>\<open>tool_choice\<close> names the function \<open>f\<close> decodes whatever the
  \<^verbatim>\<open>tools\<close> array holds, and also without a \<^verbatim>\<open>tools\<close> key; in particular it decodes
  when a tool named \<open>f\<close> is declared. More generally, every request that decodes still
  decodes when its \<^verbatim>\<open>tools\<close> are replaced by any array (a key is read at its first
  entry).
\<close>

theorem tool_choice_not_cross_checked:
  "validate ResponsesCreate
     (JObj [(''input'', JStr s), (''model'', JStr m),
            (''tool_choice'', JObj [(''type'', JStr ''function''), (''name'', JStr f)]),
            (''tools'', JArr ts)])
   = Inr (VModel ''ResponsesCreate''
       [(''input'', VStr s), (''model'', VStr m), (''include'', VNone),
        (''instructions'', VNone), (''max_output_tokens'', VNone),
        (''metadata'', VNone), (''parallel_tool_calls'', VBool True),
        (''previous_response_id'', VNone), (''reasoning'', VNone),
        (''store'', VBool True), (''stream'', VBool False),
        (''temperature'', VNone), (''text'', VNone),
        (''tool_choice'',
         VModel ''ToolChoiceFunction''
          [(''name'', VStr f), (''type'', VStr ''function'')] [''name'', ''type'']),
        (''tools'', VIter ts), (''top_p'', VFloat 1),
        (''truncation'', VStr ''disabled''), (''user'', VNone)]
       [''input'', ''model'', ''tool_choice'', ''tools''])
   \<and> validate ResponsesCreate
     (JObj [(''input'', JStr s), (''model'', JStr m),
            (''tool_choice'', JObj [(''type'', JStr ''function''), (''name'', JStr f)])])
   = Inr (VModel ''ResponsesCreate''
       [(''input'', VStr s), (''model'', VStr m), (''include'', VNone),
        (''instructions'', VNone), (''max_output_tokens'', VNone),
        (''metadata'', VNone), (''parallel_tool_calls'', VBool True),
        (''previous_response_id'', VNone), (''reasoning'', VNone),
        (''store'', VBool True), (''stream'', VBool False),
        (''temperature'', VNone), (''text'', VNone),
        (''tool_choice'',
         VModel ''ToolChoiceFunction''
          [(''name'', VStr f), (''type'', VStr ''function'')] [''name'', ''type'']),
        (''tools'', VNone), (''top_p'', VFloat 1),
        (''truncation'', VStr ''disabled''), (''user'', VNone)]
       [''input'', ''model'', ''tool_choice''])
   \<and> (\<forall>kv r. validate ResponsesCreate (JObj kv) = Inr r \<longrightarrow>
        (\<exists>r'. validate ResponsesCreate (JObj ((''tools'', JArr ts) # kv)) = Inr r'))"
proof (intro conjI allI impI)
  fix kv r
  assume "validate ResponsesCreate (JObj kv) = Inr r"
  from tools_override [OF this]
  show "\<exists>r'. validate ResponsesCreate (JObj ((''tools'', JArr ts) # kv)) = Inr r'" .
qed (simp_all add: ResponsesCreate_def ToolChoice_def ToolChoiceOptions_def
       ToolChoiceFunction_def build_model_def)

theorem tool_choice_not_cross_checked_witness:
  "(\<exists>r. validate ResponsesCreate
          (JObj [(''input'', JStr ''hi''), (''model'', JStr ''m''),
                 (''tool_choice'', JObj [(''type'', JStr ''function''), (''name'', JStr ''f'')])])
        = Inr r)
   \<and> (\<exists>r'. validate ResponsesCreate
          (JObj [(''tools'', JArr [JObj [(''type'', JStr ''function''), (''name'', JStr ''g''),
                                        (''parameters'', JObj []), (''strict'', JBool True)]]),
                 (''input'', JStr ''hi''), (''model'', JStr ''m''),
                 (''tool_choice'', JObj [(''type'', JStr ''function''), (''name'', JStr ''f'')])])
        = Inr r')"
proof -
  note t = tool_choice_not_cross_checked
    [where s = "''hi''" and m = "''m''" and f = "''f''"
       and ts = "[JObj [(''type'', JStr ''function''), (''name'', JStr ''g''),
                        (''parameters'', JObj []), (''strict'', JBool True)]]"]
  from t [THEN conjunct2, THEN conjunct1]
  have a: "\<exists>r. validate ResponsesCreate
          (JObj [(''input'', JStr ''hi''), (''model'', JStr ''m''),
                 (''tool_choice'', JObj [(''type'', JStr ''function''), (''name'', JStr ''f'')])])
        = Inr r"
    by (rule exI)
  with t [THEN conjunct2, THEN conjunct2] show ?thesis by blast
qed


text \<open>
  Claim C7 as stated fails: the only declared tool is the function \<^verbatim>\<open>g\<close>, the tool
  choice names \<^verbatim>\<open>f\<close>, and the request decodes.
\<close>

theorem unknown_tool_choice_accepted:
  "\<exists>r. validate ResponsesCreate
     (JObj [(''input'', JStr ''hi''), (''model'', JStr ''m''),
            (''tool_choice'', JObj [(''type'', JStr ''function''), (''name'', JStr ''f'')]),
            (''tools'', JArr [JObj [(''type'', JStr ''function''), (''name'', JStr ''g''),
                                   (''parameters'', JObj []), (''strict'', JBool True)]])])
      = Inr r"
  by (simp add: ResponsesCreate_def ToolChoice_def ToolChoiceOptions_def ToolChoiceFunction_def
        build_model_def)

section \<open>Input images\<close>

text \<open>
  Claim C8, as the code has it. \<^verbatim>\<open>ResponseInputImageParam\<close> requires \<^verbatim>\<open>detail\<close>
  and \<^verbatim>\<open>type\<close>; \<^verbatim>\<open>file_id\<close> and \<^verbatim>\<open>image_url\<close> are two independent optional
  keys. With a detail level of the enumeration, an input-image part decodes when both
  are supplied, when one is, and when neither is.
\<close>

theorem input_image_fields_independent:
  assumes "d \<in> set [''high'', ''low'', ''auto'']"
  shows "validate ResponseInputContentParam
           (JObj [(''type'', JStr ''input_image''), (''detail'', JStr d),
                  (''file_id'', JStr a), (''image_url'', JStr b)])
         = Inr (VDict [(''detail'', VStr d), (''type'', VStr ''input_image''),
                       (''file_id'', VStr a), (''image_url'', VStr b)])
       \<and> validate ResponseInputContentParam
           (JObj [(''type'', JStr ''input_image''), (''detail'', JStr d), (''file_id'', JStr a)])
         = Inr (VDict [(''detail'', VStr d), (''type'', VStr ''input_image''),
                       (''file_id'', VStr a)])
       \<and> validate ResponseInputContentParam
           (JObj [(''type'', JStr ''input_image''), (''detail'', JStr d), (''image_url'', JStr b)])
         = Inr (VDict [(''detail'', VStr d), (''type'', VStr ''input_image''),
                       (''image_url'', VStr b)])
       \<and> validate ResponseInputContentParam
           (JObj [(''type'', JStr ''input_image''), (''detail'', JStr d)])
         = Inr (VDict [(''detail'', VStr d), (''type'', VStr ''input_image'')])"
  using assms
  by (auto simp add: ResponseInputContentParam_def ResponseInputTextParam_def
        ResponseInputImageParam_def ResponseInputFileParam_def build_dict_def)

theorem input_image_fields_independent_witness:
  "''auto'' \<in> set [''high'', ''low'', ''auto'']
   \<and> validate ResponseInputContentParam
        (JObj [(''type'', JStr ''input_image''), (''detail'', JStr ''auto'')])
      = Inr (VDict [(''detail'', VStr ''auto''), (''type'', VStr ''input_image'')])"
proof -
  have d: "''auto'' \<in> set [''high'', ''low'', ''auto'']" by simp
  from input_image_fields_independent [OF d] d show ?thesis by blast
qed

text \<open>
  Claim C8 as stated fails: a part that supplies both \<^verbatim>\<open>file_id\<close> and
  \<^verbatim>\<open>image_url\<close> decodes, and so does a part that supplies neither.
\<close>

theorem input_image_both_or_neither_accepted:
  "validate ResponseInputContentParam
     (JObj [(''type'', JStr ''input_image''), (''detail'', JStr ''auto''),
            (''file_id'', JStr ''file_1''), (''image_url'', JStr ''https://example.com/a.png'')])
   = Inr (VDict [(''detail'', VStr ''auto''), (''type'', VStr ''input_image''),
                 (''file_id'', VStr ''file_1''),
                 (''image_url'', VStr ''https://example.com/a.png'')])
   \<and> validate ResponseInputContentParam
     (JObj [(''type'', JStr ''input_image''), (''detail'', JStr ''auto'')])
   = Inr (VDict [(''detail'', VStr ''auto''), (''type'', VStr ''input_image'')])"
  by (simp add: ResponseInputContentParam_def ResponseInputTextParam_def
        ResponseInputImageParam_def ResponseInputFileParam_def build_dict_def)

section \<open>Status, error and incomplete details of a response\<close>

lemma Response_fields:
  "\<exists>fs. Response = TModel ''Response'' fs \<and> distinct (map fname fs)
     \<and> fld ''status'' (TLiteral [''completed'', ''failed'', ''in_progress'', ''incomplete''])
           Required \<in> set fs"
  by (simp add: Response_def)

lemma model_input_is_object:
  "validate (TModel n fs) j = Inr r \<Longrightarrow> \<exists>kv. j = JObj kv"
  by (cases j) auto

lemma response_status_literal:
  assumes "validate Response j = Inr r"
  shows "\<exists>s \<in> set [''completed'', ''failed'', ''in_progress'', ''incomplete''].
           field_value r ''status'' = Some (VStr s)"
proof -
  from Response_fields obtain fs where
    fs: "Response = TModel ''Response'' fs" and d: "distinct (map fname fs)"
    and f: "fld ''status'' (TLiteral [''completed'', ''failed'', ''in_progress'', ''incomplete''])
           Required \<in> set fs"
    by blast
  from assms have ok: "validate (TModel ''Response'' fs) j = Inr r" by (simp only: fs)
  from model_input_is_object [OF ok] obtain kv where "j = JObj kv" ..
  with ok have "validate (TModel ''Response'' fs) (JObj kv) = Inr r" by simp
  from model_literal [OF this f d] show ?thesis .
qed

lemma response_without_error:
  assumes "st \<in> set [''completed'', ''failed'', ''in_progress'', ''incomplete'']"
  shows "validate Response
     (JObj [(''created_at'', JFloat t), (''id'', JStr i), (''model'', JStr m),
            (''object'', JStr ''response''), (''output'', JArr []),
            (''parallel_tool_calls'', JBool p), (''status'', JStr st),
            (''tool_choice'', JStr ''auto''), (''tools'', JArr [])])
   = Inr (VModel ''Response''
       [(''created_at'', VFloat t), (''error'', VNone), (''id'', VStr i),
        (''incomplete_details'', VNone), (''instructions'', VNone),
        (''max_output_tokens'', VNone), (''metadata'', VNone), (''model'', VStr m),
        (''object'', VStr ''response''), (''output'', VList []),
        (''parallel_tool_calls'', VBool p), (''previous_response_id'', VNone),
        (''reasoning'', VNone), (''status'', VStr st), (''temperature'', VNone),
        (''text'', VNone), (''tool_choice'', VStr ''auto''), (''tools'', VList []),
        (''top_p'', VNone), (''truncation'', VStr ''disabled''), (''usage'', VNone),
        (''user'', VNone)]
       [''created_at'', ''id'', ''model'', ''object'', ''output'', ''parallel_tool_calls'',
        ''status'', ''tool_choice'', ''tools''])"
  using assms
  by (auto simp add: Response_def ToolChoice_def ToolChoiceOptions_def ToolChoiceFunction_def
        build_model_def build_list_def)

lemma response_without_reason:
  assumes "st \<in> set [''completed'', ''failed'', ''in_progress'', ''incomplete'']"
  shows "validate Response
     (JObj [(''created_at'', JFloat t), (''id'', JStr i),
            (''incomplete_details'', JObj []), (''model'', JStr m),
            (''object'', JStr ''response''), (''output'', JArr []),
            (''parallel_tool_calls'', JBool p), (''status'', JStr st),
            (''tool_choice'', JStr ''auto''), (''tools'', JArr [])])
   = Inr (VModel ''Response''
       [(''created_at'', VFloat t), (''error'', VNone), (''id'', VStr i),
        (''incomplete_details'', VModel ''IncompleteDetails'' [(''reason'', VNone)] []),
        (''instructions'', VNone),
        (''max_output_tokens'', VNone), (''metadata'', VNone), (''model'', VStr m),
        (''object'', VStr ''response''), (''output'', VList []),
        (''parallel_tool_calls'', VBool p), (''previous_response_id'', VNone),
        (''reasoning'', VNone), (''status'', VStr st), (''temperature'', VNone),
        (''text'', VNone), (''tool_choice'', VStr ''auto''), (''tools'', VList []),
        (''top_p'', VNone), (''truncation'', VStr ''disabled''), (''usage'', VNone),
        (''user'', VNone)]
       [''created_at'', ''id'', ''incomplete_details'', ''model'', ''object'', ''output'',
        ''parallel_tool_calls'', ''status'', ''tool_choice'', ''tools''])"
  using assms
  by (auto simp add: Response_def ToolChoice_def ToolChoiceOptions_def ToolChoiceFunction_def
        IncompleteDetails_def build_model_def build_list_def)

lemma error_override:
  assumes "validate Response (JObj kv) = Inr r"
  shows "\<exists>r'. validate Response (JObj ((''error'', JNull) # kv)) = Inr r'
           \<and> field_value r' ''error'' = Some VNone
           \<and> field_value r' ''status'' = field_value r ''status''"
proof -
  let ?fs = "[fld ''created_at'' TFloat Required,
      fld ''error'' (TOptional ResponseError) (Default VNone),
      fld ''id'' TStr Required,
      fld ''incomplete_details'' (TOptional IncompleteDetails) (Default VNone),
      fld ''instructions'' (TOptional TStr) (Default VNone),
      fld ''max_output_tokens'' (TOptional TInt) (Default VNone),
      fld ''metadata'' (TOptional Metadata) (Default VNone),
      fld ''model'' TStr Required,
      fld ''object'' (TLiteral [''response'']) Required,
      fld ''output'' (TList ResponseOutputItem) Required,
      fld ''parallel_tool_calls'' TBool Required,
      fld ''previous_response_id'' (TOptional TStr) (Default VNone),
      fld ''reasoning'' (TOptional Reasoning) (Default VNone),
      fld ''status'' (TLiteral [''completed'', ''failed'', ''in_progress'', ''incomplete''])
        Required,
      fld ''temperature'' (TOptional TFloat) (Default VNone),
      fld ''text'' (TOptional ResponseTextConfig) (Default VNone),
      fld ''tool_choice'' ToolChoice Required,
      fld ''tools'' (TList Tool) Required,
      fld ''top_p'' (TOptional TFloat) (Default VNone),
      fld ''truncation'' (TOptional (TLiteral [''auto'', ''disabled'']))
        (Default (VStr ''disabled'')),
      fld ''usage'' (TOptional ResponseUsage) (Default VNone),
      fld ''user'' (TOptional TStr) (Default VNone)]"
  have R: "Response = TModel ''Response'' ?fs" by (simp only: Response_def)
  from assms have ok: "validate (TModel ''Response'' ?fs) (JObj kv) = Inr r"
    by (simp only: R)
  have "\<forall>f \<in> set ?fs. fkey f = ''error'' \<longrightarrow> \<not> isl (validate (fty f) JNull)"
    by simp
  from model_key_override [OF ok this] obtain r' where
    ok': "validate (TModel ''Response'' ?fs) (JObj ((''error'', JNull) # kv)) = Inr r'" ..
  have d: "distinct (map fname ?fs)" by simp
  have e: "fld ''error'' (TOptional ResponseError) (Default VNone) \<in> set ?fs" by simp
  have s: "fld ''status'' (TLiteral [''completed'', ''failed'', ''in_progress'', ''incomplete''])
        Required \<in> set ?fs" by simp
  have n: "validate (TOptional ResponseError) JNull = Inr VNone" by simp
  have c: "''status'' \<noteq> ''error''" by simp
  from model_key_override_self [OF ok' e d n] have 1: "field_value r' ''error'' = Some VNone" .
  from model_key_override_other [OF ok ok' s c d]
  have 2: "field_value r' ''status'' = field_value r ''status''" .
  from ok' 1 2 show ?thesis by (simp only: R) blast
qed

text \<open>
  Claim C3, as the code has it. Every constructed \<^verbatim>\<open>Response\<close> has a status among
  \<^verbatim>\<open>completed\<close>, \<^verbatim>\<open>failed\<close>, \<^verbatim>\<open>in_progress\<close> and \<^verbatim>\<open>incomplete\<close>.
  \<^verbatim>\<open>error\<close>, \<^verbatim>\<open>incomplete_details\<close> and \<^verbatim>\<open>IncompleteDetails.reason\<close> are
  declared \<^verbatim>\<open>Optional[...] = None\<close> and no validator relates them to the status: with
  each of the four statuses a \<^verbatim>\<open>Response\<close> without error and without incomplete
  details is constructed, and so is one whose incomplete details hold no reason; and every
  record from which a \<^verbatim>\<open>Response\<close> is constructed still constructs one, of the same
  status and without error, when it is given \<^verbatim>\<open>"error": null\<close>.
\<close>

theorem response_error_independent_of_status:
  "(\<forall>j r. validate Response j = Inr r \<longrightarrow>
      (\<exists>s \<in> set [''completed'', ''failed'', ''in_progress'', ''incomplete''].
         field_value r ''status'' = Some (VStr s)))
   \<and> (\<forall>st \<in> set [''completed'', ''failed'', ''in_progress'', ''incomplete''].
        \<exists>r. validate Response
               (JObj [(''created_at'', JFloat t), (''id'', JStr i), (''model'', JStr m),
                      (''object'', JStr ''response''), (''output'', JArr []),
                      (''parallel_tool_calls'', JBool p), (''status'', JStr st),
                      (''tool_choice'', JStr ''auto''), (''tools'', JArr [])]) = Inr r
           \<and> field_value r ''status'' = Some (VStr st)
           \<and> field_value r ''error'' = Some VNone
           \<and> field_value r ''incomplete_details'' = Some VNone)
   \<and> (\<forall>st \<in> set [''completed'', ''failed'', ''in_progress'', ''incomplete''].
        \<exists>r. validate Response
               (JObj [(''created_at'', JFloat t), (''id'', JStr i),
                      (''incomplete_details'', JObj []), (''model'', JStr m),
                      (''object'', JStr ''response''), (''output'', JArr []),
                      (''parallel_tool_calls'', JBool p), (''status'', JStr st),
                      (''tool_choice'', JStr ''auto''), (''tools'', JArr [])]) = Inr r
           \<and> field_value r ''status'' = Some (VStr st)
           \<and> field_value r ''incomplete_details''
               = Some (VModel ''IncompleteDetails'' [(''reason'', VNone)] []))
   \<and> (\<forall>kv r. validate Response (JObj kv) = Inr r \<longrightarrow>
        (\<exists>r'. validate Response (JObj ((''error'', JNull) # kv)) = Inr r'
           \<and> field_value r' ''error'' = Some VNone
           \<and> field_value r' ''status'' = field_value r ''status''))"
proof (intro conjI allI impI ballI)
  fix j r
  assume "validate Response j = Inr r"
  from response_status_literal [OF this]
  show "\<exists>s \<in> set [''completed'', ''failed'', ''in_progress'', ''incomplete''].
          field_value r ''status'' = Some (VStr s)" .
next
  fix st :: string
  assume st: "st \<in> set [''completed'', ''failed'', ''in_progress'', ''incomplete'']"
  show "\<exists>r. validate Response
               (JObj [(''created_at'', JFloat t), (''id'', JStr i), (''model'', JStr m),
                      (''object'', JStr ''response''), (''output'', JArr []),
                      (''parallel_tool_calls'', JBool p), (''status'', JStr st),
                      (''tool_choice'', JStr ''auto''), (''tools'', JArr [])]) = Inr r
           \<and> field_value r ''status'' = Some (VStr st)
           \<and> field_value r ''error'' = Some VNone
           \<and> field_value r ''incomplete_details'' = Some VNone"
    by (simp only: response_without_error [OF st]) simp
next
  fix st :: string
  assume st: "st \<in> set [''completed'', ''failed'', ''in_progress'', ''incomplete'']"
  show "\<exists>r. validate Response
               (JObj [(''created_at'', JFloat t), (''id'', JStr i),
                      (''incomplete_details'', JObj []), (''model'', JStr m),
                      (''object'', JStr ''response''), (''output'', JArr []),
                      (''parallel_tool_calls'', JBool p), (''status'', JStr st),
                      (''tool_choice'', JStr ''auto''), (''tools'', JArr [])]) = Inr r
           \<and> field_value r ''status'' = Some (VStr st)
           \<and> field_value r ''incomplete_details''
               = Some (VModel ''IncompleteDetails'' [(''reason'', VNone)] [])"
    by (simp only: response_without_reason [OF st]) simp
next
  fix kv r
  assume "validate Response (JObj kv) = Inr r"
  from error_override [OF this]
  show "\<exists>r'. validate Response (JObj ((''error'', JNull) # kv)) = Inr r'
           \<and> field_value r' ''error'' = Some VNone
           \<and> field_value r' ''status'' = field_value r ''status''" .
qed

theorem response_error_independent_of_status_witness:
  "''incomplete'' \<in> set [''completed'', ''failed'', ''in_progress'', ''incomplete'']
   \<and> (\<exists>r. validate Response
               (JObj [(''created_at'', JFloat 1), (''id'', JStr ''resp_1''),
                      (''incomplete_details'', JObj []), (''model'', JStr ''m''),
                      (''object'', JStr ''response''), (''output'', JArr []),
                      (''parallel_tool_calls'', JBool True), (''status'', JStr ''incomplete''),
                      (''tool_choice'', JStr ''auto''), (''tools'', JArr [])]) = Inr r
           \<and> field_value r ''status'' = Some (VStr ''incomplete'')
           \<and> field_value r ''incomplete_details''
               = Some (VModel ''IncompleteDetails'' [(''reason'', VNone)] []))
   \<and> (\<exists>r'. validate Response
               (JObj [(''error'', JNull),
                      (''created_at'', JFloat 1), (''id'', JStr ''resp_1''),
                      (''incomplete_details'', JObj []), (''model'', JStr ''m''),
                      (''object'', JStr ''response''), (''output'', JArr []),
                      (''parallel_tool_calls'', JBool True), (''status'', JStr ''incomplete''),
                      (''tool_choice'', JStr ''auto''), (''tools'', JArr [])]) = Inr r'
           \<and> field_value r' ''error'' = Some VNone
           \<and> field_value r' ''status'' = Some (VStr ''incomplete''))"
proof -
  let ?kv = "[(''created_at'', JFloat 1), (''id'', JStr ''resp_1''),
              (''incomplete_details'', JObj []), (''model'', JStr ''m''),
              (''object'', JStr ''response''), (''output'', JArr []),
              (''parallel_tool_calls'', JBool True), (''status'', JStr ''incomplete''),
              (''tool_choice'', JStr ''auto''), (''tools'', JArr [])]"
  note t = response_error_independent_of_status [of 1 "''resp_1''" "''m''" True]
  have st: "''incomplete'' \<in> set [''completed'', ''failed'', ''in_progress'', ''incomplete'']"
    by simp
  from t [THEN conjunct2, THEN conjunct2, THEN conjunct1] st obtain r where
    r: "validate Response (JObj ?kv) = Inr r"
      "field_value r ''status'' = Some (VStr ''incomplete'')"
      "field_value r ''incomplete_details''
         = Some (VModel ''IncompleteDetails'' [(''reason'', VNone)] [])"
    by blast
  from t [THEN conjunct2, THEN conjunct2, THEN conjunct2] r(1) obtain r' where
    r': "validate Response (JObj ((''error'', JNull) # ?kv)) = Inr r'"
      "field_value r' ''error'' = Some VNone"
      "field_value r' ''status'' = field_value r ''status''"
    by blast
  from r'(3) r(2) have "field_value r' ''status'' = Some (VStr ''incomplete'')" by simp
  with st r r'(1,2) show ?thesis by blast
qed

text \<open>
  Claim C3 as stated fails: this \<^verbatim>\<open>Response\<close> has the status \<^verbatim>\<open>failed\<close> and no
  error, and it is constructed.
\<close>

theorem failed_response_without_error:
  "\<exists>r. validate Response
          (JObj [(''created_at'', JFloat 1), (''id'', JStr ''resp_1''), (''model'', JStr ''m''),
                 (''object'', JStr ''response''), (''output'', JArr []),
                 (''parallel_tool_calls'', JBool True), (''status'', JStr ''failed''),
                 (''tool_choice'', JStr ''auto''), (''tools'', JArr [])]) = Inr r
      \<and> field_value r ''status'' = Some (VStr ''failed'')
      \<and> field_value r ''error'' = Some VNone"
proof -
  have st: "''failed'' \<in> set [''completed'', ''failed'', ''in_progress'', ''incomplete'']"
    by simp
  show ?thesis by (simp only: response_without_error [OF st]) simp
qed

section \<open>Filters\<close>

lemma first_success_second:
  "isl ra \<Longrightarrow> first_success [(la, ra), (lb, Inr v)] = Inr v"
  by (cases ra) auto

lemma object_member_accepts:
  "\<exists>v. validate (TUnion [t, TObject]) x = Inr v"
  by (cases "validate t x") auto

lemma compound_accepts:
  "\<exists>v. validate CompoundFilter (JObj [(''type'', JStr ''and''), (''filters'', JArr [x])]) = Inr v"
proof -
  from object_member_accepts obtain e where
    e: "validate (TUnion [ComparisonFilter, TObject]) x = Inr e" by blast
  have "validate CompoundFilter (JObj [(''type'', JStr ''and''), (''filters'', JArr [x])])
        = Inr (VModel ''CompoundFilter'' [(''filters'', VList [e]), (''type'', VStr ''and'')]
                 [''filters'', ''type''])"
    using e by (simp add: CompoundFilter_def build_model_def build_list_def del: validate.simps(11))
  then show ?thesis by blast
qed

lemma comparison_rejects_compound:
  "isl (validate ComparisonFilter (JObj [(''type'', JStr ''and''), (''filters'', JArr [x])]))"
  by (simp add: ComparisonFilter_def build_model_def)

lemma filter_union_accepts:
  "\<exists>v. validate (TUnion [ComparisonFilter, CompoundFilter]) (nested_filter n) = Inr v"
proof (cases n)
  case 0
  then show ?thesis
    by (simp add: ComparisonFilter_def CompoundFilter_def build_model_def)
next
  case (Suc k)
  from compound_accepts obtain v where
    v: "validate CompoundFilter (JObj [(''type'', JStr ''and''), (''filters'', JArr [nested_filter k])])
          = Inr v" by blast
  have "validate (TUnion [ComparisonFilter, CompoundFilter]) (nested_filter (Suc k)) = Inr v"
    using first_success_second [OF comparison_rejects_compound] v
    by (simp del: validate.simps(13))
  with Suc show ?thesis by blast
qed

lemma nested_filter_object: "\<exists>kv. nested_filter n = JObj kv"
  by (cases n) auto

lemma file_search_tool_nested:
  "\<exists>r. validate FileSearchTool
          (JObj [(''type'', JStr ''file_search''), (''vector_store_ids'', JArr []),
                 (''filters'', nested_filter n)]) = Inr r"
proof -
  from filter_union_accepts obtain v where
    v: "validate (TUnion [ComparisonFilter, CompoundFilter]) (nested_filter n) = Inr v" by blast
  from nested_filter_object obtain kv where kv: "nested_filter n = JObj kv" by blast
  have "validate (TOptional (TUnion [ComparisonFilter, CompoundFilter])) (nested_filter n) = Inr v"
    using v unfolding kv by (simp del: validate.simps(11))
  then have "validate FileSearchTool
          (JObj [(''type'', JStr ''file_search''), (''vector_store_ids'', JArr []),
                 (''filters'', nested_filter n)])
        = Inr (VModel ''FileSearchTool''
            [(''type'', VStr ''file_search''), (''vector_store_ids'', VList []),
             (''filters'', v), (''max_num_results'', VNone), (''ranking_options'', VNone)]
            [''type'', ''vector_store_ids'', ''filters''])"
    by (simp add: FileSearchTool_def build_model_def build_list_def
          del: validate.simps(7) validate.simps(11))
  then show ?thesis by blast
qed

lemma file_search_tool_param_nested:
  "\<exists>r. validate FileSearchToolParam
          (JObj [(''type'', JStr ''file_search''), (''vector_store_ids'', JArr []),
                 (''filters'', nested_filter n)]) = Inr r"
  by (cases n)
     (simp_all add: FileSearchToolParam_def ComparisonFilter_param_def CompoundFilter_param_def
        build_dict_def build_list_def)

text \<open>
  Claim C5, as the code has it. The declarations hold no depth bound and the validator
  counts no depth: a file-search tool whose filter is nested \<open>n\<close> levels deep decodes for
  every \<open>n\<close>, 16 and 17 included, both as the \<^verbatim>\<open>FileSearchTool\<close> of a response and as
  the \<^verbatim>\<open>FileSearchToolParam\<close> of a request.
\<close>

theorem filter_depth_unbounded:
  "(\<exists>r. validate FileSearchTool
          (JObj [(''type'', JStr ''file_search''), (''vector_store_ids'', JArr []),
                 (''filters'', nested_filter n)]) = Inr r)
   \<and> (\<exists>r. validate FileSearchToolParam
          (JObj [(''type'', JStr ''file_search''), (''vector_store_ids'', JArr []),
                 (''filters'', nested_filter n)]) = Inr r)"
  using file_search_tool_nested file_search_tool_param_nested by blast

text \<open>Claim C5 as stated fails: a filter nested 17 levels deep decodes.\<close>

theorem filter_of_depth_17_accepted:
  "\<exists>r. validate FileSearchTool
          (JObj [(''type'', JStr ''file_search''), (''vector_store_ids'', JArr []),
                 (''filters'', nested_filter 17)]) = Inr r"
  by (simp add: eval_nat_numeral FileSearchTool_def ComparisonFilter_def CompoundFilter_def
        build_model_def build_list_def)

section \<open>What the declarations do not check\<close>

lemma file_search_accepts_any_number:
  "validate FileSearchTool
     (JObj [(''type'', JStr ''file_search''), (''vector_store_ids'', JArr []),
            (''max_num_results'', JInt n),
            (''ranking_options'', JObj [(''score_threshold'', JFloat x)])])
   = Inr (VModel ''FileSearchTool''
       [(''type'', VStr ''file_search''), (''vector_store_ids'', VList []),
        (''filters'', VNone), (''max_num_results'', VInt n),
        (''ranking_options'',
         VModel ''RankingOptions'' [(''ranker'', VNone), (''score_threshold'', VFloat x)]
           [''score_threshold''])]
       [''type'', ''vector_store_ids'', ''max_num_results'', ''ranking_options''])"
  by (simp add: FileSearchTool_def RankingOptions_def build_model_def build_list_def)

text \<open>
  Claim C4 holds of the documentation and not of the code. The docstrings of
  \<^verbatim>\<open>FileSearchTool.max_num_results\<close> (\<^verbatim>\<open>This number should be between 1 and 50
  inclusive\<close>) and of \<^verbatim>\<open>RankingOptions.score_threshold\<close> (\<^verbatim>\<open>a number between 0 and
  1\<close>) state the bounds; the fields are declared \<^verbatim>\<open>Optional[int]\<close> and
  \<^verbatim>\<open>Optional[float]\<close> with no constraint: every integer and every number decode
  (\<open>file_search_accepts_any_number\<close>), the values 51, 0, 1.5 and -0.5 among them.
\<close>

theorem file_search_bounds_not_enforced:
  "validate FileSearchTool
     (JObj [(''type'', JStr ''file_search''), (''vector_store_ids'', JArr []),
            (''max_num_results'', JInt 51)])
   = Inr (VModel ''FileSearchTool''
       [(''type'', VStr ''file_search''), (''vector_store_ids'', VList []),
        (''filters'', VNone), (''max_num_results'', VInt 51), (''ranking_options'', VNone)]
       [''type'', ''vector_store_ids'', ''max_num_results''])
   \<and> validate FileSearchTool
     (JObj [(''type'', JStr ''file_search''), (''vector_store_ids'', JArr []),
            (''max_num_results'', JInt 0)])
   = Inr (VModel ''FileSearchTool''
       [(''type'', VStr ''file_search''), (''vector_store_ids'', VList []),
        (''filters'', VNone), (''max_num_results'', VInt 0), (''ranking_options'', VNone)]
       [''type'', ''vector_store_ids'', ''max_num_results''])
   \<and> validate FileSearchTool
     (JObj [(''type'', JStr ''file_search''), (''vector_store_ids'', JArr []),
            (''ranking_options'', JObj [(''score_threshold'', JFloat (3 / 2))])])
   = Inr (VModel ''FileSearchTool''
       [(''type'', VStr ''file_search''), (''vector_store_ids'', VList []),
        (''filters'', VNone), (''max_num_results'', VNone),
        (''ranking_options'',
         VModel ''RankingOptions'' [(''ranker'', VNone), (''score_threshold'', VFloat (3 / 2))]
           [''score_threshold''])]
       [''type'', ''vector_store_ids'', ''ranking_options''])
   \<and> validate FileSearchTool
     (JObj [(''type'', JStr ''file_search''), (''vector_store_ids'', JArr []),
            (''ranking_options'', JObj [(''score_threshold'', JFloat (- 1 / 2))])])
   = Inr (VModel ''FileSearchTool''
       [(''type'', VStr ''file_search''), (''vector_store_ids'', VList []),
        (''filters'', VNone), (''max_num_results'', VNone),
        (''ranking_options'',
         VModel ''RankingOptions'' [(''ranker'', VNone), (''score_threshold'', VFloat (- 1 / 2))]
           [''score_threshold''])]
       [''type'', ''vector_store_ids'', ''ranking_options''])"
  by (simp add: FileSearchTool_def RankingOptions_def build_model_def build_list_def)

text \<open>
  Claim C6 holds of the documentation and not of the code. The docstring of
  \<^verbatim>\<open>CompoundFilter.filters\<close> says \<^verbatim>\<open>Items can be ComparisonFilter or
  CompoundFilter\<close>, and \<^verbatim>\<open>FileSearchTool.filters\<close> is declared with that union; the
  elements are declared \<^verbatim>\<open>Union[ComparisonFilter, object]\<close>, so an element that is
  neither kind of filter decodes and is kept as it was received.
\<close>

theorem compound_filter_accepts_any_element:
  "validate FileSearchTool
     (JObj [(''type'', JStr ''file_search''), (''vector_store_ids'', JArr []),
            (''filters'', JObj [(''type'', JStr ''and''),
                               (''filters'', JArr [JInt 42, JObj [(''foo'', JInt 1)]])])])
   = Inr (VModel ''FileSearchTool''
       [(''type'', VStr ''file_search''), (''vector_store_ids'', VList []),
        (''filters'',
         VModel ''CompoundFilter''
           [(''filters'', VList [VRaw (JInt 42), VRaw (JObj [(''foo'', JInt 1)])]),
            (''type'', VStr ''and'')]
           [''filters'', ''type'']),
        (''max_num_results'', VNone), (''ranking_options'', VNone)]
       [''type'', ''vector_store_ids'', ''filters''])"
  by (simp add: FileSearchTool_def ComparisonFilter_def CompoundFilter_def build_model_def
        build_list_def)

section \<open>Encoding, and the round trip of minimal instances\<close>

lemmas build_defs = build_model_def build_dict_def build_list_def build_entries_def

lemma rt_message:
  "\<forall>st \<in> set [''in_progress'', ''completed'', ''incomplete''].
     round_trips ResponseOutputItem
       (JObj [(''id'', JStr i), (''content'', JArr []), (''role'', JStr ''assistant''),
             (''status'', JStr st), (''type'', JStr ''message'')])"
  by (simp add: round_trips_def response_defs param_defs build_defs)

lemma rt_file_search_call:
  "\<forall>st \<in> set [''in_progress'', ''searching'', ''completed'', ''incomplete'',
                          ''failed''].
     round_trips ResponseOutputItem
       (JObj [(''id'', JStr i), (''queries'', JArr []), (''status'', JStr st),
             (''type'', JStr ''file_search_call'')])"
  by (simp add: round_trips_def response_defs param_defs build_defs)

lemma rt_function_call:
  "round_trips ResponseOutputItem
     (JObj [(''arguments'', JStr args), (''call_id'', JStr c), (''name'', JStr n),
           (''type'', JStr ''function_call'')])"
  by (simp add: round_trips_def response_defs param_defs build_defs)

lemma rt_web_search_call:
  "\<forall>st \<in> set [''in_progress'', ''searching'', ''completed'', ''failed''].
     round_trips ResponseOutputItem
       (JObj [(''id'', JStr i), (''status'', JStr st), (''type'', JStr ''web_search_call'')])"
  by (simp add: round_trips_def response_defs param_defs build_defs)

lemma rt_computer_call:
  "\<forall>st \<in> set [''in_progress'', ''completed'', ''incomplete''].
     round_trips Action act \<longrightarrow>
     round_trips ResponseOutputItem
       (JObj [(''id'', JStr i), (''action'', act), (''call_id'', JStr c),
             (''pending_safety_checks'', JArr []), (''status'', JStr st),
             (''type'', JStr ''computer_call'')])"
proof (intro ballI impI)
  fix st :: string
  assume st: "st \<in> set [''in_progress'', ''completed'', ''incomplete'']"
    and "round_trips Action act"
  then obtain va where va: "validate Action act = Inr va" "encode va = act"
    by (auto simp: round_trips_def split: sum.splits)
  show "round_trips ResponseOutputItem
       (JObj [(''id'', JStr i), (''action'', act), (''call_id'', JStr c),
             (''pending_safety_checks'', JArr []), (''status'', JStr st),
             (''type'', JStr ''computer_call'')])"
    using st va
    by (auto simp add: round_trips_def ResponseOutputItem_def ResponseOutputMessage_def
        ResponseFileSearchToolCall_def ResponseFunctionToolCall_def
        ResponseFunctionWebSearch_def ResponseComputerToolCall_def ResponseReasoningItem_def
        build_defs)
qed

lemma rt_reasoning:
  "round_trips ResponseOutputItem
     (JObj [(''id'', JStr i), (''summary'', JArr []), (''type'', JStr ''reasoning'')])"
  by (simp add: round_trips_def response_defs param_defs build_defs)

lemma rt_output_text:
  "round_trips Content
     (JObj [(''annotations'', JArr []), (''text'', JStr tx), (''type'', JStr ''output_text'')])"
  by (simp add: round_trips_def response_defs param_defs build_defs)

lemma rt_refusal:
  "round_trips Content
     (JObj [(''refusal'', JStr tx), (''type'', JStr ''refusal'')])"
  by (simp add: round_trips_def response_defs param_defs build_defs)

lemma rt_file_citation:
  "round_trips Annotation
     (JObj [(''file_id'', JStr fid), (''index'', JInt k), (''type'', JStr ''file_citation'')])"
  by (simp add: round_trips_def response_defs param_defs build_defs)

lemma rt_url_citation:
  "round_trips Annotation
     (JObj [(''end_index'', JInt e), (''start_index'', JInt b), (''title'', JStr ttl),
           (''type'', JStr ''url_citation''), (''url'', JStr u)])"
  by (simp add: round_trips_def response_defs param_defs build_defs)

lemma rt_file_path:
  "round_trips Annotation
     (JObj [(''file_id'', JStr fid), (''index'', JInt k), (''type'', JStr ''file_path'')])"
  by (simp add: round_trips_def response_defs param_defs build_defs)

lemma rt_click:
  "\<forall>bt \<in> set [''left'', ''right'', ''wheel'', ''back'', ''forward''].
     round_trips Action
       (JObj [(''button'', JStr bt), (''type'', JStr ''click''), (''x'', JInt x),
             (''y'', JInt y)])"
  by (simp add: round_trips_def response_defs param_defs build_defs)

lemma rt_double_click:
  "round_trips Action
     (JObj [(''type'', JStr ''double_click''), (''x'', JInt x), (''y'', JInt y)])"
  by (simp add: round_trips_def response_defs param_defs build_defs)

lemma rt_drag:
  "round_trips Action
     (JObj [(''path'', JArr []), (''type'', JStr ''drag'')])"
  by (simp add: round_trips_def response_defs param_defs build_defs)

lemma rt_keypress:
  "round_trips Action
     (JObj [(''keys'', JArr []), (''type'', JStr ''keypress'')])"
  by (simp add: round_trips_def response_defs param_defs build_defs)

lemma rt_move:
  "round_trips Action
     (JObj [(''type'', JStr ''move''), (''x'', JInt x), (''y'', JInt y)])"
  by (simp add: round_trips_def response_defs param_defs build_defs)

lemma rt_screenshot:
  "round_trips Action
     (JObj [(''type'', JStr ''screenshot'')])"
  by (simp add: round_trips_def response_defs param_defs build_defs)

lemma rt_scroll:
  "round_trips Action
     (JObj [(''scroll_x'', JInt sx), (''scroll_y'', JInt sy), (''type'', JStr ''scroll''),
           (''x'', JInt x), (''y'', JInt y)])"
  by (simp add: round_trips_def response_defs param_defs build_defs)

lemma rt_type:
  "round_trips Action
     (JObj [(''text'', JStr tx), (''type'', JStr ''type'')])"
  by (simp add: round_trips_def response_defs param_defs build_defs)

lemma rt_wait:
  "round_trips Action
     (JObj [(''type'', JStr ''wait'')])"
  by (simp add: round_trips_def response_defs param_defs build_defs)

lemma rt_file_search_tool:
  "round_trips Tool
     (JObj [(''type'', JStr ''file_search''), (''vector_store_ids'', JArr [])])"
  by (simp add: round_trips_def response_defs param_defs build_defs)

lemma rt_function_tool:
  "round_trips Tool
     (JObj [(''name'', JStr n), (''parameters'', JObj []), (''strict'', JBool sb),
           (''type'', JStr ''function'')])"
  by (simp add: round_trips_def response_defs param_defs build_defs)

lemma rt_computer_tool:
  "\<forall>env \<in> set [''mac'', ''windows'', ''ubuntu'', ''browser''].
     round_trips Tool
       (JObj [(''display_height'', JFloat h), (''display_width'', JFloat w),
             (''environment'', JStr env), (''type'', JStr ''computer_use_preview'')])"
  by (simp add: round_trips_def response_defs param_defs build_defs)

lemma rt_web_search_tool:
  "\<forall>wt \<in> set [''web_search_preview'', ''web_search_preview_2025_03_11''].
     round_trips Tool
       (JObj [(''type'', JStr wt)])"
  by (simp add: round_trips_def response_defs param_defs build_defs)

lemma rt_tool_choice_option:
  "\<forall>opt \<in> set [''none'', ''auto'', ''required''].
     round_trips ToolChoice
       (JStr opt)"
  by (simp add: round_trips_def response_defs param_defs build_defs)

lemma rt_tool_choice_function:
  "round_trips ToolChoice
     (JObj [(''name'', JStr n), (''type'', JStr ''function'')])"
  by (simp add: round_trips_def response_defs param_defs build_defs)

lemma rt_comparison_str:
  "\<forall>op \<in> set [''eq'', ''ne'', ''gt'', ''gte'', ''lt'', ''lte''].
     round_trips (TUnion [ComparisonFilter, CompoundFilter])
       (JObj [(''key'', JStr ky), (''type'', JStr op), (''value'', JStr sv)])"
  by (simp add: round_trips_def response_defs param_defs build_defs)

lemma rt_comparison_float:
  "\<forall>op \<in> set [''eq'', ''ne'', ''gt'', ''gte'', ''lt'', ''lte''].
     round_trips (TUnion [ComparisonFilter, CompoundFilter])
       (JObj [(''key'', JStr ky), (''type'', JStr op), (''value'', JFloat fv)])"
  by (simp add: round_trips_def response_defs param_defs build_defs)

lemma rt_comparison_bool:
  "\<forall>op \<in> set [''eq'', ''ne'', ''gt'', ''gte'', ''lt'', ''lte''].
     round_trips (TUnion [ComparisonFilter, CompoundFilter])
       (JObj [(''key'', JStr ky), (''type'', JStr op), (''value'', JBool bv)])"
  by (simp add: round_trips_def response_defs param_defs build_defs)

lemma rt_compound:
  "\<forall>cop \<in> set [''and'', ''or''].
     round_trips (TUnion [ComparisonFilter, CompoundFilter])
       (JObj [(''filters'', JArr []), (''type'', JStr cop)])"
  by (simp add: round_trips_def response_defs param_defs build_defs)

lemma rt_input_text:
  "round_trips ResponseInputContentParam
     (JObj [(''text'', JStr tx), (''type'', JStr ''input_text'')])"
  by (simp add: round_trips_def response_defs param_defs build_defs)

lemma rt_input_image:
  "\<forall>dt \<in> set [''high'', ''low'', ''auto''].
     round_trips ResponseInputContentParam
       (JObj [(''detail'', JStr dt), (''type'', JStr ''input_image'')])"
  by (simp add: round_trips_def response_defs param_defs build_defs)

lemma rt_input_file:
  "round_trips ResponseInputContentParam
     (JObj [(''type'', JStr ''input_file'')])"
  by (simp add: round_trips_def response_defs param_defs build_defs)

text \<open>
  Claim C1. For every variant of the tagged unions of the data model (the six output items,
  the two output content parts and the three input content parts, the three annotations,
  the nine actions, the four tools, the tool choices, the two filters), a minimal
  well-formed instance (the required fields only, with empty lists and, for a computer
  call, any action that itself round-trips) decodes, and encoding the decoded value yields
  the instance again.
\<close>

theorem minimal_instances_round_trip:
  "(\<forall>st \<in> set [''in_progress'', ''completed'', ''incomplete''].
       round_trips ResponseOutputItem
         (JObj [(''id'', JStr i), (''content'', JArr []), (''role'', JStr ''assistant''),
               (''status'', JStr st), (''type'', JStr ''message'')]))
   \<and> (\<forall>st \<in> set [''in_progress'', ''searching'', ''completed'', ''incomplete'',
                            ''failed''].
       round_trips ResponseOutputItem
         (JObj [(''id'', JStr i), (''queries'', JArr []), (''status'', JStr st),
               (''type'', JStr ''file_search_call'')]))
   \<and> (round_trips ResponseOutputItem
       (JObj [(''arguments'', JStr args), (''call_id'', JStr c), (''name'', JStr n),
             (''type'', JStr ''function_call'')]))
   \<and> (\<forall>st \<in> set [''in_progress'', ''searching'', ''completed'', ''failed''].
       round_trips ResponseOutputItem
         (JObj [(''id'', JStr i), (''status'', JStr st), (''type'', JStr ''web_search_call'')]))
   \<and> (\<forall>st \<in> set [''in_progress'', ''completed'', ''incomplete''].
       round_trips Action act \<longrightarrow>
       round_trips ResponseOutputItem
         (JObj [(''id'', JStr i), (''action'', act), (''call_id'', JStr c),
               (''pending_safety_checks'', JArr []), (''status'', JStr st),
               (''type'', JStr ''computer_call'')]))
   \<and> (round_trips ResponseOutputItem
       (JObj [(''id'', JStr i), (''summary'', JArr []), (''type'', JStr ''reasoning'')]))
   \<and> (round_trips Content
       (JObj [(''annotations'', JArr []), (''text'', JStr tx),
             (''type'', JStr ''output_text'')]))
   \<and> (round_trips Content
       (JObj [(''refusal'', JStr tx), (''type'', JStr ''refusal'')]))
   \<and> (round_trips Annotation
       (JObj [(''file_id'', JStr fid), (''index'', JInt k), (''type'', JStr ''file_citation'')]))
   \<and> (round_trips Annotation
       (JObj [(''end_index'', JInt e), (''start_index'', JInt b), (''title'', JStr ttl),
             (''type'', JStr ''url_citation''), (''url'', JStr u)]))
   \<and> (round_trips Annotation
       (JObj [(''file_id'', JStr fid), (''index'', JInt k), (''type'', JStr ''file_path'')]))
   \<and> (\<forall>bt \<in> set [''left'', ''right'', ''wheel'', ''back'', ''forward''].
       round_trips Action
         (JObj [(''button'', JStr bt), (''type'', JStr ''click''), (''x'', JInt x),
               (''y'', JInt y)]))
   \<and> (round_trips Action
       (JObj [(''type'', JStr ''double_click''), (''x'', JInt x), (''y'', JInt y)]))
   \<and> (round_trips Action
       (JObj [(''path'', JArr []), (''type'', JStr ''drag'')]))
   \<and> (round_trips Action
       (JObj [(''keys'', JArr []), (''type'', JStr ''keypress'')]))
   \<and> (round_trips Action
       (JObj [(''type'', JStr ''move''), (''x'', JInt x), (''y'', JInt y)]))
   \<and> (round_trips Action
       (JObj [(''type'', JStr ''screenshot'')]))
   \<and> (round_trips Action
       (JObj [(''scroll_x'', JInt sx), (''scroll_y'', JInt sy), (''type'', JStr ''scroll''),
             (''x'', JInt x), (''y'', JInt y)]))
   \<and> (round_trips Action
       (JObj [(''text'', JStr tx), (''type'', JStr ''type'')]))
   \<and> (round_trips Action
       (JObj [(''type'', JStr ''wait'')]))
   \<and> (round_trips Tool
       (JObj [(''type'', JStr ''file_search''), (''vector_store_ids'', JArr [])]))
   \<and> (round_trips Tool
       (JObj [(''name'', JStr n), (''parameters'', JObj []), (''strict'', JBool sb),
             (''type'', JStr ''function'')]))
   \<and> (\<forall>env \<in> set [''mac'', ''windows'', ''ubuntu'', ''browser''].
       round_trips Tool
         (JObj [(''display_height'', JFloat h), (''display_width'', JFloat w),
               (''environment'', JStr env), (''type'', JStr ''computer_use_preview'')]))
   \<and> (\<forall>wt \<in> set [''web_search_preview'', ''web_search_preview_2025_03_11''].
       round_trips Tool
         (JObj [(''type'', JStr wt)]))
   \<and> (\<forall>opt \<in> set [''none'', ''auto'', ''required''].
       round_trips ToolChoice
         (JStr opt))
   \<and> (round_trips ToolChoice
       (JObj [(''name'', JStr n), (''type'', JStr ''function'')]))
   \<and> (\<forall>op \<in> set [''eq'', ''ne'', ''gt'', ''gte'', ''lt'', ''lte''].
       round_trips (TUnion [ComparisonFilter, CompoundFilter])
         (JObj [(''key'', JStr ky), (''type'', JStr op), (''value'', JStr sv)]))
   \<and> (\<forall>op \<in> set [''eq'', ''ne'', ''gt'', ''gte'', ''lt'', ''lte''].
       round_trips (TUnion [ComparisonFilter, CompoundFilter])
         (JObj [(''key'', JStr ky), (''type'', JStr op), (''value'', JFloat fv)]))
   \<and> (\<forall>op \<in> set [''eq'', ''ne'', ''gt'', ''gte'', ''lt'', ''lte''].
       round_trips (TUnion [ComparisonFilter, CompoundFilter])
         (JObj [(''key'', JStr ky), (''type'', JStr op), (''value'', JBool bv)]))
   \<and> (\<forall>cop \<in> set [''and'', ''or''].
       round_trips (TUnion [ComparisonFilter, CompoundFilter])
         (JObj [(''filters'', JArr []), (''type'', JStr cop)]))
   \<and> (round_trips ResponseInputContentParam
       (JObj [(''text'', JStr tx), (''type'', JStr ''input_text'')]))
   \<and> (\<forall>dt \<in> set [''high'', ''low'', ''auto''].
       round_trips ResponseInputContentParam
         (JObj [(''detail'', JStr dt), (''type'', JStr ''input_image'')]))
   \<and> (round_trips ResponseInputContentParam
       (JObj [(''type'', JStr ''input_file'')]))"
  by (intro conjI)
     (rule rt_message rt_file_search_call rt_function_call rt_web_search_call
         rt_computer_call rt_reasoning rt_output_text rt_refusal rt_file_citation
         rt_url_citation rt_file_path rt_click rt_double_click rt_drag rt_keypress rt_move
         rt_screenshot rt_scroll rt_type rt_wait rt_file_search_tool rt_function_tool
         rt_computer_tool rt_web_search_tool rt_tool_choice_option rt_tool_choice_function
         rt_comparison_str rt_comparison_float rt_comparison_bool rt_compound rt_input_text
         rt_input_image rt_input_file)+

theorem minimal_instances_round_trip_witness:
  "round_trips ResponseOutputItem
        (JObj [(''id'', JStr ''id_1''), (''content'', JArr []), (''role'', JStr ''assistant''),
              (''status'', JStr ''completed''), (''type'', JStr ''message'')])
   \<and> round_trips ResponseOutputItem
        (JObj [(''id'', JStr ''id_1''), (''queries'', JArr []),
              (''status'', JStr ''in_progress''), (''type'', JStr ''file_search_call'')])
   \<and> round_trips ResponseOutputItem
        (JObj [(''arguments'', JStr ''{}''), (''call_id'', JStr ''call_1''),
              (''name'', JStr ''f''), (''type'', JStr ''function_call'')])
   \<and> round_trips ResponseOutputItem
        (JObj [(''id'', JStr ''id_1''), (''status'', JStr ''in_progress''),
              (''type'', JStr ''web_search_call'')])
   \<and> round_trips ResponseOutputItem
        (JObj [(''id'', JStr ''id_1''), (''action'', JObj [(''type'', JStr ''screenshot'')]),
              (''call_id'', JStr ''call_1''), (''pending_safety_checks'', JArr []),
              (''status'', JStr ''completed''), (''type'', JStr ''computer_call'')])
   \<and> round_trips ResponseOutputItem
        (JObj [(''id'', JStr ''id_1''), (''summary'', JArr []), (''type'', JStr ''reasoning'')])
   \<and> round_trips Content
        (JObj [(''annotations'', JArr []), (''text'', JStr ''hello''),
              (''type'', JStr ''output_text'')])
   \<and> round_trips Content
        (JObj [(''refusal'', JStr ''hello''), (''type'', JStr ''refusal'')])
   \<and> round_trips Annotation
        (JObj [(''file_id'', JStr ''file_1''), (''index'', JInt 0),
              (''type'', JStr ''file_citation'')])
   \<and> round_trips Annotation
        (JObj [(''end_index'', JInt 5), (''start_index'', JInt 0), (''title'', JStr ''t''),
              (''type'', JStr ''url_citation''), (''url'', JStr ''https://example.com'')])
   \<and> round_trips Annotation
        (JObj [(''file_id'', JStr ''file_1''), (''index'', JInt 0),
              (''type'', JStr ''file_path'')])
   \<and> round_trips Action
        (JObj [(''button'', JStr ''left''), (''type'', JStr ''click''), (''x'', JInt 1),
              (''y'', JInt 2)])
   \<and> round_trips Action
        (JObj [(''type'', JStr ''double_click''), (''x'', JInt 1), (''y'', JInt 2)])
   \<and> round_trips Action
        (JObj [(''path'', JArr []), (''type'', JStr ''drag'')])
   \<and> round_trips Action
        (JObj [(''keys'', JArr []), (''type'', JStr ''keypress'')])
   \<and> round_trips Action
        (JObj [(''type'', JStr ''move''), (''x'', JInt 1), (''y'', JInt 2)])
   \<and> round_trips Action
        (JObj [(''type'', JStr ''screenshot'')])
   \<and> round_trips Action
        (JObj [(''scroll_x'', JInt 0), (''scroll_y'', JInt 3), (''type'', JStr ''scroll''),
              (''x'', JInt 1), (''y'', JInt 2)])
   \<and> round_trips Action
        (JObj [(''text'', JStr ''hello''), (''type'', JStr ''type'')])
   \<and> round_trips Action
        (JObj [(''type'', JStr ''wait'')])
   \<and> round_trips Tool
        (JObj [(''type'', JStr ''file_search''), (''vector_store_ids'', JArr [])])
   \<and> round_trips Tool
        (JObj [(''name'', JStr ''f''), (''parameters'', JObj []), (''strict'', JBool True),
              (''type'', JStr ''function'')])
   \<and> round_trips Tool
        (JObj [(''display_height'', JFloat 768), (''display_width'', JFloat 1024),
              (''environment'', JStr ''mac''), (''type'', JStr ''computer_use_preview'')])
   \<and> round_trips Tool
        (JObj [(''type'', JStr ''web_search_preview'')])
   \<and> round_trips ToolChoice
        (JStr ''none'')
   \<and> round_trips ToolChoice
        (JObj [(''name'', JStr ''f''), (''type'', JStr ''function'')])
   \<and> round_trips (TUnion [ComparisonFilter, CompoundFilter])
        (JObj [(''key'', JStr ''k''), (''type'', JStr ''eq''), (''value'', JStr ''v'')])
   \<and> round_trips (TUnion [ComparisonFilter, CompoundFilter])
        (JObj [(''key'', JStr ''k''), (''type'', JStr ''eq''), (''value'', JFloat (1 / 2))])
   \<and> round_trips (TUnion [ComparisonFilter, CompoundFilter])
        (JObj [(''key'', JStr ''k''), (''type'', JStr ''eq''), (''value'', JBool True)])
   \<and> round_trips (TUnion [ComparisonFilter, CompoundFilter])
        (JObj [(''filters'', JArr []), (''type'', JStr ''and'')])
   \<and> round_trips ResponseInputContentParam
        (JObj [(''text'', JStr ''hello''), (''type'', JStr ''input_text'')])
   \<and> round_trips ResponseInputContentParam
        (JObj [(''detail'', JStr ''high''), (''type'', JStr ''input_image'')])
   \<and> round_trips ResponseInputContentParam
        (JObj [(''type'', JStr ''input_file'')])"
proof -
  note t = minimal_instances_round_trip
    [where i = "''id_1''" and args = "''{}''" and c = "''call_1''" and n = "''f''"
       and act = "JObj [(''type'', JStr ''screenshot'')]" and tx = "''hello''"
       and fid = "''file_1''" and k = "0" and e = "5" and b = "0" and ttl = "''t''"
       and u = "''https://example.com''" and x = "1" and y = "2" and sx = "0" and sy = "3"
       and sb = "True" and h = "768" and w = "1024" and ky = "''k''" and sv = "''v''"
       and fv = "1 / 2" and bv = "True"]
  have c17_pre: "round_trips Action (JObj [(''type'', JStr ''screenshot'')])"
    by (rule
      t [THEN conjunct2, THEN conjunct2, THEN conjunct2, THEN conjunct2, THEN conjunct2,
        THEN conjunct2, THEN conjunct2, THEN conjunct2, THEN conjunct2, THEN conjunct2,
        THEN conjunct2, THEN conjunct2, THEN conjunct2, THEN conjunct2, THEN conjunct2,
        THEN conjunct2, THEN conjunct1])
  have c1: "round_trips ResponseOutputItem
        (JObj [(''id'', JStr ''id_1''), (''content'', JArr []), (''role'', JStr ''assistant''),
              (''status'', JStr ''completed''), (''type'', JStr ''message'')])"
    using t [THEN conjunct1]
    by simp
  have c2: "round_trips ResponseOutputItem
        (JObj [(''id'', JStr ''id_1''), (''queries'', JArr []),
              (''status'', JStr ''in_progress''), (''type'', JStr ''file_search_call'')])"
    using t [THEN conjunct2, THEN conjunct1]
    by simp
  have c3: "round_trips ResponseOutputItem
        (JObj [(''arguments'', JStr ''{}''), (''call_id'', JStr ''call_1''),
              (''name'', JStr ''f''), (''type'', JStr ''function_call'')])"
    by (rule t [THEN conjunct2, THEN conjunct2, THEN conjunct1])
  have c4: "round_trips ResponseOutputItem
        (JObj [(''id'', JStr ''id_1''), (''status'', JStr ''in_progress''),
              (''type'', JStr ''web_search_call'')])"
    using t [THEN conjunct2, THEN conjunct2, THEN conjunct2, THEN conjunct1]
    by simp
  have c5: "round_trips ResponseOutputItem
        (JObj [(''id'', JStr ''id_1''), (''action'', JObj [(''type'', JStr ''screenshot'')]),
              (''call_id'', JStr ''call_1''), (''pending_safety_checks'', JArr []),
              (''status'', JStr ''completed''), (''type'', JStr ''computer_call'')])"
    using t [THEN conjunct2, THEN conjunct2, THEN conjunct2, THEN conjunct2, THEN conjunct1] c17_pre
    by simp
  have c6: "round_trips ResponseOutputItem
        (JObj [(''id'', JStr ''id_1''), (''summary'', JArr []), (''type'', JStr ''reasoning'')])"
    by (rule
      t [THEN conjunct2, THEN conjunct2, THEN conjunct2, THEN conjunct2, THEN conjunct2,
        THEN conjunct1])
  have c7: "round_trips Content
        (JObj [(''annotations'', JArr []), (''text'', JStr ''hello''),
              (''type'', JStr ''output_text'')])"
    by (rule
      t [THEN conjunct2, THEN conjunct2, THEN conjunct2, THEN conjunct2, THEN conjunct2,
        THEN conjunct2, THEN conjunct1])
  have c8: "round_trips Content
        (JObj [(''refusal'', JStr ''hello''), (''type'', JStr ''refusal'')])"
    by (rule
      t [THEN conjunct2, THEN conjunct2, THEN conjunct2, THEN conjunct2, THEN conjunct2,
        THEN conjunct2, THEN conjunct2, THEN conjunct1])
  have c9: "round_trips Annotation
        (JObj [(''file_id'', JStr ''file_1''), (''index'', JInt 0),
              (''type'', JStr ''file_citation'')])"
    by (rule
      t [THEN conjunct2, THEN conjunct2, THEN conjunct2, THEN conjunct2, THEN conjunct2,
        THEN conjunct2, THEN conjunct2, THEN conjunct2, THEN conjunct1])
  have c10: "round_trips Annotation
        (JObj [(''end_index'', JInt 5), (''start_index'', JInt 0), (''title'', JStr ''t''),
              (''type'', JStr ''url_citation''), (''url'', JStr ''https://example.com'')])"
    by (rule
      t [THEN conjunct2, THEN conjunct2, THEN conjunct2, THEN conjunct2, THEN conjunct2,
        THEN conjunct2, THEN conjunct2, THEN conjunct2, THEN conjunct2, THEN conjunct1])
  have c11: "round_trips Annotation
        (JObj [(''file_id'', JStr ''file_1''), (''index'', JInt 0),
              (''type'', JStr ''file_path'')])"
    by (rule
      t [THEN conjunct2, THEN conjunct2, THEN conjunct2, THEN conjunct2, THEN conjunct2,
        THEN conjunct2, THEN conjunct2, THEN conjunct2, THEN conjunct2, THEN conjunct2,
        THEN conjunct1])
  have c12: "round_trips Action
        (JObj [(''button'', JStr ''left''), (''type'', JStr ''click''), (''x'', JInt 1),
              (''y'', JInt 2)])"
    using
      t [THEN conjunct2, THEN conjunct2, THEN conjunct2, THEN conjunct2, THEN conjunct2,
        THEN conjunct2, THEN conjunct2, THEN conjunct2, THEN conjunct2, THEN conjunct2,
        THEN conjunct2, THEN conjunct1]
    by simp
  have c13: "round_trips Action
        (JObj [(''type'', JStr ''double_click''), (''x'', JInt 1), (''y'', JInt 2)])"
    by (rule
      t [THEN conjunct2, THEN conjunct2, THEN conjunct2, THEN conjunct2, THEN conjunct2,
        THEN conjunct2, THEN conjunct2, THEN conjunct2, THEN conjunct2, THEN conjunct2,
        THEN conjunct2, THEN conjunct2, THEN conjunct1])
  have c14: "round_trips Action
        (JObj [(''path'', JArr []), (''type'', JStr ''drag'')])"
    by (rule
      t [THEN conjunct2, THEN conjunct2, THEN conjunct2, THEN conjunct2, THEN conjunct2,
        THEN conjunct2, THEN conjunct2, THEN conjunct2, THEN conjunct2, THEN conjunct2,
        THEN conjunct2, THEN conjunct2, THEN conjunct2, THEN conjunct1])
  have c15: "round_trips Action
        (JObj [(''keys'', JArr []), (''type'', JStr ''keypress'')])"
    by (rule
      t [THEN conjunct2, THEN conjunct2, THEN conjunct2, THEN conjunct2, THEN conjunct2,
        THEN conjunct2, THEN conjunct2, THEN conjunct2, THEN conjunct2, THEN conjunct2,
        THEN conjunct2, THEN conjunct2, THEN conjunct2, THEN conjunct2, THEN conjunct1])
  have c16: "round_trips Action
        (JObj [(''type'', JStr ''move''), (''x'', JInt 1), (''y'', JInt 2)])"
    by (rule
      t [THEN conjunct2, THEN conjunct2, THEN conjunct2, THEN conjunct2, THEN conjunct2,
        THEN conjunct2, THEN conjunct2, THEN conjunct2, THEN conjunct2, THEN conjunct2,
        THEN conjunct2, THEN conjunct2, THEN conjunct2, THEN conjunct2, THEN conjunct2,
        THEN conjunct1])
  have c17: "round_trips Action
        (JObj [(''type'', JStr ''screenshot'')])"
    by (rule
      t [THEN conjunct2, THEN conjunct2, THEN conjunct2, THEN conjunct2, THEN conjunct2,
        THEN conjunct2, THEN conjunct2, THEN conjunct2, THEN conjunct2, THEN conjunct2,
        THEN conjunct2, THEN conjunct2, THEN conjunct2, THEN conjunct2, THEN conjunct2,
        THEN conjunct2, THEN conjunct1])
  have c18: "round_trips Action
        (JObj [(''scroll_x'', JInt 0), (''scroll_y'', JInt 3), (''type'', JStr ''scroll''),
              (''x'', JInt 1), (''y'', JInt 2)])"
    by (rule
      t [THEN conjunct2, THEN conjunct2, THEN conjunct2, THEN conjunct2, THEN conjunct2,
        THEN conjunct2, THEN conjunct2, THEN conjunct2, THEN conjunct2, THEN conjunct2,
        THEN conjunct2, THEN conjunct2, THEN conjunct2, THEN conjunct2, THEN conjunct2,
        THEN conjunct2, THEN conjunct2, THEN conjunct1])
  have c19: "round_trips Action
        (JObj [(''text'', JStr ''hello''), (''type'', JStr ''type'')])"
    by (rule
      t [THEN conjunct2, THEN conjunct2, THEN conjunct2, THEN conjunct2, THEN conjunct2,
        THEN conjunct2, THEN conjunct2, THEN conjunct2, THEN conjunct2, THEN conjunct2,
        THEN conjunct2, THEN conjunct2, THEN conjunct2, THEN conjunct2, THEN conjunct2,
        THEN conjunct2, THEN conjunct2, THEN conjunct2, THEN conjunct1])
  have c20: "round_trips Action
        (JObj [(''type'', JStr ''wait'')])"
    by (rule
      t [THEN conjunct2, THEN conjunct2, THEN conjunct2, THEN conjunct2, THEN conjunct2,
        THEN conjunct2, THEN conjunct2, THEN conjunct2, THEN conjunct2, THEN conjunct2,
        THEN conjunct2, THEN conjunct2, THEN conjunct2, THEN conjunct2, THEN conjunct2,
        THEN conjunct2, THEN conjunct2, THEN conjunct2, THEN conjunct2, THEN conjunct1])
  have c21: "round_trips Tool
        (JObj [(''type'', JStr ''file_search''), (''vector_store_ids'', JArr [])])"
    by (rule
      t [THEN conjunct2, THEN conjunct2, THEN conjunct2, THEN conjunct2, THEN conjunct2,
        THEN conjunct2, THEN conjunct2, THEN conjunct2, THEN conjunct2, THEN conjunct2,
        THEN conjunct2, THEN conjunct2, THEN conjunct2, THEN conjunct2, THEN conjunct2,
        THEN conjunct2, THEN conjunct2, THEN conjunct2, THEN conjunct2, THEN conjunct2,
        THEN conjunct1])
  have c22: "round_trips Tool
        (JObj [(''name'', JStr ''f''), (''parameters'', JObj []), (''strict'', JBool True),
              (''type'', JStr ''function'')])"
    by (rule
      t [THEN conjunct2, THEN conjunct2, THEN conjunct2, THEN conjunct2, THEN conjunct2,
        THEN conjunct2, THEN conjunct2, THEN conjunct2, THEN conjunct2, THEN conjunct2,
        THEN conjunct2, THEN conjunct2, THEN conjunct2, THEN conjunct2, THEN conjunct2,
        THEN conjunct2, THEN conjunct2, THEN conjunct2, THEN conjunct2, THEN conjunct2,
        THEN conjunct2, THEN conjunct1])
  have c23: "round_trips Tool
        (JObj [(''display_height'', JFloat 768), (''display_width'', JFloat 1024),
              (''environment'', JStr ''mac''), (''type'', JStr ''computer_use_preview'')])"
    using
      t [THEN conjunct2, THEN conjunct2, THEN conjunct2, THEN conjunct2, THEN conjunct2,
        THEN conjunct2, THEN conjunct2, THEN conjunct2, THEN conjunct2, THEN conjunct2,
        THEN conjunct2, THEN conjunct2, THEN conjunct2, THEN conjunct2, THEN conjunct2,
        THEN conjunct2, THEN conjunct2, THEN conjunct2, THEN conjunct2, THEN conjunct2,
        THEN conjunct2, THEN conjunct2, THEN conjunct1]
    by simp
  have c24: "round_trips Tool
        (JObj [(''type'', JStr ''web_search_preview'')])"
    using
      t [THEN conjunct2, THEN conjunct2, THEN conjunct2, THEN conjunct2, THEN conjunct2,
        THEN conjunct2, THEN conjunct2, THEN conjunct2, THEN conjunct2, THEN conjunct2,
        THEN conjunct2, THEN conjunct2, THEN conjunct2, THEN conjunct2, THEN conjunct2,
        THEN conjunct2, THEN conjunct2, THEN conjunct2, THEN conjunct2, THEN conjunct2,
        THEN conjunct2, THEN conjunct2, THEN conjunct2, THEN conjunct1]
    by simp
  have c25: "round_trips ToolChoice
        (JStr ''none'')"
    using
      t [THEN conjunct2, THEN conjunct2, THEN conjunct2, THEN conjunct2, THEN conjunct2,
        THEN conjunct2, THEN conjunct2, THEN conjunct2, THEN conjunct2, THEN conjunct2,
        THEN conjunct2, THEN conjunct2, THEN conjunct2, THEN conjunct2, THEN conjunct2,
        THEN conjunct2, THEN conjunct2, THEN conjunct2, THEN conjunct2, THEN conjunct2,
        THEN conjunct2, THEN conjunct2, THEN conjunct2, THEN conjunct2, THEN conjunct1]
    by simp
  have c26: "round_trips ToolChoice
        (JObj [(''name'', JStr ''f''), (''type'', JStr ''function'')])"
    by (rule
      t [THEN conjunct2, THEN conjunct2, THEN conjunct2, THEN conjunct2, THEN conjunct2,
        THEN conjunct2, THEN conjunct2, THEN conjunct2, THEN conjunct2, THEN conjunct2,
        THEN conjunct2, THEN conjunct2, THEN conjunct2, THEN conjunct2, THEN conjunct2,
        THEN conjunct2, THEN conjunct2, THEN conjunct2, THEN conjunct2, THEN conjunct2,
        THEN conjunct2, THEN conjunct2, THEN conjunct2, THEN conjunct2, THEN conjunct2,
        THEN conjunct1])
  have c27: "round_trips (TUnion [ComparisonFilter, CompoundFilter])
        (JObj [(''key'', JStr ''k''), (''type'', JStr ''eq''), (''value'', JStr ''v'')])"
    using
      t [THEN conjunct2, THEN conjunct2, THEN conjunct2, THEN conjunct2, THEN conjunct2,
        THEN conjunct2, THEN conjunct2, THEN conjunct2, THEN conjunct2, THEN conjunct2,
        THEN conjunct2, THEN conjunct2, THEN conjunct2, THEN conjunct2, THEN conjunct2,
        THEN conjunct2, THEN conjunct2, THEN conjunct2, THEN conjunct2, THEN conjunct2,
        THEN conjunct2, THEN conjunct2, THEN conjunct2, THEN conjunct2, THEN conjunct2,
        THEN conjunct2, THEN conjunct1]
    by simp
  have c28: "round_trips (TUnion [ComparisonFilter, CompoundFilter])
        (JObj [(''key'', JStr ''k''), (''type'', JStr ''eq''), (''value'', JFloat (1 / 2))])"
    using
      t [THEN conjunct2, THEN conjunct2, THEN conjunct2, THEN conjunct2, THEN conjunct2,
        THEN conjunct2, THEN conjunct2, THEN conjunct2, THEN conjunct2, THEN conjunct2,
        THEN conjunct2, THEN conjunct2, THEN conjunct2, THEN conjunct2, THEN conjunct2,
        THEN conjunct2, THEN conjunct2, THEN conjunct2, THEN conjunct2, THEN conjunct2,
        THEN conjunct2, THEN conjunct2, THEN conjunct2, THEN conjunct2, THEN conjunct2,
        THEN conjunct2, THEN conjunct2, THEN conjunct1]
    by simp
  have c29: "round_trips (TUnion [ComparisonFilter, CompoundFilter])
        (JObj [(''key'', JStr ''k''), (''type'', JStr ''eq''), (''value'', JBool True)])"
    using
      t [THEN conjunct2, THEN conjunct2, THEN conjunct2, THEN conjunct2, THEN conjunct2,
        THEN conjunct2, THEN conjunct2, THEN conjunct2, THEN conjunct2, THEN conjunct2,
        THEN conjunct2, THEN conjunct2, THEN conjunct2, THEN conjunct2, THEN conjunct2,
        THEN conjunct2, THEN conjunct2, THEN conjunct2, THEN conjunct2, THEN conjunct2,
        THEN conjunct2, THEN conjunct2, THEN conjunct2, THEN conjunct2, THEN conjunct2,
        THEN conjunct2, THEN conjunct2, THEN conjunct2, THEN conjunct1]
    by simp
  have c30: "round_trips (TUnion [ComparisonFilter, CompoundFilter])
        (JObj [(''filters'', JArr []), (''type'', JStr ''and'')])"
    using
      t [THEN conjunct2, THEN conjunct2, THEN conjunct2, THEN conjunct2, THEN conjunct2,
        THEN conjunct2, THEN conjunct2, THEN conjunct2, THEN conjunct2, THEN conjunct2,
        THEN conjunct2, THEN conjunct2, THEN conjunct2, THEN conjunct2, THEN conjunct2,
        THEN conjunct2, THEN conjunct2, THEN conjunct2, THEN conjunct2, THEN conjunct2,
        THEN conjunct2, THEN conjunct2, THEN conjunct2, THEN conjunct2, THEN conjunct2,
        THEN conjunct2, THEN conjunct2, THEN conjunct2, THEN conjunct2, THEN conjunct1]
    by simp
  have c31: "round_trips ResponseInputContentParam
        (JObj [(''text'', JStr ''hello''), (''type'', JStr ''input_text'')])"
    by (rule
      t [THEN conjunct2, THEN conjunct2, THEN conjunct2, THEN conjunct2, THEN conjunct2,
        THEN conjunct2, THEN conjunct2, THEN conjunct2, THEN conjunct2, THEN conjunct2,
        THEN conjunct2, THEN conjunct2, THEN conjunct2, THEN conjunct2, THEN conjunct2,
        THEN conjunct2, THEN conjunct2, THEN conjunct2, THEN conjunct2, THEN conjunct2,
        THEN conjunct2, THEN conjunct2, THEN conjunct2, THEN conjunct2, THEN conjunct2,
        THEN conjunct2, THEN conjunct2, THEN conjunct2, THEN conjunct2, THEN conjunct2,
        THEN conjunct1])
  have c32: "round_trips ResponseInputContentParam
        (JObj [(''detail'', JStr ''high''), (''type'', JStr ''input_image'')])"
    using
      t [THEN conjunct2, THEN conjunct2, THEN conjunct2, THEN conjunct2, THEN conjunct2,
        THEN conjunct2, THEN conjunct2, THEN conjunct2, THEN conjunct2, THEN conjunct2,
        THEN conjunct2, THEN conjunct2, THEN conjunct2, THEN conjunct2, THEN conjunct2,
        THEN conjunct2, THEN conjunct2, THEN conjunct2, THEN conjunct2, THEN conjunct2,
        THEN conjunct2, THEN conjunct2, THEN conjunct2, THEN conjunct2, THEN conjunct2,
        THEN conjunct2, THEN conjunct2, THEN conjunct2, THEN conjunct2, THEN conjunct2,
        THEN conjunct2, THEN conjunct1]
    by simp
  have c33: "round_trips ResponseInputContentParam
        (JObj [(''type'', JStr ''input_file'')])"
    by (rule
      t [THEN conjunct2, THEN conjunct2, THEN conjunct2, THEN conjunct2, THEN conjunct2,
        THEN conjunct2, THEN conjunct2, THEN conjunct2, THEN conjunct2, THEN conjunct2,
        THEN conjunct2, THEN conjunct2, THEN conjunct2, THEN conjunct2, THEN conjunct2,
        THEN conjunct2, THEN conjunct2, THEN conjunct2, THEN conjunct2, THEN conjunct2,
        THEN conjunct2, THEN conjunct2, THEN conjunct2, THEN conjunct2, THEN conjunct2,
        THEN conjunct2, THEN conjunct2, THEN conjunct2, THEN conjunct2, THEN conjunct2,
        THEN conjunct2, THEN conjunct2])
  show ?thesis
    by (intro conjI)
       (rule c1 c2 c3 c4 c5 c6 c7 c8 c9 c10 c11 c12 c13 c14 c15 c16 c17 c18 c19 c20 c21 c22
           c23 c24 c25 c26 c27 c28 c29 c30 c31 c32 c33)+
qed

end
